theory Spec2Isabelle
  imports Complex_Main
begin

section \<open>Symbol layout of mapbox-gl-js: data model\<close>

text \<open>
  The development embeds \<^verbatim>\<open>src/symbol/symbol_layout.ts\<close>. JavaScript numbers are
  modelled as reals (no rounding, no NaN); \<^verbatim>\<open>undefined\<close> and \<^verbatim>\<open>null\<close> are
  \<open>None\<close>; a raised \<^verbatim>\<open>TypeError\<close> is the left summand of a result.
\<close>

datatype js_error = TypeError

text \<open>\<^verbatim>\<open>Point\<close> of @mapbox/point-geometry and \<^verbatim>\<open>Anchor extends Point\<close>.\<close>

record Point =
  p_x :: real
  p_y :: real

record Anchor = Point +
  a_z :: real
  angle :: real
  segment :: "nat option"

definition new_Anchor :: "real \<Rightarrow> real \<Rightarrow> real \<Rightarrow> real \<Rightarrow> nat option \<Rightarrow> Anchor" where
  "new_Anchor px py pz ang seg = \<lparr>p_x = px, p_y = py, a_z = pz, angle = ang, segment = seg\<rparr>"

text \<open>\<^verbatim>\<open>Point.dist\<close>: the Euclidean distance of two points.\<close>

definition dist_to :: "'a Point_scheme \<Rightarrow> 'b Point_scheme \<Rightarrow> real" where
  "dist_to p q = sqrt ((p_x q - p_x p)\<^sup>2 + (p_y q - p_y p)\<^sup>2)"

text \<open>
  What \<^verbatim>\<open>evaluateBoxCollisionFeature\<close> and \<^verbatim>\<open>evaluateCircleCollisionFeature\<close> read of
  their argument \<^verbatim>\<open>shaped: any\<close>: the bounding box and the optional collision padding
  \<^verbatim>\<open>[left, top, right, bottom]\<close>. A \<^verbatim>\<open>Shaping\<close> and a \<^verbatim>\<open>PositionedIcon\<close> extend it.
\<close>

record shaped =
  s_top :: real
  s_bottom :: real
  s_left :: real
  s_right :: real
  collisionPadding :: "(real \<times> real \<times> real \<times> real) option"

record PositionedGlyph =
  g_x :: real
  g_y :: real

record PositionedLine =
  positionedGlyphs :: "PositionedGlyph list"

record Shaping = shaped +
  positionedLines :: "PositionedLine list"
  s_text :: string
  iconsInText :: bool

record PositionedIcon = shaped +
  pi_image :: string

text \<open>
  A JavaScript object used as a dictionary: string keys in insertion order (no key of
  this program is an integer index, which would be enumerated first). Writing an existing
  key keeps its place; \<^verbatim>\<open>for ... in\<close> and \<^verbatim>\<open>Object.keys\<close> enumerate \<open>obj_keys\<close>.
\<close>

type_synonym 'v js_object = "(string \<times> 'v) list"

fun obj_set :: "'v js_object \<Rightarrow> string \<Rightarrow> 'v \<Rightarrow> 'v js_object" where
  "obj_set [] k v = [(k, v)]"
| "obj_set ((k', v') # kvs) k v = (if k' = k then (k, v) # kvs else (k', v') # obj_set kvs k v)"

definition obj_keys :: "'v js_object \<Rightarrow> string list" where
  "obj_keys obj = map fst obj"

text \<open>
  Reading a property whose value may itself be \<^verbatim>\<open>undefined\<close>: a missing key and a key
  holding \<^verbatim>\<open>undefined\<close> both read as \<open>None\<close>.
\<close>

definition obj_get :: "'v option js_object \<Rightarrow> string \<Rightarrow> 'v option" where
  "obj_get obj k = (case map_of obj k of Some v \<Rightarrow> v | None \<Rightarrow> None)"

text \<open>
  \<^verbatim>\<open>shapedTextOrientations\<close>: \<^verbatim>\<open>{horizontal: {}, vertical: undefined}\<close>, the horizontal
  object keyed by justification.
\<close>

datatype TextJustify = J_auto | J_left | J_center | J_right

fun justify_key :: "TextJustify \<Rightarrow> string" where
  "justify_key J_auto = ''auto''"
| "justify_key J_left = ''left''"
| "justify_key J_center = ''center''"
| "justify_key J_right = ''right''"

record ShapedTextOrientations =
  horizontal :: "Shaping option js_object"
  vertical :: "Shaping option"

datatype WritingMode = WM_horizontal | WM_vertical | WM_horizontalOnly

datatype js_number = Num real | Infinity

text \<open>The features of the bucket (\<^verbatim>\<open>SymbolFeature\<close>) and the evaluated style.\<close>

datatype FeatureType = T_Unknown | T_Point | T_LineString | T_Polygon

record ResolvedImage =
  namePrimary :: string
  nameSecondary :: "string option"

record Feature =
  f_text :: "string option"
  f_icon :: "ResolvedImage option"
  f_type :: FeatureType
  f_geometry :: "Point list list"
  f_index :: nat
  f_sourceLayerIndex :: nat
  f_sortKey :: "real option"

datatype SymbolPlacement =
  placement_point | placement_line | placement_line_center | placement_vertex
  | placement_first_vertex | placement_last_vertex | placement_first_last_vertex
  | placement_except_first_vertex | placement_except_last_vertex | placement_middle_vertex

text \<open>\<^verbatim>\<open>layout.get('symbol-placement').includes('line')\<close> on the placement's name.\<close>

fun includes_line :: "SymbolPlacement \<Rightarrow> bool" where
  "includes_line placement_line = True"
| "includes_line placement_line_center = True"
| "includes_line _ = False"

text \<open>
  The layout of the bucket's first layer, \<^verbatim>\<open>bucket.layers[0].layout\<close> with its
  unevaluated values. The expression evaluator is outside the program: a data-driven
  property is the function that \<^verbatim>\<open>evaluate(feature, {}, canonical)\<close> computes.
  \<open>text_size_at z\<close> is \<^verbatim>\<open>'text-size'\<close> possibly evaluated at zoom \<open>z\<close>; the source
  guards its evaluation at zoom 18 against \<^verbatim>\<open>undefined\<close>, so \<open>text_size_max\<close> returns
  an option.
\<close>

record Layout =
  text_size_scale_range :: "real \<times> real"
  icon_size_scale_range :: "real \<times> real"
  text_rotation_alignment :: string
  icon_rotation_alignment :: string
  symbol_placement :: SymbolPlacement
  text_size :: "Feature \<Rightarrow> real"
  icon_size :: "Feature \<Rightarrow> real"
  text_size_at :: "real \<Rightarrow> Feature \<Rightarrow> real"
  icon_size_at :: "real \<Rightarrow> Feature \<Rightarrow> real"
  text_size_max :: "Feature \<Rightarrow> real option"
  text_font :: "Feature \<Rightarrow> string list"
  text_letter_spacing :: "Feature \<Rightarrow> real"
  text_line_height :: "Feature \<Rightarrow> real"
  text_anchor :: "Feature \<Rightarrow> string"
  text_variable_anchor :: "string list option"
  text_radial_offset :: "Feature \<Rightarrow> real"
  text_radial_offset_unset :: bool
  text_offset :: "Feature \<Rightarrow> real \<times> real"
  text_justify :: "Feature \<Rightarrow> TextJustify"
  text_max_width :: "Feature \<Rightarrow> real"
  text_writing_mode :: "string list"
  text_rotate :: "Feature \<Rightarrow> real"
  text_padding :: real
  text_max_angle :: real
  icon_offset :: "Feature \<Rightarrow> real \<times> real"
  icon_anchor :: "Feature \<Rightarrow> string"
  icon_rotate :: "Feature \<Rightarrow> real"
  icon_rotate_constantOr :: "real \<Rightarrow> real"
  icon_padding :: real
  icon_text_fit :: "Feature \<Rightarrow> string"
  icon_text_fit_padding :: "Feature \<Rightarrow> real \<times> real \<times> real \<times> real"
  symbol_spacing :: real

text \<open>The \<^verbatim>\<open>Sizes\<close> bundle of lines 48-58.\<close>

record Sizes =
  sz_scaleFactor :: real
  sz_textSizeScaleRange :: "real \<times> real"
  sz_iconSizeScaleRange :: "real \<times> real"
  sz_textScaleFactor :: real
  sz_iconScaleFactor :: real
  sz_layoutTextSize :: "Feature \<Rightarrow> real"
  sz_layoutIconSize :: "Feature \<Rightarrow> real"
  sz_textMaxSize :: "Feature \<Rightarrow> real option"
  sz_compositeTextSizes :: "((Feature \<Rightarrow> real) \<times> (Feature \<Rightarrow> real)) option"
  sz_compositeIconSizes :: "((Feature \<Rightarrow> real) \<times> (Feature \<Rightarrow> real)) option"

datatype SizeData = Size_constant | Size_source | Size_camera real real | Size_composite real real

text \<open>
  The stores of the bucket. \<^verbatim>\<open>emplaceBack\<close> appends one row and \<^verbatim>\<open>length\<close> counts the
  rows; the rows keep the arguments of the calls in the source.
\<close>

record CollisionBox =
  cb_projectedAnchorX :: real
  cb_projectedAnchorY :: real
  cb_projectedAnchorZ :: real
  cb_tileAnchorX :: real
  cb_tileAnchorY :: real
  cb_x1 :: real
  cb_y1 :: real
  cb_x2 :: real
  cb_y2 :: real
  cb_padding :: real
  cb_featureIndex :: nat
  cb_sourceLayerIndex :: nat
  cb_bucketIndex :: nat

record SymbolInstance =
  si_tileAnchorX :: real
  si_tileAnchorY :: real
  si_projectedAnchorX :: real
  si_projectedAnchorY :: real
  si_projectedAnchorZ :: real
  si_rightJustifiedTextSymbolIndex :: int
  si_centerJustifiedTextSymbolIndex :: int
  si_leftJustifiedTextSymbolIndex :: int
  si_verticalPlacedTextSymbolIndex :: int
  si_placedIconSymbolIndex :: int
  si_verticalPlacedIconSymbolIndex :: int
  si_key :: nat
  si_textBoxStartIndex :: nat
  si_textBoxEndIndex :: nat
  si_verticalTextBoxStartIndex :: nat
  si_verticalTextBoxEndIndex :: nat
  si_iconBoxStartIndex :: nat
  si_iconBoxEndIndex :: nat
  si_verticalIconBoxStartIndex :: nat
  si_verticalIconBoxEndIndex :: nat
  si_featureIndex :: nat
  si_numHorizontalGlyphVertices :: nat
  si_numVerticalGlyphVertices :: nat
  si_numIconVertices :: nat
  si_numVerticalIconVertices :: nat
  si_useRuntimeCollisionCircles :: nat
  si_crossTileID :: nat
  si_textOffset0 :: real
  si_textOffset1 :: js_number
  si_collisionCircleDiameter :: real
  si_zOffset :: real
  si_hasIconTextFit :: nat

record SymbolQuad =
  glyphOffset :: "real \<times> real"

record Globe =
  globe_anchor :: Anchor
  globe_up :: "real \<times> real \<times> real"

record PlacedSymbol =
  ps_tileAnchorX :: real
  ps_tileAnchorY :: real
  ps_numGlyphs :: nat
  ps_sizeData :: "real list option"
  ps_lineOffset :: "real \<times> real"
  ps_alongLine :: bool
  ps_writingMode :: "WritingMode option"
  ps_lineStartIndex :: nat
  ps_lineLength :: nat
  ps_associatedIconIndex :: int
  ps_hasAnySecondaryIcon :: bool

record SymbolBuffers =
  placedSymbolArray :: "PlacedSymbol list"

datatype warning =
  TextSizeWarning "string option" | IconSizeWarning "string option" | MixedSdfWarning
  | TooManyGlyphsWarning

record StyleImage =
  sdf :: bool
  usvg :: bool
  img_pixelRatio :: real

text \<open>
  The bucket. The fields up to \<open>layout\<close> are read only by the layout; the others are
  written. \<open>warnOnceHistory\<close> is the history that \<^verbatim>\<open>warnOnce\<close> of the utilities keeps
  (module state there; threaded with the bucket here).
\<close>

record SymbolBucket =
  overscaling :: int
  zoom :: real
  pixelRatio :: real
  allowVerticalPlacement :: bool
  textSizeData :: SizeData
  iconSizeData :: SizeData
  bucket_index :: nat
  layerIds :: "string list"
  features :: "Feature list"
  layout :: Layout
  tilePixelRatio :: real
  compareText :: "string \<rightharpoonup> Anchor list"
  iconsNeedLinear :: bool
  sdfIcons :: "bool option"
  bucket_iconsInText :: bool
  hasAnyIconTextFit :: bool
  collisionBoxArray :: "CollisionBox list"
  symbolInstances :: "SymbolInstance list"
  text_buffers :: SymbolBuffers
  icon_buffers :: SymbolBuffers
  glyphOffsetArray :: "real list"
  lineVertexArray :: "Point list"
  sortKeyRanges :: "(real \<times> nat \<times> nat) list"
  warnOnceHistory :: "warning list"
  collisionDebugBuffers :: "Point list"

text \<open>
  The collaborators of the layout whose code is outside \<^verbatim>\<open>symbol_layout.ts\<close> (shaper,
  quads, line clipper, anchor walker, geometry utilities, projection, the sinks of the
  bucket that are not modelled below) and the imported constants. They are parameters:
  every theorem holds for any choice of them. \<open>generateCollisionDebugBuffers\<close> returns
  the debug vertices that the method of the bucket stores. Arguments that are the same for the whole
  run (glyph map, atlas positions, canonical tile id, available images, brightness, the
  layer) are not repeated in the signatures.
\<close>

record ShapeTextArgs =
  st_text :: string
  st_fontstack :: string
  st_maxWidth :: js_number
  st_lineHeight :: real
  st_textAnchor :: string
  st_textJustify :: TextJustify
  st_spacing :: real
  st_translate :: "real \<times> real"
  st_writingMode :: WritingMode
  st_allowVerticalPlacement :: bool
  st_layoutTextSize :: real
  st_layoutTextSizeThisZoom :: real

record Env =
  EXTENT :: real
  ONE_EM :: real
  SIZE_PACK_FACTOR :: real
  murmur3 :: "string \<Rightarrow> nat"
  shapeText :: "ShapeTextArgs \<Rightarrow> Shaping option"
  shapeIcon :: "nat option \<Rightarrow> nat option \<Rightarrow> real \<times> real \<Rightarrow> string \<Rightarrow> PositionedIcon"
  fitIconToText :: "PositionedIcon \<Rightarrow> Shaping \<Rightarrow> string \<Rightarrow> real \<times> real \<times> real \<times> real
                     \<Rightarrow> real \<times> real \<Rightarrow> real \<Rightarrow> PositionedIcon"
  getGlyphQuads :: "Anchor \<Rightarrow> Shaping \<Rightarrow> real \<times> real \<Rightarrow> bool \<Rightarrow> Feature \<Rightarrow> bool \<Rightarrow> SymbolQuad list"
  getIconQuads :: "PositionedIcon \<Rightarrow> real \<Rightarrow> bool \<Rightarrow> bool \<Rightarrow> real \<Rightarrow> SymbolQuad list"
  clipLine :: "Point list list \<Rightarrow> real \<Rightarrow> real \<Rightarrow> real \<Rightarrow> real \<Rightarrow> Point list list"
  getAnchors :: "Point list \<Rightarrow> real \<Rightarrow> real \<Rightarrow> Shaping option \<Rightarrow> PositionedIcon option
                  \<Rightarrow> real \<Rightarrow> real \<Rightarrow> int \<Rightarrow> real \<Rightarrow> Anchor list"
  getCenterAnchor :: "Point list \<Rightarrow> real \<Rightarrow> Shaping option \<Rightarrow> PositionedIcon option
                  \<Rightarrow> real \<Rightarrow> real \<Rightarrow> Anchor option"
  findPoleOfInaccessibility :: "Point list list \<Rightarrow> real \<Rightarrow> Point"
  classifyRings :: "Point list list \<Rightarrow> nat \<Rightarrow> Point list list list"
  allowsVerticalWritingMode :: "string \<Rightarrow> bool"
  allowsLetterSpacing :: "string \<Rightarrow> bool"
  getRasterizedIconSize :: "SizeData \<Rightarrow> (real \<Rightarrow> Feature \<Rightarrow> real) \<Rightarrow> real \<Rightarrow> Feature \<Rightarrow> real"
  serializePrimary :: "ResolvedImage \<Rightarrow> real \<Rightarrow> string"
  serializeSecondary :: "ResolvedImage \<Rightarrow> real \<Rightarrow> string"
  imageMap :: "string \<rightharpoonup> StyleImage"
  imagePositions :: "string \<rightharpoonup> nat"
  projection_name :: string
  projectTilePoint :: "real \<Rightarrow> real \<Rightarrow> real \<times> real \<times> real"
  upVector :: "real \<Rightarrow> real \<Rightarrow> real \<times> real \<times> real"
  createArrays :: "SymbolBucket \<Rightarrow> SymbolBucket"
  generateCollisionDebugBuffers :: "real \<Rightarrow> CollisionBox list \<Rightarrow> real \<Rightarrow> Point list"
  addToLineVertexArray :: "Point list \<Rightarrow> Anchor \<Rightarrow> Point list option \<Rightarrow> (nat \<times> nat) \<times> Point list"
  addToSortKeyRanges :: "(real \<times> nat \<times> nat) list \<Rightarrow> nat \<Rightarrow> real \<Rightarrow> (real \<times> nat \<times> nat) list"

section \<open>Collision feature builder\<close>

text \<open>
  \<^verbatim>\<open>evaluateCircleCollisionFeature\<close> (lines 833-844). The function writes
  \<^verbatim>\<open>shaped.top\<close> and \<^verbatim>\<open>shaped.bottom\<close>, so the model returns the object after the call
  next to the result.
\<close>

definition evaluateCircleCollisionFeature :: "'a shaped_scheme \<Rightarrow> real option \<times> 'a shaped_scheme" where
  "evaluateCircleCollisionFeature shaped0 =
     (let shaped1 = (case collisionPadding shaped0 of
                       Some (p0, p1, p2, p3) \<Rightarrow>
                         (let s = shaped0\<lparr>s_top := s_top shaped0 - p1\<rparr>
                          in s\<lparr>s_bottom := s_bottom s + p3\<rparr>)
                     | None \<Rightarrow> shaped0);
          height = s_bottom shaped1 - s_top shaped1
      in (if height > 0 then Some (max 10 height) else None, shaped1))"

text \<open>
  The height after applying collision padding, in the words of the specification: the
  bottom moved down by the bottom padding minus the top moved up by the top padding.
\<close>

definition paddedHeight :: "'a shaped_scheme \<Rightarrow> real" where
  "paddedHeight sh =
     (case collisionPadding sh of
        Some (p0, p1, p2, p3) \<Rightarrow> (s_bottom sh + p3) - (s_top sh - p1)
      | None \<Rightarrow> s_bottom sh - s_top sh)"

text \<open>
  \<^verbatim>\<open>evaluateBoxCollisionFeature\<close> (lines 771-831). \<^verbatim>\<open>Point._rotateAround\<close> is the
  rotation of @mapbox/point-geometry.
\<close>

text \<open>
  Modelled from the spec: \<^verbatim>\<open>degToRad\<close> of the utilities is not under src; the rotation
  of a collision box is given in degrees and the corners are rotated by that angle.
\<close>

definition degToRad :: "real \<Rightarrow> real" where
  "degToRad a = a * pi / 180"

definition rotateAround :: "real \<Rightarrow> Point \<Rightarrow> Point \<Rightarrow> Point" where
  "rotateAround a c p =
     \<lparr>p_x = p_x c + cos a * (p_x p - p_x c) - sin a * (p_y p - p_y c),
      p_y = p_y c + sin a * (p_x p - p_x c) + cos a * (p_y p - p_y c)\<rparr>"

definition evaluateBoxCollisionFeature ::
  "CollisionBox list \<Rightarrow> Anchor \<Rightarrow> Anchor \<Rightarrow> nat \<Rightarrow> nat \<Rightarrow> nat \<Rightarrow> 'a shaped_scheme \<Rightarrow> real \<Rightarrow> real
     \<Rightarrow> (real \<times> real) option \<Rightarrow> real \<Rightarrow> nat \<times> CollisionBox list" where
  "evaluateBoxCollisionFeature cba projectedAnchor tileAnchor featureIndex sourceLayerIndex
       bucketIndex shaped0 padding rotation textOffset iconScaledSize =
     (let y1 = s_top shaped0 / iconScaledSize;
          y2 = s_bottom shaped0 / iconScaledSize;
          x1 = s_left shaped0 / iconScaledSize;
          x2 = s_right shaped0 / iconScaledSize;
          (x1, y1, x2, y2) =
            (case collisionPadding shaped0 of
               Some (p0, p1, p2, p3) \<Rightarrow> (x1 - p0, y1 - p1, x2 + p2, y2 + p3)
             | None \<Rightarrow> (x1, y1, x2, y2));
          (x1, y1, x2, y2) =
            (if rotation \<noteq> 0 then
               (let rotateRadians = degToRad rotation;
                    rotateCenter = (case textOffset of
                                      Some (ox, oy) \<Rightarrow> \<lparr>p_x = ox, p_y = oy\<rparr>
                                    | None \<Rightarrow> \<lparr>p_x = 0, p_y = 0\<rparr>);
                    tl = rotateAround rotateRadians rotateCenter \<lparr>p_x = x1, p_y = y1\<rparr>;
                    tr = rotateAround rotateRadians rotateCenter \<lparr>p_x = x2, p_y = y1\<rparr>;
                    bl = rotateAround rotateRadians rotateCenter \<lparr>p_x = x1, p_y = y2\<rparr>;
                    br = rotateAround rotateRadians rotateCenter \<lparr>p_x = x2, p_y = y2\<rparr>
                in (min (min (min (p_x tl) (p_x tr)) (p_x bl)) (p_x br),
                    min (min (min (p_y tl) (p_y tr)) (p_y bl)) (p_y br),
                    max (max (max (p_x tl) (p_x tr)) (p_x bl)) (p_x br),
                    max (max (max (p_y tl) (p_y tr)) (p_y bl)) (p_y br)))
             else (x1, y1, x2, y2));
          cba' = cba @
            [\<lparr>cb_projectedAnchorX = p_x projectedAnchor, cb_projectedAnchorY = p_y projectedAnchor,
              cb_projectedAnchorZ = a_z projectedAnchor,
              cb_tileAnchorX = p_x tileAnchor, cb_tileAnchorY = p_y tileAnchor,
              cb_x1 = x1, cb_y1 = y1, cb_x2 = x2, cb_y2 = y2, cb_padding = padding,
              cb_featureIndex = featureIndex, cb_sourceLayerIndex = sourceLayerIndex,
              cb_bucketIndex = bucketIndex\<rparr>]
      in (length cba' - 1, cba'))"

section \<open>Sinks and warnings\<close>

text \<open>
  Modelled from the spec: \<^verbatim>\<open>warnOnce\<close> of the utilities is not under src; a fidelity
  warning is logged once per cause, so a message already in the history is not logged
  again.
\<close>

definition warnOnce :: "warning \<Rightarrow> SymbolBucket \<Rightarrow> SymbolBucket" where
  "warnOnce w bucket =
     (if w \<in> set (warnOnceHistory bucket) then bucket
      else bucket\<lparr>warnOnceHistory := warnOnceHistory bucket @ [w]\<rparr>)"

definition MAX_GLYPH_ICON_SIZE :: real where
  "MAX_GLYPH_ICON_SIZE = 255"

definition MAX_PACKED_SIZE :: "Env \<Rightarrow> real" where
  "MAX_PACKED_SIZE env = MAX_GLYPH_ICON_SIZE * SIZE_PACK_FACTOR env"

definition MAX_GLYPHS :: nat where
  "MAX_GLYPHS = 65535"

text \<open>
  Modelled from the spec: \<^verbatim>\<open>SymbolBucket.addSymbols\<close> is not under src. The sink appends
  to growable stores indexed by insertion order: one placed symbol for the call, one glyph
  offset for each quad. Packed size values have a maximum representable magnitude and
  values exceeding it are clamped.
\<close>

definition addSymbols ::
  "Env \<Rightarrow> SymbolBuffers \<times> real list \<Rightarrow> SymbolQuad list \<Rightarrow> real list option \<Rightarrow> real \<times> real \<Rightarrow> bool
     \<Rightarrow> WritingMode option \<Rightarrow> Anchor \<Rightarrow> nat \<Rightarrow> nat \<Rightarrow> int \<Rightarrow> bool \<Rightarrow> SymbolBuffers \<times> real list" where
  "addSymbols env stores quads sizeVertex lineOffset alongLine writingMode tileAnchor
       lineStartIndex lineLength associatedIconIndex hasAnySecondaryIcon =
     (fst stores\<lparr>placedSymbolArray := placedSymbolArray (fst stores) @
        [\<lparr>ps_tileAnchorX = p_x tileAnchor, ps_tileAnchorY = p_y tileAnchor,
          ps_numGlyphs = length quads,
          ps_sizeData = map_option (map (min (MAX_PACKED_SIZE env))) sizeVertex,
          ps_lineOffset = lineOffset, ps_alongLine = alongLine, ps_writingMode = writingMode,
          ps_lineStartIndex = lineStartIndex, ps_lineLength = lineLength,
          ps_associatedIconIndex = associatedIconIndex,
          ps_hasAnySecondaryIcon = hasAnySecondaryIcon\<rparr>]\<rparr>,
      snd stores @ map (fst \<circ> glyphOffset) quads)"

section \<open>Symbol instance assembler\<close>

text \<open>
  The packed size of lines 715-733 (\<^verbatim>\<open>addTextVertices\<close>) and of lines 943-960
  (\<^verbatim>\<open>addSymbol\<close>, for the icon), with the warning raised there. Reading
  \<^verbatim>\<open>sizes.compositeTextSizes[0]\<close> of an absent pair raises.
\<close>

definition firstLayerId :: "SymbolBucket \<Rightarrow> string option" where
  "firstLayerId bucket = (case layerIds bucket of [] \<Rightarrow> None | l # _ \<Rightarrow> Some l)"

definition textSizeVertex ::
  "Env \<Rightarrow> SymbolBucket \<Rightarrow> Sizes \<Rightarrow> Feature \<Rightarrow> js_error + (real list option \<times> SymbolBucket)" where
  "textSizeVertex env bucket sizes feature =
     (case textSizeData bucket of
        Size_source \<Rightarrow>
          (let d0 = SIZE_PACK_FACTOR env * text_size (layout bucket) feature * sz_textScaleFactor sizes
           in Inr (Some [d0],
                   if d0 > MAX_PACKED_SIZE env
                   then warnOnce (TextSizeWarning (firstLayerId bucket)) bucket else bucket))
      | Size_composite minZoom maxZoom \<Rightarrow>
          (case sz_compositeTextSizes sizes of
             None \<Rightarrow> Inl TypeError
           | Some (lower, upper) \<Rightarrow>
               (let d0 = SIZE_PACK_FACTOR env * lower feature * sz_textScaleFactor sizes;
                    d1 = SIZE_PACK_FACTOR env * upper feature * sz_textScaleFactor sizes
                in Inr (Some [d0, d1],
                        if d0 > MAX_PACKED_SIZE env \<or> d1 > MAX_PACKED_SIZE env
                        then warnOnce (TextSizeWarning (firstLayerId bucket)) bucket else bucket)))
      | _ \<Rightarrow> Inr (None, bucket))"

definition iconSizeVertex ::
  "Env \<Rightarrow> SymbolBucket \<Rightarrow> Sizes \<Rightarrow> Feature \<Rightarrow> js_error + (real list option \<times> SymbolBucket)" where
  "iconSizeVertex env bucket sizes feature =
     (case iconSizeData bucket of
        Size_source \<Rightarrow>
          (let d0 = SIZE_PACK_FACTOR env * icon_size (layout bucket) feature * sz_iconScaleFactor sizes
           in Inr (Some [d0],
                   if d0 > MAX_PACKED_SIZE env
                   then warnOnce (IconSizeWarning (firstLayerId bucket)) bucket else bucket))
      | Size_composite minZoom maxZoom \<Rightarrow>
          (case sz_compositeIconSizes sizes of
             None \<Rightarrow> Inl TypeError
           | Some (lower, upper) \<Rightarrow>
               (let d0 = SIZE_PACK_FACTOR env * lower feature * sz_iconScaleFactor sizes;
                    d1 = SIZE_PACK_FACTOR env * upper feature * sz_iconScaleFactor sizes
                in Inr (Some [d0, d1],
                        if d0 > MAX_PACKED_SIZE env \<or> d1 > MAX_PACKED_SIZE env
                        then warnOnce (IconSizeWarning (firstLayerId bucket)) bucket else bucket)))
      | _ \<Rightarrow> Inr (None, bucket))"

text \<open>
  \<^verbatim>\<open>addTextVertices\<close> (lines 684-760): returns the number of glyph vertices, the bucket
  and the object \<^verbatim>\<open>placedTextSymbolIndices\<close> after the call.
\<close>

definition addTextVertices ::
  "Env \<Rightarrow> SymbolBucket \<Rightarrow> Globe option \<Rightarrow> Anchor \<Rightarrow> Shaping \<Rightarrow> bool \<Rightarrow> Feature \<Rightarrow> real \<times> real
     \<Rightarrow> nat \<times> nat \<Rightarrow> WritingMode \<Rightarrow> string list \<Rightarrow> int js_object \<Rightarrow> int \<Rightarrow> Sizes
     \<Rightarrow> js_error + (nat \<times> SymbolBucket \<times> int js_object)" where
  "addTextVertices env bucket globe tileAnchor shapedText textAlongLine feature textOffset
       lineArray writingMode placementTypes placedTextSymbolIndices placedIconIndex sizes =
     (let glyphQuads = getGlyphQuads env tileAnchor shapedText textOffset textAlongLine feature
                         (allowVerticalPlacement bucket)
      in case textSizeVertex env bucket sizes feature of
           Inl e \<Rightarrow> Inl e
         | Inr (sizeVertex, bucket1) \<Rightarrow>
             (let (text', glyphOffsets') =
                    addSymbols env (text_buffers bucket1, glyphOffsetArray bucket1) glyphQuads
                      sizeVertex textOffset textAlongLine (Some writingMode) tileAnchor
                      (fst lineArray) (snd lineArray) placedIconIndex False;
                  bucket2 = bucket1\<lparr>text_buffers := text', glyphOffsetArray := glyphOffsets'\<rparr>;
                  indices = foldl (\<lambda>obj placementType.
                               obj_set obj placementType (int (length (placedSymbolArray text')) - 1))
                             placedTextSymbolIndices placementTypes
              in Inr (length glyphQuads * 4, bucket2, indices)))"

text \<open>
  \<^verbatim>\<open>anchorIsTooClose\<close> (lines 1104-1120). \<^verbatim>\<open>bucket.compareText\<close> is an object literal, so
  \<^verbatim>\<open>text in compareText\<close> also holds for the property names that every object inherits;
  for such a text the value read is not an array of anchors and the scan or the
  \<^verbatim>\<open>push\<close> raises a \<^verbatim>\<open>TypeError\<close>.
\<close>

definition object_prototype_keys :: "string list" where
  "object_prototype_keys =
     [''constructor'', ''__defineGetter__'', ''__defineSetter__'', ''hasOwnProperty'',
      ''__lookupGetter__'', ''__lookupSetter__'', ''isPrototypeOf'', ''propertyIsEnumerable'',
      ''toString'', ''valueOf'', ''__proto__'', ''toLocaleString'']"

text \<open>The scan \<^verbatim>\<open>for (k = otherAnchors.length - 1; k >= 0; k--)\<close>, on the reversed list.\<close>

fun withinRepeatDistance :: "Anchor \<Rightarrow> real \<Rightarrow> Anchor list \<Rightarrow> bool" where
  "withinRepeatDistance anchor repeatDistance [] = False"
| "withinRepeatDistance anchor repeatDistance (other # others) =
     (if dist_to anchor other < repeatDistance then True
      else withinRepeatDistance anchor repeatDistance others)"

definition anchorIsTooClose ::
  "SymbolBucket \<Rightarrow> string \<Rightarrow> real \<Rightarrow> Anchor \<Rightarrow> js_error + (bool \<times> SymbolBucket)" where
  "anchorIsTooClose bucket txt repeatDistance anchor =
     (if txt \<in> set object_prototype_keys then Inl TypeError
      else case compareText bucket txt of
             None \<Rightarrow> Inr (False, bucket\<lparr>compareText := (compareText bucket)(txt \<mapsto> [anchor])\<rparr>)
           | Some otherAnchors \<Rightarrow>
               if withinRepeatDistance anchor repeatDistance (rev otherAnchors)
               then Inr (True, bucket)
               else Inr (False, bucket\<lparr>compareText :=
                                          (compareText bucket)(txt \<mapsto> otherAnchors @ [anchor])\<rparr>))"

text \<open>
  \<^verbatim>\<open>addSymbol\<close> (lines 851-1102). \<open>AddSymbolArgs\<close> holds the arguments that the call
  only reads; \<open>AddSymbolLocals\<close> holds its local variables together with the objects
  it writes: the bucket, \<^verbatim>\<open>shapedTextOrientations\<close> and \<^verbatim>\<open>verticallyShapedIcon\<close> (whose
  boxes \<^verbatim>\<open>evaluateCircleCollisionFeature\<close> pads in place). The argument
  \<^verbatim>\<open>collisionBoxArray\<close> is \<^verbatim>\<open>bucket.collisionBoxArray\<close> at the only call site, and
  \<^verbatim>\<open>layer\<close> is \<^verbatim>\<open>bucket.layers[0]\<close>.
\<close>

record AddSymbolArgs =
  a_anchor :: Anchor
  a_globe :: "Globe option"
  a_line :: "Point list option"
  a_shapedIcon :: "PositionedIcon option"
  a_featureIndex :: nat
  a_sourceLayerIndex :: nat
  a_bucketIndex :: nat
  a_textPadding :: real
  a_textAlongLine :: bool
  a_textOffset :: "real \<times> real"
  a_iconBoxScale :: real
  a_iconPadding :: real
  a_iconAlongLine :: bool
  a_iconOffset :: "real \<times> real"
  a_feature :: Feature
  a_sizes :: Sizes
  a_isSDFIcon :: bool
  a_isUSVGIcon :: bool
  a_hasAnySecondaryIcon :: bool

record AddSymbolLocals =
  l_bucket :: SymbolBucket
  l_shapedTextOrientations :: ShapedTextOrientations
  l_verticallyShapedIcon :: "PositionedIcon option"
  lineArray :: "nat \<times> nat"
  textBoxIndex :: "nat option"
  iconBoxIndex :: "nat option"
  verticalTextBoxIndex :: "nat option"
  verticalIconBoxIndex :: "nat option"
  textCircle :: "real option"
  verticalTextCircle :: "real option"
  verticalIconCircle :: "real option"
  numIconVertices :: nat
  numVerticalIconVertices :: nat
  numHorizontalGlyphVertices :: nat
  numVerticalGlyphVertices :: nat
  placedIconSymbolIndex :: int
  verticalPlacedIconSymbolIndex :: int
  placedTextSymbolIndices :: "int js_object"
  l_key :: nat

definition collisionFeatureAnchor :: "AddSymbolArgs \<Rightarrow> Anchor" where
  "collisionFeatureAnchor a = (case a_globe a of Some g \<Rightarrow> globe_anchor g | None \<Rightarrow> a_anchor a)"

text \<open>Lines 884-896: the line vertices of the anchor and the initial locals.\<close>

definition addSymbol_init ::
  "Env \<Rightarrow> SymbolBucket \<Rightarrow> ShapedTextOrientations \<Rightarrow> PositionedIcon option \<Rightarrow> AddSymbolArgs
     \<Rightarrow> AddSymbolLocals" where
  "addSymbol_init env bucket sto verticallyShapedIcon a =
     (let (la, lineVertices') = addToLineVertexArray env (lineVertexArray bucket) (a_anchor a) (a_line a)
      in \<lparr>l_bucket = bucket\<lparr>lineVertexArray := lineVertices'\<rparr>,
          l_shapedTextOrientations = sto,
          l_verticallyShapedIcon = verticallyShapedIcon,
          lineArray = la,
          textBoxIndex = None, iconBoxIndex = None,
          verticalTextBoxIndex = None, verticalIconBoxIndex = None,
          textCircle = None, verticalTextCircle = None, verticalIconCircle = None,
          numIconVertices = 0, numVerticalIconVertices = 0,
          numHorizontalGlyphVertices = 0, numVerticalGlyphVertices = 0,
          placedIconSymbolIndex = -1, verticalPlacedIconSymbolIndex = -1,
          placedTextSymbolIndices = [],
          l_key = murmur3 env []\<rparr>)"

text \<open>An \<^verbatim>\<open>evaluateBoxCollisionFeature\<close> call on the store of the bucket.\<close>

definition boxInto ::
  "AddSymbolArgs \<Rightarrow> SymbolBucket \<Rightarrow> 'a shaped_scheme \<Rightarrow> real \<Rightarrow> real \<Rightarrow> (real \<times> real) option \<Rightarrow> real
     \<Rightarrow> nat \<times> SymbolBucket" where
  "boxInto a bucket shaped0 padding rotation textOffset iconScaledSize =
     (let (i, cba') = evaluateBoxCollisionFeature (collisionBoxArray bucket)
                        (collisionFeatureAnchor a) (a_anchor a) (a_featureIndex a)
                        (a_sourceLayerIndex a) (a_bucketIndex a) shaped0 padding rotation
                        textOffset iconScaledSize
      in (i, bucket\<lparr>collisionBoxArray := cba'\<rparr>))"

text \<open>Lines 911-926: the collision features of the vertical shapings.\<close>

definition addSymbol_vertical :: "AddSymbolArgs \<Rightarrow> AddSymbolLocals \<Rightarrow> AddSymbolLocals" where
  "addSymbol_vertical a l =
     (case (allowVerticalPlacement (l_bucket l), vertical (l_shapedTextOrientations l)) of
        (True, Some verticalShaping) \<Rightarrow>
          if a_textAlongLine a then
            (let (c, verticalShaping') = evaluateCircleCollisionFeature verticalShaping;
                 l1 = l\<lparr>verticalTextCircle := c,
                        l_shapedTextOrientations :=
                          (l_shapedTextOrientations l)\<lparr>vertical := Some verticalShaping'\<rparr>\<rparr>
             in case l_verticallyShapedIcon l1 of
                  Some icon \<Rightarrow>
                    (let (c', icon') = evaluateCircleCollisionFeature icon
                     in l1\<lparr>verticalIconCircle := c', l_verticallyShapedIcon := Some icon'\<rparr>)
                | None \<Rightarrow> l1)
          else
            (let textRotation = text_rotate (layout (l_bucket l)) (a_feature a);
                 verticalTextRotation = textRotation + 90;
                 (i, bucket1) = boxInto a (l_bucket l) verticalShaping (a_textPadding a)
                                  verticalTextRotation (Some (a_textOffset a)) 1;
                 l1 = l\<lparr>verticalTextBoxIndex := Some i, l_bucket := bucket1\<rparr>
             in case l_verticallyShapedIcon l1 of
                  Some icon \<Rightarrow>
                    (let (i', bucket2) = boxInto a bucket1 icon (a_iconPadding a)
                                           verticalTextRotation None 1
                     in l1\<lparr>verticalIconBoxIndex := Some i', l_bucket := bucket2\<rparr>)
                | None \<Rightarrow> l1)
      | _ \<Rightarrow> l)"

text \<open>Lines 933-1007: the icon is placed first; its box, its vertices, its placed symbol.\<close>

definition addSymbol_icon ::
  "Env \<Rightarrow> AddSymbolArgs \<Rightarrow> bool \<Rightarrow> AddSymbolLocals \<Rightarrow> js_error + AddSymbolLocals" where
  "addSymbol_icon env a hasIconTextFit l =
     (case a_shapedIcon a of
        None \<Rightarrow> Inr l
      | Some shapedIcon \<Rightarrow>
          (let bucket = l_bucket l;
               feature = a_feature a;
               sizes = a_sizes a;
               rasterizedIconScaleFactor =
                 (if a_isUSVGIcon a
                  then getRasterizedIconSize env (iconSizeData bucket) (icon_size_at (layout bucket))
                         (zoom bucket) feature
                  else 1);
               iconRotate = icon_rotate (layout bucket) feature;
               iconQuads = getIconQuads env shapedIcon iconRotate (a_isSDFIcon a) hasIconTextFit
                             (if a_isUSVGIcon a then 1 / rasterizedIconScaleFactor
                              else sz_iconScaleFactor sizes);
               verticalIconQuads =
                 map_option (\<lambda>icon. getIconQuads env icon iconRotate (a_isSDFIcon a) hasIconTextFit
                                       (sz_iconScaleFactor sizes))
                   (l_verticallyShapedIcon l);
               (i, bucket1) = boxInto a bucket shapedIcon (a_iconPadding a) iconRotate None
                                (if a_isUSVGIcon a
                                 then sz_iconScaleFactor sizes * rasterizedIconScaleFactor else 1)
           in case iconSizeVertex env bucket1 sizes feature of
                Inl e \<Rightarrow> Inl e
              | Inr (sizeVertex, bucket2) \<Rightarrow>
                  (let (icon1, glyphOffsets1) =
                         addSymbols env (icon_buffers bucket2, glyphOffsetArray bucket2) iconQuads
                           sizeVertex (a_iconOffset a) (a_iconAlongLine a) None (a_anchor a)
                           (fst (lineArray l)) (snd (lineArray l)) (-1) (a_hasAnySecondaryIcon a);
                       l1 = l\<lparr>l_bucket := bucket2\<lparr>icon_buffers := icon1,
                                                     glyphOffsetArray := glyphOffsets1\<rparr>,
                              iconBoxIndex := Some i,
                              numIconVertices := length iconQuads * 4,
                              placedIconSymbolIndex := int (length (placedSymbolArray icon1)) - 1\<rparr>
                   in case verticalIconQuads of
                        None \<Rightarrow> Inr l1
                      | Some quads \<Rightarrow>
                          (let (icon2, glyphOffsets2) =
                                 addSymbols env (icon1, glyphOffsets1) quads sizeVertex
                                   (a_iconOffset a) (a_iconAlongLine a) (Some WM_vertical)
                                   (a_anchor a) (fst (lineArray l)) (snd (lineArray l)) (-1)
                                   (a_hasAnySecondaryIcon a)
                           in Inr (l1\<lparr>l_bucket := (l_bucket l1)\<lparr>icon_buffers := icon2,
                                                                  glyphOffsetArray := glyphOffsets2\<rparr>,
                                      numVerticalIconVertices := length quads * 4,
                                      verticalPlacedIconSymbolIndex :=
                                        int (length (placedSymbolArray icon2)) - 1\<rparr>)))))"

text \<open>
  Lines 1009-1035: the loop over the keys of \<^verbatim>\<open>shapedTextOrientations.horizontal\<close>.
  \<^verbatim>\<open>!textBoxIndex\<close> holds for \<^verbatim>\<open>undefined\<close> and for the index 0. A key whose value is
  \<^verbatim>\<open>undefined\<close> raises at \<^verbatim>\<open>shaping.text\<close> or at \<^verbatim>\<open>shaping.positionedLines\<close>.
\<close>

definition falsy_index :: "nat option \<Rightarrow> bool" where
  "falsy_index i = (case i of None \<Rightarrow> True | Some n \<Rightarrow> n = 0)"

text \<open>
  Lines 1012-1023: the collision feature of the text, computed while \<^verbatim>\<open>textBoxIndex\<close>
  is falsy. The result is the shaping as the call leaves it and the locals.
\<close>

definition addSymbol_textCollision ::
  "Env \<Rightarrow> AddSymbolArgs \<Rightarrow> string \<Rightarrow> Shaping \<Rightarrow> AddSymbolLocals \<Rightarrow> Shaping \<times> AddSymbolLocals" where
  "addSymbol_textCollision env a justification shaping l =
     (if falsy_index (textBoxIndex l) then
        (let l0 = l\<lparr>l_key := murmur3 env (s_text shaping)\<rparr>
         in if a_textAlongLine a then
              (let (c, shaping') = evaluateCircleCollisionFeature shaping
               in (shaping',
                   l0\<lparr>textCircle := c,
                      l_shapedTextOrientations :=
                        (l_shapedTextOrientations l0)
                          \<lparr>horizontal := obj_set (horizontal (l_shapedTextOrientations l0))
                                           justification (Some shaping')\<rparr>\<rparr>))
            else
              (let textRotate = text_rotate (layout (l_bucket l0)) (a_feature a);
                   (i, bucket1) = boxInto a (l_bucket l0) shaping (a_textPadding a)
                                    textRotate (Some (a_textOffset a)) 1
               in (shaping, l0\<lparr>textBoxIndex := Some i, l_bucket := bucket1\<rparr>)))
      else (shaping, l))"

fun addSymbol_horizontal ::
  "Env \<Rightarrow> AddSymbolArgs \<Rightarrow> string list \<Rightarrow> AddSymbolLocals \<Rightarrow> js_error + AddSymbolLocals" where
  "addSymbol_horizontal env a [] l = Inr l"
| "addSymbol_horizontal env a (justification # rest) l =
     (case obj_get (horizontal (l_shapedTextOrientations l)) justification of
        None \<Rightarrow> Inl TypeError
      | Some shaping \<Rightarrow>
          (let (shaping1, l1) = addSymbol_textCollision env a justification shaping l;
               singleLine = (length (positionedLines shaping1) = 1)
           in case addTextVertices env (l_bucket l1) (a_globe a) (a_anchor a) shaping1
                     (a_textAlongLine a) (a_feature a) (a_textOffset a) (lineArray l1)
                     (case vertical (l_shapedTextOrientations l1) of
                        Some v \<Rightarrow> WM_horizontal | None \<Rightarrow> WM_horizontalOnly)
                     (if singleLine then obj_keys (horizontal (l_shapedTextOrientations l1))
                      else [justification])
                     (placedTextSymbolIndices l1) (placedIconSymbolIndex l1) (a_sizes a) of
                Inl e \<Rightarrow> Inl e
              | Inr (n, bucket2, indices) \<Rightarrow>
                  (let l2 = l1\<lparr>l_bucket := bucket2,
                               numHorizontalGlyphVertices := numHorizontalGlyphVertices l1 + n,
                               placedTextSymbolIndices := indices\<rparr>
                   in if singleLine then Inr l2 else addSymbol_horizontal env a rest l2)))"

text \<open>Lines 1037-1042: the glyph vertices of the vertical shaping.\<close>

definition addSymbol_verticalText ::
  "Env \<Rightarrow> AddSymbolArgs \<Rightarrow> AddSymbolLocals \<Rightarrow> js_error + AddSymbolLocals" where
  "addSymbol_verticalText env a l =
     (case vertical (l_shapedTextOrientations l) of
        None \<Rightarrow> Inr l
      | Some verticalShaping \<Rightarrow>
          (case addTextVertices env (l_bucket l) (a_globe a) (a_anchor a) verticalShaping
                  (a_textAlongLine a) (a_feature a) (a_textOffset a) (lineArray l) WM_vertical
                  [''vertical''] (placedTextSymbolIndices l) (verticalPlacedIconSymbolIndex l)
                  (a_sizes a) of
             Inl e \<Rightarrow> Inl e
           | Inr (n, bucket1, indices) \<Rightarrow>
               Inr (l\<lparr>l_bucket := bucket1,
                      numVerticalGlyphVertices := numVerticalGlyphVertices l + n,
                      placedTextSymbolIndices := indices\<rparr>)))"

text \<open>
  Lines 1044-1101: the collision circle diameter, the glyph count warning, the sort key
  range and the row appended to \<^verbatim>\<open>bucket.symbolInstances\<close>. The tests on the box indices
  are the source's: \<^verbatim>\<open>!== undefined\<close> for the text, vertical text and icon boxes,
  truthiness for the vertical icon box.
\<close>

definition getCollisionCircleHeight :: "real option \<Rightarrow> real \<Rightarrow> real" where
  "getCollisionCircleHeight diameter prevHeight =
     (case diameter of
        Some d \<Rightarrow> if d \<noteq> 0 then max d prevHeight else prevHeight
      | None \<Rightarrow> prevHeight)"

definition placedTextIndex :: "int js_object \<Rightarrow> string \<Rightarrow> int" where
  "placedTextIndex obj k = (case map_of obj k of Some i \<Rightarrow> if i \<ge> 0 then i else -1 | None \<Rightarrow> -1)"

text \<open>Lines 900-909: \<^verbatim>\<open>textOffset0\<close> and \<^verbatim>\<open>textOffset1\<close>.\<close>

definition symbolTextOffset :: "Env \<Rightarrow> Layout \<Rightarrow> Feature \<Rightarrow> real \<times> js_number" where
  "symbolTextOffset env lay feature =
     (if text_radial_offset_unset lay
      then (fst (text_offset lay feature) * ONE_EM env, Num (snd (text_offset lay feature) * ONE_EM env))
      else (text_radial_offset lay feature * ONE_EM env, Infinity))"

definition addSymbol_write :: "Env \<Rightarrow> AddSymbolArgs \<Rightarrow> bool \<Rightarrow> AddSymbolLocals \<Rightarrow> SymbolBucket" where
  "addSymbol_write env a hasIconTextFit l =
     (let bucket = l_bucket l;
          collisionCircleDiameter = getCollisionCircleHeight (textCircle l) (-1);
          collisionCircleDiameter = getCollisionCircleHeight (verticalTextCircle l) collisionCircleDiameter;
          collisionCircleDiameter = getCollisionCircleHeight (verticalIconCircle l) collisionCircleDiameter;
          useRuntimeCollisionCircles = (if collisionCircleDiameter > -1 then 1 else 0);
          bucket1 = (if length (glyphOffsetArray bucket) \<ge> MAX_GLYPHS
                     then warnOnce TooManyGlyphsWarning bucket else bucket);
          bucket2 = (case f_sortKey (a_feature a) of
                       Some k \<Rightarrow> bucket1\<lparr>sortKeyRanges :=
                                   addToSortKeyRanges env (sortKeyRanges bucket1)
                                     (length (symbolInstances bucket1)) k\<rparr>
                     | None \<Rightarrow> bucket1);
          projectedAnchor = collisionFeatureAnchor a;
          (textOffset0, textOffset1) = symbolTextOffset env (layout bucket) (a_feature a);
          n = length (collisionBoxArray bucket2)
      in bucket2\<lparr>symbolInstances := symbolInstances bucket2 @
           [\<lparr>si_tileAnchorX = p_x (a_anchor a),
             si_tileAnchorY = p_y (a_anchor a),
             si_projectedAnchorX = p_x projectedAnchor,
             si_projectedAnchorY = p_y projectedAnchor,
             si_projectedAnchorZ = a_z projectedAnchor,
             si_rightJustifiedTextSymbolIndex = placedTextIndex (placedTextSymbolIndices l) ''right'',
             si_centerJustifiedTextSymbolIndex = placedTextIndex (placedTextSymbolIndices l) ''center'',
             si_leftJustifiedTextSymbolIndex = placedTextIndex (placedTextSymbolIndices l) ''left'',
             si_verticalPlacedTextSymbolIndex = placedTextIndex (placedTextSymbolIndices l) ''vertical'',
             si_placedIconSymbolIndex = placedIconSymbolIndex l,
             si_verticalPlacedIconSymbolIndex = verticalPlacedIconSymbolIndex l,
             si_key = l_key l,
             si_textBoxStartIndex = (case textBoxIndex l of Some i \<Rightarrow> i | None \<Rightarrow> n),
             si_textBoxEndIndex = (case textBoxIndex l of Some i \<Rightarrow> i + 1 | None \<Rightarrow> n),
             si_verticalTextBoxStartIndex = (case verticalTextBoxIndex l of Some i \<Rightarrow> i | None \<Rightarrow> n),
             si_verticalTextBoxEndIndex = (case verticalTextBoxIndex l of Some i \<Rightarrow> i + 1 | None \<Rightarrow> n),
             si_iconBoxStartIndex = (case iconBoxIndex l of Some i \<Rightarrow> i | None \<Rightarrow> n),
             si_iconBoxEndIndex = (case iconBoxIndex l of Some i \<Rightarrow> i + 1 | None \<Rightarrow> n),
             si_verticalIconBoxStartIndex =
               (if falsy_index (verticalIconBoxIndex l) then n
                else (case verticalIconBoxIndex l of Some i \<Rightarrow> i | None \<Rightarrow> n)),
             si_verticalIconBoxEndIndex =
               (if falsy_index (verticalIconBoxIndex l) then n
                else (case verticalIconBoxIndex l of Some i \<Rightarrow> i + 1 | None \<Rightarrow> n)),
             si_featureIndex = a_featureIndex a,
             si_numHorizontalGlyphVertices = numHorizontalGlyphVertices l,
             si_numVerticalGlyphVertices = numVerticalGlyphVertices l,
             si_numIconVertices = numIconVertices l,
             si_numVerticalIconVertices = numVerticalIconVertices l,
             si_useRuntimeCollisionCircles = useRuntimeCollisionCircles,
             si_crossTileID = 0,
             si_textOffset0 = textOffset0,
             si_textOffset1 = textOffset1,
             si_collisionCircleDiameter = collisionCircleDiameter,
             si_zOffset = 0,
             si_hasIconTextFit = (if hasIconTextFit then 1 else 0)\<rparr>]\<rparr>)"

text \<open>
  The locals of \<^verbatim>\<open>addSymbol\<close> when it reaches the \<^verbatim>\<open>emplaceBack\<close> of line 1068, and the
  whole call. The state that outlives the call is the bucket with the two shaped objects.
\<close>

record LayoutState =
  ls_bucket :: SymbolBucket
  ls_shapedTextOrientations :: ShapedTextOrientations
  ls_verticallyShapedIcon :: "PositionedIcon option"

definition hasIconTextFit_of :: "SymbolBucket \<Rightarrow> Feature \<Rightarrow> bool" where
  "hasIconTextFit_of bucket feature = (icon_text_fit (layout bucket) feature \<noteq> ''none'')"

definition addSymbol_locals ::
  "Env \<Rightarrow> LayoutState \<Rightarrow> AddSymbolArgs \<Rightarrow> js_error + AddSymbolLocals" where
  "addSymbol_locals env st a =
     (let l0 = addSymbol_init env (ls_bucket st) (ls_shapedTextOrientations st)
                 (ls_verticallyShapedIcon st) a;
          l1 = addSymbol_vertical a l0
      in case addSymbol_icon env a (hasIconTextFit_of (ls_bucket st) (a_feature a)) l1 of
           Inl e \<Rightarrow> Inl e
         | Inr l2 \<Rightarrow>
             (case addSymbol_horizontal env a
                     (obj_keys (horizontal (l_shapedTextOrientations l2))) l2 of
                Inl e \<Rightarrow> Inl e
              | Inr l3 \<Rightarrow> addSymbol_verticalText env a l3))"

definition addSymbol :: "Env \<Rightarrow> LayoutState \<Rightarrow> AddSymbolArgs \<Rightarrow> js_error + LayoutState" where
  "addSymbol env st a =
     (case addSymbol_locals env st a of
        Inl e \<Rightarrow> Inl e
      | Inr l \<Rightarrow>
          Inr \<lparr>ls_bucket = addSymbol_write env a (hasIconTextFit_of (ls_bucket st) (a_feature a)) l,
               ls_shapedTextOrientations = l_shapedTextOrientations l,
               ls_verticallyShapedIcon = l_verticallyShapedIcon l\<rparr>)"

section \<open>Anchor placer\<close>

text \<open>A loop whose body may raise: the first error ends it.\<close>

fun forEach :: "('a \<Rightarrow> 's \<Rightarrow> js_error + 's) \<Rightarrow> 'a list \<Rightarrow> 's \<Rightarrow> js_error + 's" where
  "forEach body [] st = Inr st"
| "forEach body (x # xs) st =
     (case body x st of Inl e \<Rightarrow> Inl e | Inr st' \<Rightarrow> forEach body xs st')"

text \<open>
  \<^verbatim>\<open>tilePixelRatioForSymbolSpacing\<close> (lines 474-480). \<^verbatim>\<open>overscaleFactor >>= 1\<close> converts
  to a 32-bit signed integer and shifts.
\<close>

definition toInt32 :: "int \<Rightarrow> int" where
  "toInt32 n = (n + 2 ^ 31) mod 2 ^ 32 - 2 ^ 31"

definition tilePixelRatioForSymbolSpacing :: "Env \<Rightarrow> int \<Rightarrow> real \<Rightarrow> real" where
  "tilePixelRatioForSymbolSpacing env overscaleFactor overscaledZ =
     (let overscaleFactor1 = (if overscaledZ > 18 \<and> overscaleFactor > 2
                              then toInt32 overscaleFactor div 2 else overscaleFactor);
          ratio = EXTENT env / (512 * real_of_int overscaleFactor1)
      in max ratio 1)"

text \<open>\<^verbatim>\<open>getDefaultHorizontalShaping(horizontal) || vertical\<close> (lines 762-769 and 520).\<close>

definition getDefaultHorizontalShaping :: "Shaping option js_object \<Rightarrow> Shaping option" where
  "getDefaultHorizontalShaping horizontalShaping =
     (case horizontalShaping of [] \<Rightarrow> None | (justification, shaping) # _ \<Rightarrow> shaping)"

definition defaultShaping :: "ShapedTextOrientations \<Rightarrow> Shaping option" where
  "defaultShaping sto =
     (case getDefaultHorizontalShaping (horizontal sto) of
        Some shaping \<Rightarrow> Some shaping
      | None \<Rightarrow> vertical sto)"

definition verticalOrDefault :: "ShapedTextOrientations \<Rightarrow> Shaping option" where
  "verticalOrDefault sto =
     (case vertical sto of Some shaping \<Rightarrow> Some shaping | None \<Rightarrow> defaultShaping sto)"

text \<open>
  The values that \<^verbatim>\<open>addFeature\<close> (lines 489-678) computes before it places anchors.
  They are read from the bucket as \<^verbatim>\<open>addFeature\<close> finds it.
\<close>

definition symbolMinDistance :: "Env \<Rightarrow> SymbolBucket \<Rightarrow> real" where
  "symbolMinDistance env bucket =
     tilePixelRatioForSymbolSpacing env (overscaling bucket) (zoom bucket)
       * symbol_spacing (layout bucket)"

definition textRepeatDistance :: "Env \<Rightarrow> SymbolBucket \<Rightarrow> real" where
  "textRepeatDistance env bucket = symbolMinDistance env bucket / 2"

definition textAlongLine_of :: "SymbolBucket \<Rightarrow> bool" where
  "textAlongLine_of bucket =
     (text_rotation_alignment (layout bucket) = ''map'' \<and> includes_line (symbol_placement (layout bucket)))"

definition iconAlongLine_of :: "SymbolBucket \<Rightarrow> bool" where
  "iconAlongLine_of bucket =
     (icon_rotation_alignment (layout bucket) = ''map'' \<and> includes_line (symbol_placement (layout bucket)))"

definition textMaxBoxScale :: "Env \<Rightarrow> SymbolBucket \<Rightarrow> Feature \<Rightarrow> Sizes \<Rightarrow> real \<Rightarrow> real" where
  "textMaxBoxScale env bucket feature sizes layoutTextSize =
     (let textMaxSize = (case sz_textMaxSize sizes feature of
                           None \<Rightarrow> layoutTextSize * sz_textScaleFactor sizes
                         | Some t \<Rightarrow> t * sz_textScaleFactor sizes)
      in tilePixelRatio bucket * textMaxSize / ONE_EM env)"

text \<open>
  The arguments of \<^verbatim>\<open>addFeature\<close> that it only reads, with \<^verbatim>\<open>shapedIcon\<close> as the
  caller passes it (before icon-text-fit).
\<close>

record AddFeatureArgs =
  af_feature :: Feature
  af_shapedIcon :: "PositionedIcon option"
  af_sizes :: Sizes
  af_layoutTextSize :: real
  af_layoutIconSize :: real
  af_textOffset :: "real \<times> real"
  af_isSDFIcon :: bool
  af_isUSVGIcon :: bool
  af_hasAnySecondaryIcon :: bool

text \<open>
  Lines 540-559: icon-text-fit. The result is the bucket flag, \<^verbatim>\<open>verticallyShapedIcon\<close>
  and the fitted \<^verbatim>\<open>shapedIcon\<close>.
\<close>

definition fitIcons ::
  "Env \<Rightarrow> SymbolBucket \<Rightarrow> ShapedTextOrientations \<Rightarrow> AddFeatureArgs
     \<Rightarrow> SymbolBucket \<times> PositionedIcon option \<times> PositionedIcon option" where
  "fitIcons env bucket sto af =
     (let feature = af_feature af;
          lay = layout bucket;
          iconOffset = icon_offset lay feature;
          fontScale = af_layoutTextSize af * sz_textScaleFactor (af_sizes af) / ONE_EM env;
          iconTextFit = icon_text_fit lay feature;
          iconTextFitPadding = icon_text_fit_padding lay feature;
          hasIconTextFit = (iconTextFit \<noteq> ''none'');
          bucket1 = (if hasAnyIconTextFit bucket = False \<and> hasIconTextFit
                     then bucket\<lparr>hasAnyIconTextFit := True\<rparr> else bucket)
      in case af_shapedIcon af of
           Some shapedIcon \<Rightarrow>
             if hasIconTextFit then
               (let verticallyShapedIcon =
                      (case (allowVerticalPlacement bucket1, vertical sto) of
                         (True, Some v) \<Rightarrow>
                           Some (fitIconToText env shapedIcon v iconTextFit iconTextFitPadding
                                   iconOffset fontScale)
                       | _ \<Rightarrow> None);
                    shapedIcon1 =
                      (case defaultShaping sto of
                         Some d \<Rightarrow> fitIconToText env shapedIcon d iconTextFit iconTextFitPadding
                                     iconOffset fontScale
                       | None \<Rightarrow> shapedIcon)
                in (bucket1, verticallyShapedIcon, Some shapedIcon1))
             else (bucket1, None, Some shapedIcon)
         | None \<Rightarrow> (bucket1, None, None))"

text \<open>
  The closure \<^verbatim>\<open>addSymbolAtAnchor\<close> (lines 561-586). \<open>shapedIcon\<close> is the fitted icon;
  the other values are those of \<^verbatim>\<open>addFeature\<close>, computed from the bucket \<open>bucket0\<close>
  that \<^verbatim>\<open>addFeature\<close> was called with.
\<close>

definition symbolArgs ::
  "Env \<Rightarrow> SymbolBucket \<Rightarrow> AddFeatureArgs \<Rightarrow> PositionedIcon option \<Rightarrow> Point list option \<Rightarrow> Anchor
     \<Rightarrow> Globe option \<Rightarrow> AddSymbolArgs" where
  "symbolArgs env bucket0 af shapedIcon line anchor globe =
     \<lparr>a_anchor = anchor, a_globe = globe, a_line = line, a_shapedIcon = shapedIcon,
      a_featureIndex = f_index (af_feature af),
      a_sourceLayerIndex = f_sourceLayerIndex (af_feature af),
      a_bucketIndex = bucket_index bucket0,
      a_textPadding = text_padding (layout bucket0) * tilePixelRatio bucket0,
      a_textAlongLine = textAlongLine_of bucket0,
      a_textOffset = af_textOffset af,
      a_iconBoxScale = tilePixelRatio bucket0 * af_layoutIconSize af,
      a_iconPadding = icon_padding (layout bucket0) * tilePixelRatio bucket0,
      a_iconAlongLine = iconAlongLine_of bucket0,
      a_iconOffset = icon_offset (layout bucket0) (af_feature af),
      a_feature = af_feature af, a_sizes = af_sizes af,
      a_isSDFIcon = af_isSDFIcon af, a_isUSVGIcon = af_isUSVGIcon af,
      a_hasAnySecondaryIcon = af_hasAnySecondaryIcon af\<rparr>"

definition addSymbolAtAnchor ::
  "Env \<Rightarrow> SymbolBucket \<Rightarrow> AddFeatureArgs \<Rightarrow> PositionedIcon option \<Rightarrow> Point list option \<Rightarrow> Anchor
     \<Rightarrow> LayoutState \<Rightarrow> js_error + LayoutState" where
  "addSymbolAtAnchor env bucket0 af shapedIcon line anchor st =
     (if p_x anchor < 0 \<or> p_x anchor \<ge> EXTENT env \<or> p_y anchor < 0 \<or> p_y anchor \<ge> EXTENT env
      then Inr st
      else
        (let globe =
               (if projection_name env = ''globe''
                then (let (gx, gy, gz) = projectTilePoint env (p_x anchor) (p_y anchor)
                      in Some \<lparr>globe_anchor = new_Anchor gx gy gz 0 None,
                                globe_up = upVector env (p_x anchor) (p_y anchor)\<rparr>)
                else None)
         in addSymbol env st (symbolArgs env bucket0 af shapedIcon line anchor globe)))"

text \<open>
  The closure \<^verbatim>\<open>addSymbolAtAnchorFromLine\<close> (lines 588-617). \<^verbatim>\<open>line[0].x\<close> raises on an
  empty line.
\<close>

definition pointAnchor :: "Point \<Rightarrow> Anchor" where
  "pointAnchor p = new_Anchor (p_x p) (p_y p) 0 0 None"

definition addSymbolAtAnchorFromLine ::
  "Env \<Rightarrow> SymbolBucket \<Rightarrow> AddFeatureArgs \<Rightarrow> PositionedIcon option \<Rightarrow> Point list
     \<Rightarrow> LayoutState \<Rightarrow> js_error + LayoutState" where
  "addSymbolAtAnchorFromLine env bucket0 af shapedIcon line st =
     (let l = length line;
          symbolPlacement = symbol_placement (layout bucket0);
          atVertex = (\<lambda>p. addSymbolAtAnchor env bucket0 af shapedIcon (Some line) (pointAnchor p));
          atFirst = (\<lambda>st. case line of [] \<Rightarrow> Inl TypeError | p # _ \<Rightarrow> atVertex p st)
      in if symbolPlacement = placement_vertex then forEach atVertex line st
         else if symbolPlacement = placement_first_vertex then atFirst st
         else if symbolPlacement = placement_last_vertex \<and> l > 1 then atVertex (line ! (l - 1)) st
         else if symbolPlacement = placement_first_last_vertex then
           (case atFirst st of
              Inl e \<Rightarrow> Inl e
            | Inr st1 \<Rightarrow> if l > 1 then atVertex (line ! (l - 1)) st1 else Inr st1)
         else if symbolPlacement = placement_except_first_vertex \<and> l > 1 then
           forEach atVertex (drop 1 line) st
         else if symbolPlacement = placement_except_last_vertex \<and> l > 1 then
           forEach atVertex (take (l - 1) line) st
         else if symbolPlacement = placement_middle_vertex \<and> l > 2 then
           forEach atVertex (take (l - 2) (drop 1 line)) st
         else atFirst st)"

text \<open>
  The body of the loop over the anchors of a clipped line (lines 632-637): an anchor
  of a text closer than \<^verbatim>\<open>textRepeatDistance\<close> to a registered anchor of the same text
  is skipped.
\<close>

definition addLineAnchor ::
  "Env \<Rightarrow> SymbolBucket \<Rightarrow> AddFeatureArgs \<Rightarrow> PositionedIcon option \<Rightarrow> Point list \<Rightarrow> Anchor
     \<Rightarrow> LayoutState \<Rightarrow> js_error + LayoutState" where
  "addLineAnchor env bucket0 af shapedIcon line anchor st =
     (case defaultShaping (ls_shapedTextOrientations st) of
        None \<Rightarrow> addSymbolAtAnchor env bucket0 af shapedIcon (Some line) anchor st
      | Some shapedText \<Rightarrow>
          (case anchorIsTooClose (ls_bucket st) (s_text shapedText)
                  (textRepeatDistance env bucket0) anchor of
             Inl e \<Rightarrow> Inl e
           | Inr (tooClose, bucket1) \<Rightarrow>
               if tooClose then Inr (st\<lparr>ls_bucket := bucket1\<rparr>)
               else addSymbolAtAnchor env bucket0 af shapedIcon (Some line) anchor
                      (st\<lparr>ls_bucket := bucket1\<rparr>)))"

text \<open>\<^verbatim>\<open>addFeature\<close> (lines 489-678).\<close>

definition addFeature ::
  "Env \<Rightarrow> SymbolBucket \<Rightarrow> ShapedTextOrientations \<Rightarrow> AddFeatureArgs \<Rightarrow> js_error + LayoutState" where
  "addFeature env bucket sto af =
     (let feature = af_feature af;
          (bucket1, verticallyShapedIcon, shapedIcon) = fitIcons env bucket sto af;
          st0 = \<lparr>ls_bucket = bucket1, ls_shapedTextOrientations = sto,
                 ls_verticallyShapedIcon = verticallyShapedIcon\<rparr>;
          symbolPlacement = symbol_placement (layout bucket);
          textMaxAngle = degToRad (text_max_angle (layout bucket));
          glyphSize = ONE_EM env;
          maxBoxScale = textMaxBoxScale env bucket feature (af_sizes af) (af_layoutTextSize af)
      in if symbolPlacement = placement_line then
           forEach
             (\<lambda>line st.
                forEach (addLineAnchor env bucket af shapedIcon line)
                  (getAnchors env line (symbolMinDistance env bucket) textMaxAngle
                     (verticalOrDefault (ls_shapedTextOrientations st)) shapedIcon glyphSize
                     maxBoxScale (overscaling bucket) (EXTENT env))
                  st)
             (clipLine env (f_geometry feature) 0 0 (EXTENT env) (EXTENT env)) st0
         else if symbolPlacement = placement_line_center then
           forEach
             (\<lambda>line st.
                if length line > 1 then
                  (case getCenterAnchor env line textMaxAngle
                          (verticalOrDefault (ls_shapedTextOrientations st)) shapedIcon glyphSize
                          maxBoxScale of
                     Some anchor \<Rightarrow> addSymbolAtAnchor env bucket af shapedIcon (Some line) anchor st
                   | None \<Rightarrow> Inr st)
                else Inr st)
             (f_geometry feature) st0
         else if f_type feature = T_Polygon then
           forEach
             (\<lambda>polygon st.
                if symbolPlacement = placement_point then
                  (let poi = findPoleOfInaccessibility env polygon 16
                   in addSymbolAtAnchor env bucket af shapedIcon
                        (case polygon of [] \<Rightarrow> None | ring # _ \<Rightarrow> Some ring)
                        (new_Anchor (p_x poi) (p_y poi) 0 0 None) st)
                else
                  (case polygon of
                     [] \<Rightarrow> Inl TypeError
                   | ring # _ \<Rightarrow> addSymbolAtAnchorFromLine env bucket af shapedIcon ring st))
             (classifyRings env (f_geometry feature) 0) st0
         else if f_type feature = T_LineString then
           forEach (addSymbolAtAnchorFromLine env bucket af shapedIcon) (f_geometry feature) st0
         else if f_type feature = T_Point then
           forEach
             (\<lambda>points st.
                forEach (\<lambda>point. addSymbolAtAnchor env bucket af shapedIcon (Some [point])
                                    (pointAnchor point))
                  points st)
             (f_geometry feature) st0
         else Inr st0)"

section \<open>Shaping orchestrator\<close>

text \<open>\<^verbatim>\<open>evaluateVariableOffset\<close> (lines 82-156); \<open>Infinity\<close> is \<^verbatim>\<open>INVALID_TEXT_OFFSET\<close>.\<close>

definition baselineOffset :: real where
  "baselineOffset = 7"

definition evaluateVariableOffset :: "string \<Rightarrow> real \<times> js_number \<Rightarrow> real \<times> real" where
  "evaluateVariableOffset anchor offset =
     (case snd offset of
        Infinity \<Rightarrow>
          (let offsetX = (if fst offset < 0 then 0 else fst offset);
               hypotenuse = offsetX / sqrt 2;
               oy = (if anchor = ''top-right'' \<or> anchor = ''top-left'' then hypotenuse - baselineOffset
                     else if anchor = ''bottom-right'' \<or> anchor = ''bottom-left''
                       then - hypotenuse + baselineOffset
                     else if anchor = ''bottom'' then - offsetX + baselineOffset
                     else if anchor = ''top'' then offsetX - baselineOffset
                     else 0);
               ox = (if anchor = ''top-right'' \<or> anchor = ''bottom-right'' then - hypotenuse
                     else if anchor = ''top-left'' \<or> anchor = ''bottom-left'' then hypotenuse
                     else if anchor = ''left'' then offsetX
                     else if anchor = ''right'' then - offsetX
                     else 0)
           in (ox, oy))
      | Num offsetY0 \<Rightarrow>
          (let offsetX = \<bar>fst offset\<bar>;
               offsetY = \<bar>offsetY0\<bar>;
               oy = (if anchor = ''top-right'' \<or> anchor = ''top-left'' \<or> anchor = ''top''
                       then offsetY - baselineOffset
                     else if anchor = ''bottom-right'' \<or> anchor = ''bottom-left'' \<or> anchor = ''bottom''
                       then - offsetY + baselineOffset
                     else 0);
               ox = (if anchor = ''top-right'' \<or> anchor = ''bottom-right'' \<or> anchor = ''right''
                       then - offsetX
                     else if anchor = ''top-left'' \<or> anchor = ''bottom-left'' \<or> anchor = ''left''
                       then offsetX
                     else 0)
           in (ox, oy)))"

text \<open>\<^verbatim>\<open>getAnchorJustification\<close> (lines 454-466).\<close>

definition getAnchorJustification :: "string \<Rightarrow> TextJustify" where
  "getAnchorJustification anchor =
     (if anchor = ''right'' \<or> anchor = ''top-right'' \<or> anchor = ''bottom-right'' then J_right
      else if anchor = ''left'' \<or> anchor = ''top-left'' \<or> anchor = ''bottom-left'' then J_left
      else J_center)"

text \<open>\<^verbatim>\<open>shapedIconText\<close> (lines 397-451): the text box is moved next to the icon.\<close>

definition shapedIconText ::
  "Env \<Rightarrow> Shaping \<Rightarrow> PositionedIcon option \<Rightarrow> string \<Rightarrow> real \<Rightarrow> real \<Rightarrow> Shaping" where
  "shapedIconText env shapedText shapedIcon0 imageTextAnchor layoutTextSize layoutIconSize =
     (case shapedIcon0 of
        None \<Rightarrow> shapedText
      | Some shapedIcon \<Rightarrow>
          (let scale = layoutTextSize / ONE_EM env;
               textWidth = s_right shapedText - s_left shapedText;
               textHeight = s_bottom shapedText - s_top shapedText;
               imagePadding = 2;
               iconTop = (s_top shapedIcon - imagePadding) * layoutIconSize / scale;
               iconBottom = (s_bottom shapedIcon + imagePadding) * layoutIconSize / scale;
               iconLeft = (s_left shapedIcon - imagePadding) * layoutIconSize / scale;
               iconRight = (s_right shapedIcon + imagePadding) * layoutIconSize / scale;
               iconHeight = iconBottom - iconTop;
               oldTop = s_top shapedText;
               oldLeft = s_left shapedText;
               moved =
                 (if imageTextAnchor = ''image-top'' then
                    shapedText\<lparr>s_bottom := iconTop, s_top := iconTop - textHeight\<rparr>
                  else if imageTextAnchor = ''image-bottom'' then
                    shapedText\<lparr>s_top := iconBottom, s_bottom := iconBottom + textHeight\<rparr>
                  else if imageTextAnchor = ''image-left'' then
                    (let b = iconBottom - iconHeight / 2 + textHeight / 2
                     in shapedText\<lparr>s_bottom := b, s_top := b - textHeight,
                                     s_right := iconLeft, s_left := iconLeft - textWidth\<rparr>)
                  else if imageTextAnchor = ''image-right'' then
                    (let b = iconBottom - iconHeight / 2 + textHeight / 2
                     in shapedText\<lparr>s_bottom := b, s_top := b - textHeight,
                                     s_left := iconRight, s_right := iconRight + textWidth\<rparr>)
                  else shapedText);
               dx = oldLeft - s_left moved;
               dy = oldTop - s_top moved
           in moved\<lparr>positionedLines :=
                map (\<lambda>positionedLine.
                       positionedLine\<lparr>positionedGlyphs :=
                         map (\<lambda>g. g\<lparr>g_x := g_x g - dx, g_y := g_y g - dy\<rparr>)
                           (positionedGlyphs positionedLine)\<rparr>)
                  (positionedLines moved)\<rparr>))"

text \<open>
  Lines 300-325: the shapings of a layer with \<^verbatim>\<open>text-variable-anchor\<close>. \<open>shape\<close> is the
  call of \<^verbatim>\<open>shapeText\<close> with the justification left open; the state of the loop is the
  object \<^verbatim>\<open>shapedTextOrientations.horizontal\<close> and the flag \<^verbatim>\<open>singleLine\<close>. Line 313
  reads the property \<^verbatim>\<open>0\<close> of the object.
\<close>

fun shapeJustifications ::
  "(TextJustify \<Rightarrow> Shaping option) \<Rightarrow> TextJustify list \<Rightarrow> Shaping option js_object \<times> bool
     \<Rightarrow> Shaping option js_object \<times> bool" where
  "shapeJustifications shape [] (hor, singleLine) = (hor, singleLine)"
| "shapeJustifications shape (justification # rest) (hor, singleLine) =
     (case obj_get hor (justify_key justification) of
        Some present \<Rightarrow> shapeJustifications shape rest (hor, singleLine)
      | None \<Rightarrow>
          if singleLine then
            shapeJustifications shape rest
              (obj_set hor (justify_key justification) (obj_get hor ''0''), singleLine)
          else
            (case shape justification of
               Some shaping \<Rightarrow>
                 shapeJustifications shape rest
                   (obj_set hor (justify_key justification) (Some shaping),
                    length (positionedLines shaping) = 1)
             | None \<Rightarrow> shapeJustifications shape rest (hor, singleLine)))"

text \<open>String helpers: \<^verbatim>\<open>startsWith\<close>, \<^verbatim>\<open>replace\<close> of the first occurrence, \<^verbatim>\<open>join(',')\<close>.\<close>

definition startsWith :: "string \<Rightarrow> string \<Rightarrow> bool" where
  "startsWith s pat = (take (length pat) s = pat)"

fun remove_first :: "string \<Rightarrow> string \<Rightarrow> string" where
  "remove_first pat [] = []"
| "remove_first pat (c # cs) =
     (if take (length pat) (c # cs) = pat then drop (length pat) (c # cs)
      else c # remove_first pat cs)"

fun join_comma :: "string list \<Rightarrow> string" where
  "join_comma [] = []"
| "join_comma [s] = s"
| "join_comma (s # t # ss) = s @ '','' @ join_comma (t # ss)"

text \<open>
  Modelled from the spec: \<^verbatim>\<open>clamp\<close> of the utilities is not under src; the scale
  factors are clamped to the configured ranges.
\<close>

definition clamp :: "real \<Rightarrow> real \<Rightarrow> real \<Rightarrow> real" where
  "clamp n lo hi = min hi (max lo n)"

text \<open>
  Lines 242-344 of \<^verbatim>\<open>performSymbolLayout\<close>: the shapings of the text of a feature, the
  text offset and the image text anchor (absent for a text anchor that does not start
  with \<^verbatim>\<open>image\<close>).
\<close>

definition shapeFeatureText ::
  "Env \<Rightarrow> SymbolBucket \<Rightarrow> Feature \<Rightarrow> real \<Rightarrow> real
     \<Rightarrow> ShapedTextOrientations \<times> (real \<times> real) \<times> string option" where
  "shapeFeatureText env bucket feature layoutTextSize layoutTextSizeThisZoom =
     (case f_text feature of
        None \<Rightarrow> (\<lparr>horizontal = [], vertical = None\<rparr>, (0, 0), None)
      | Some txt \<Rightarrow>
          (let lay = layout bucket;
               textAlongLine = textAlongLine_of bucket;
               fontstack = join_comma (text_font lay feature);
               unformattedText = txt;
               spacing = text_letter_spacing lay feature * ONE_EM env;
               lineHeight = text_line_height lay feature * ONE_EM env;
               spacingIfAllowed = (if allowsLetterSpacing env unformattedText then spacing else 0);
               textAnchor0 = text_anchor lay feature;
               imageTextAnchor = (if startsWith textAnchor0 ''image'' then Some textAnchor0 else None);
               textAnchor = remove_first ''image-'' textAnchor0;
               variableTextAnchor = text_variable_anchor lay;
               textOffset =
                 (case variableTextAnchor of
                    None \<Rightarrow>
                      (let radialOffset = text_radial_offset lay feature
                       in if radialOffset \<noteq> 0
                          then evaluateVariableOffset textAnchor (radialOffset * ONE_EM env, Infinity)
                          else (fst (text_offset lay feature) * ONE_EM env,
                                snd (text_offset lay feature) * ONE_EM env))
                  | Some anchors \<Rightarrow> (0, 0));
               textJustify = (if textAlongLine then J_center else text_justify lay feature);
               isPointPlacement = (symbol_placement lay = placement_point);
               maxWidth = (if isPointPlacement then Num (text_max_width lay feature * ONE_EM env)
                           else Infinity);
               shape = (\<lambda>anchor justification writingMode allowVertical.
                          shapeText env
                            \<lparr>st_text = txt, st_fontstack = fontstack, st_maxWidth = maxWidth,
                             st_lineHeight = lineHeight, st_textAnchor = anchor,
                             st_textJustify = justification, st_spacing = spacingIfAllowed,
                             st_translate = textOffset, st_writingMode = writingMode,
                             st_allowVerticalPlacement = allowVertical,
                             st_layoutTextSize = layoutTextSize,
                             st_layoutTextSizeThisZoom = layoutTextSizeThisZoom\<rparr>);
               addVerticalShapingIfNeeded =
                 (\<lambda>justification sto.
                    if allowVerticalPlacement bucket \<and> allowsVerticalWritingMode env unformattedText
                    then sto\<lparr>vertical := shape textAnchor justification WM_vertical True\<rparr>
                    else sto);
               sto =
                 (case (textAlongLine, variableTextAnchor) of
                    (False, Some anchors) \<Rightarrow>
                      (let justifications =
                             (if textJustify = J_auto then map getAnchorJustification anchors
                              else [textJustify]);
                           hor = fst (shapeJustifications
                                        (\<lambda>justification. shape ''center'' justification WM_horizontal False)
                                        justifications ([], False))
                       in addVerticalShapingIfNeeded J_left \<lparr>horizontal = hor, vertical = None\<rparr>)
                  | _ \<Rightarrow>
                      (let textJustify1 = (if textJustify = J_auto then getAnchorJustification textAnchor
                                           else textJustify);
                           hor =
                             (if isPointPlacement \<or> (''horizontal'' \<in> set (text_writing_mode lay)
                                   \<or> \<not> allowsVerticalWritingMode env unformattedText)
                              then (case shape textAnchor textJustify1 WM_horizontal False of
                                      Some shaping \<Rightarrow> obj_set [] (justify_key textJustify1) (Some shaping)
                                    | None \<Rightarrow> [])
                              else [])
                       in addVerticalShapingIfNeeded
                            (if isPointPlacement then J_left else textJustify1)
                            \<lparr>horizontal = hor, vertical = None\<rparr>))
           in (sto, textOffset, imageTextAnchor)))"

text \<open>
  Lines 346-377: the shaped icon of a feature, the flags of its image and the bucket
  (\<^verbatim>\<open>sdfIcons\<close>, \<^verbatim>\<open>iconsNeedLinear\<close>, the warning on mixed icon types).
\<close>

definition truthy_string :: "string option \<Rightarrow> bool" where
  "truthy_string s = (case s of Some t \<Rightarrow> t \<noteq> [] | None \<Rightarrow> False)"

definition shapeFeatureIcon ::
  "Env \<Rightarrow> SymbolBucket \<Rightarrow> Sizes \<Rightarrow> real \<Rightarrow> Feature
     \<Rightarrow> PositionedIcon option \<times> bool \<times> bool \<times> SymbolBucket" where
  "shapeFeatureIcon env bucket sizes pixelRatio0 feature =
     (case f_icon feature of
        None \<Rightarrow> (None, False, False, bucket)
      | Some icon \<Rightarrow>
          if namePrimary icon = [] then (None, False, False, bucket)
          else
            (let lay = layout bucket;
                 iconSizeFactor = getRasterizedIconSize env (iconSizeData bucket) (icon_size_at lay)
                                    (zoom bucket) feature;
                 scaleFactor0 = iconSizeFactor * sz_iconScaleFactor sizes * pixelRatio0;
                 primaryImageSerialized = serializePrimary env icon scaleFactor0
             in case imageMap env primaryImageSerialized of
                  None \<Rightarrow> (None, False, False, bucket)
                | Some img \<Rightarrow>
                    (let shapedIcon =
                           shapeIcon env (imagePositions env primaryImageSerialized)
                             (if truthy_string (nameSecondary icon)
                              then imagePositions env (serializeSecondary env icon scaleFactor0)
                              else None)
                             (icon_offset lay feature) (icon_anchor lay feature);
                         bucket1 =
                           (case sdfIcons bucket of
                              None \<Rightarrow> bucket\<lparr>sdfIcons := Some (sdf img)\<rparr>
                            | Some s \<Rightarrow> if s \<noteq> sdf img then warnOnce MixedSdfWarning bucket
                                        else bucket);
                         bucket2 =
                           (if img_pixelRatio img \<noteq> pixelRatio bucket1
                            then bucket1\<lparr>iconsNeedLinear := True\<rparr>
                            else if icon_rotate_constantOr lay 1 \<noteq> 0
                            then bucket1\<lparr>iconsNeedLinear := True\<rparr>
                            else bucket1)
                     in (Some shapedIcon, sdf img, usvg img, bucket2))))"

text \<open>
  Lines 379-385: \<^verbatim>\<open>shapedIconText\<close> writes the object that
  \<^verbatim>\<open>getDefaultHorizontalShaping(horizontal) || vertical\<close> returned: the value of the
  first horizontal key when it is a shaping, the vertical shaping otherwise.
\<close>

definition setDefaultShaping :: "ShapedTextOrientations \<Rightarrow> Shaping \<Rightarrow> ShapedTextOrientations" where
  "setDefaultShaping sto shaping =
     (case horizontal sto of
        (justification, Some old) # rest \<Rightarrow> sto\<lparr>horizontal := (justification, Some shaping) # rest\<rparr>
      | _ \<Rightarrow> sto\<lparr>vertical := Some shaping\<rparr>)"

text \<open>The body of the loop over the features (lines 234-390).\<close>

definition layoutFeature ::
  "Env \<Rightarrow> Sizes \<Rightarrow> real \<Rightarrow> bool \<Rightarrow> Feature \<Rightarrow> SymbolBucket \<Rightarrow> js_error + SymbolBucket" where
  "layoutFeature env sizes pixelRatio0 hasAnySecondaryIcon feature bucket =
     (let lay = layout bucket;
          layoutTextSizeThisZoom = text_size lay feature * sz_textScaleFactor sizes;
          layoutTextSize = sz_layoutTextSize sizes feature * sz_textScaleFactor sizes;
          layoutIconSize = sz_layoutIconSize sizes feature * sz_iconScaleFactor sizes;
          (sto, textOffset, imageTextAnchor) =
            shapeFeatureText env bucket feature layoutTextSize layoutTextSizeThisZoom;
          (shapedIcon, isSDFIcon, isUSVGIcon, bucket1) =
            shapeFeatureIcon env bucket sizes pixelRatio0 feature;
          shapedText = defaultShaping sto;
          bucket2 = (if \<not> bucket_iconsInText bucket1
                     then bucket1\<lparr>bucket_iconsInText :=
                            (case shapedText of Some s \<Rightarrow> iconsInText s | None \<Rightarrow> False)\<rparr>
                     else bucket1);
          sto1 = (case (imageTextAnchor, shapedText) of
                    (Some ita, Some s) \<Rightarrow>
                      setDefaultShaping sto
                        (shapedIconText env s shapedIcon ita layoutTextSize layoutIconSize)
                  | _ \<Rightarrow> sto)
      in if shapedText \<noteq> None \<or> shapedIcon \<noteq> None then
           (case addFeature env bucket2 sto1
                   \<lparr>af_feature = feature, af_shapedIcon = shapedIcon, af_sizes = sizes,
                    af_layoutTextSize = layoutTextSize, af_layoutIconSize = layoutIconSize,
                    af_textOffset = textOffset, af_isSDFIcon = isSDFIcon,
                    af_isUSVGIcon = isUSVGIcon,
                    af_hasAnySecondaryIcon = hasAnySecondaryIcon\<rparr> of
              Inl e \<Rightarrow> Inl e
            | Inr st \<Rightarrow> Inr (ls_bucket st))
         else Inr bucket2)"

text \<open>\<^verbatim>\<open>performSymbolLayout\<close> (lines 158-395).\<close>

definition layoutSizes :: "Env \<Rightarrow> SymbolBucket \<Rightarrow> real \<Rightarrow> real \<Rightarrow> Sizes" where
  "layoutSizes env bucket tileZoom scaleFactor0 =
     (let lay = layout bucket
      in \<lparr>sz_scaleFactor = scaleFactor0,
          sz_textSizeScaleRange = text_size_scale_range lay,
          sz_iconSizeScaleRange = icon_size_scale_range lay,
          sz_textScaleFactor = clamp scaleFactor0 (fst (text_size_scale_range lay))
                                 (snd (text_size_scale_range lay)),
          sz_iconScaleFactor = clamp scaleFactor0 (fst (icon_size_scale_range lay))
                                 (snd (icon_size_scale_range lay)),
          sz_layoutTextSize = text_size_at lay (tileZoom + 1),
          sz_layoutIconSize = icon_size_at lay (tileZoom + 1),
          sz_textMaxSize = text_size_max lay,
          sz_compositeTextSizes =
            (case textSizeData bucket of
               Size_composite minZoom maxZoom \<Rightarrow> Some (text_size_at lay minZoom, text_size_at lay maxZoom)
             | _ \<Rightarrow> None),
          sz_compositeIconSizes =
            (case iconSizeData bucket of
               Size_composite minZoom maxZoom \<Rightarrow> Some (icon_size_at lay minZoom, icon_size_at lay maxZoom)
             | _ \<Rightarrow> None)\<rparr>)"

definition hasSecondaryIcon :: "Feature \<Rightarrow> bool" where
  "hasSecondaryIcon feature =
     (case f_icon feature of Some icon \<Rightarrow> truthy_string (nameSecondary icon) | None \<Rightarrow> False)"

definition resetBucket :: "Env \<Rightarrow> SymbolBucket \<Rightarrow> SymbolBucket" where
  "resetBucket env bucket =
     (let bucket1 = createArrays env bucket;
          tileSize = 512 * real_of_int (overscaling bucket1)
      in bucket1\<lparr>tilePixelRatio := EXTENT env / tileSize,
                 compareText := Map.empty,
                 iconsNeedLinear := False\<rparr>)"

definition layoutFeatures ::
  "Env \<Rightarrow> Sizes \<Rightarrow> real \<Rightarrow> bool \<Rightarrow> Feature list \<Rightarrow> SymbolBucket \<Rightarrow> js_error + SymbolBucket" where
  "layoutFeatures env sizes pixelRatio0 hasAnySecondaryIcon fs bucket =
     forEach (layoutFeature env sizes pixelRatio0 hasAnySecondaryIcon) fs bucket"

definition performSymbolLayout ::
  "Env \<Rightarrow> SymbolBucket \<Rightarrow> bool \<Rightarrow> real \<Rightarrow> real \<Rightarrow> real \<Rightarrow> js_error + SymbolBucket" where
  "performSymbolLayout env bucket showCollisionBoxes tileZoom scaleFactor0 pixelRatio0 =
     (let bucket1 = resetBucket env bucket;
          sizes = layoutSizes env bucket1 tileZoom scaleFactor0;
          hasAnySecondaryIcon = list_ex hasSecondaryIcon (features bucket1)
      in case layoutFeatures env sizes pixelRatio0 hasAnySecondaryIcon (features bucket1) bucket1 of
           Inl e \<Rightarrow> Inl e
         | Inr bucket2 \<Rightarrow>
             Inr (if showCollisionBoxes
                  then bucket2\<lparr>collisionDebugBuffers :=
                         generateCollisionDebugBuffers env tileZoom (collisionBoxArray bucket2)
                           (sz_textScaleFactor sizes)\<rparr>
                  else bucket2))"

section \<open>Frames, invariants and example inputs\<close>

definition phase_frame :: "SymbolBucket \<Rightarrow> SymbolBucket" where
  "phase_frame b = b\<lparr>collisionBoxArray := [], text_buffers := \<lparr>placedSymbolArray = []\<rparr>,
      icon_buffers := \<lparr>placedSymbolArray = []\<rparr>, glyphOffsetArray := [], lineVertexArray := [],
      warnOnceHistory := []\<rparr>"

definition same_lines :: "Shaping option \<Rightarrow> Shaping option \<Rightarrow> bool" where
  "same_lines u v = rel_option (\<lambda>s t. positionedLines t = positionedLines s \<and> s_text t = s_text s) u v"

definition shape_equiv :: "ShapedTextOrientations \<Rightarrow> ShapedTextOrientations \<Rightarrow> bool" where
  "shape_equiv sto sto' =
     (obj_keys (horizontal sto') = obj_keys (horizontal sto) \<and>
      (\<forall>k. same_lines (obj_get (horizontal sto) k) (obj_get (horizontal sto') k)) \<and>
      same_lines (vertical sto) (vertical sto'))"

definition boxes_inv :: "nat \<Rightarrow> AddSymbolLocals \<Rightarrow> bool" where
  "boxes_inv n0 l =
     (let n = length (collisionBoxArray (l_bucket l))
      in n0 \<le> n \<and>
         (\<forall>i. textBoxIndex l = Some i \<longrightarrow> n0 \<le> i \<and> i < n) \<and>
         (\<forall>i. iconBoxIndex l = Some i \<longrightarrow> n0 \<le> i \<and> i < n) \<and>
         (\<forall>i. verticalTextBoxIndex l = Some i \<longrightarrow> n0 \<le> i \<and> i < n) \<and>
         (\<forall>i. verticalIconBoxIndex l = Some i \<longrightarrow> n0 < i \<and> i < n))"

definition sizes_ok :: "SymbolBucket \<Rightarrow> Sizes \<Rightarrow> bool" where
  "sizes_ok b sizes =
     ((case textSizeData b of Size_composite lo hi \<Rightarrow> sz_compositeTextSizes sizes \<noteq> None | _ \<Rightarrow> True) \<and>
      (case iconSizeData b of Size_composite lo hi \<Rightarrow> sz_compositeIconSizes sizes \<noteq> None | _ \<Rightarrow> True))"

fun wf_keys :: "Shaping option js_object \<Rightarrow> string list \<Rightarrow> bool" where
  "wf_keys hor [] = True"
| "wf_keys hor (k # ks) =
     (case obj_get hor k of
        None \<Rightarrow> False
      | Some s \<Rightarrow> length (positionedLines s) = 1 \<or> wf_keys hor ks)"

definition config_of :: "SymbolBucket \<Rightarrow> SymbolBucket" where
  "config_of b = b\<lparr>tilePixelRatio := 0, compareText := Map.empty, iconsNeedLinear := False,
      sdfIcons := None, bucket_iconsInText := False, hasAnyIconTextFit := False,
      collisionBoxArray := [], symbolInstances := [],
      text_buffers := \<lparr>placedSymbolArray = []\<rparr>, icon_buffers := \<lparr>placedSymbolArray = []\<rparr>,
      glyphOffsetArray := [], lineVertexArray := [], sortKeyRanges := [], warnOnceHistory := [],
      collisionDebugBuffers := []\<rparr>"

definition written_row :: "AddSymbolArgs \<Rightarrow> AddSymbolLocals \<Rightarrow> SymbolInstance \<Rightarrow> bool" where
  "written_row a l inst =
     (let n = length (collisionBoxArray (l_bucket l))
      in si_tileAnchorX inst = p_x (a_anchor a) \<and> si_tileAnchorY inst = p_y (a_anchor a) \<and>
         si_featureIndex inst = a_featureIndex a \<and>
         si_textBoxStartIndex inst = (case textBoxIndex l of Some i \<Rightarrow> i | None \<Rightarrow> n) \<and>
         si_textBoxEndIndex inst = (case textBoxIndex l of Some i \<Rightarrow> i + 1 | None \<Rightarrow> n) \<and>
         si_verticalTextBoxStartIndex inst = (case verticalTextBoxIndex l of Some i \<Rightarrow> i | None \<Rightarrow> n) \<and>
         si_verticalTextBoxEndIndex inst = (case verticalTextBoxIndex l of Some i \<Rightarrow> i + 1 | None \<Rightarrow> n) \<and>
         si_iconBoxStartIndex inst = (case iconBoxIndex l of Some i \<Rightarrow> i | None \<Rightarrow> n) \<and>
         si_iconBoxEndIndex inst = (case iconBoxIndex l of Some i \<Rightarrow> i + 1 | None \<Rightarrow> n) \<and>
         si_verticalIconBoxStartIndex inst =
           (if falsy_index (verticalIconBoxIndex l) then n
            else (case verticalIconBoxIndex l of Some i \<Rightarrow> i | None \<Rightarrow> n)) \<and>
         si_verticalIconBoxEndIndex inst =
           (if falsy_index (verticalIconBoxIndex l) then n
            else (case verticalIconBoxIndex l of Some i \<Rightarrow> i + 1 | None \<Rightarrow> n)))"

definition wf_sto :: "ShapedTextOrientations \<Rightarrow> bool" where
  "wf_sto sto = wf_keys (horizontal sto) (obj_keys (horizontal sto))"

definition in_extent :: "Env \<Rightarrow> 'a Point_scheme \<Rightarrow> bool" where
  "in_extent env p = (0 \<le> p_x p \<and> p_x p < EXTENT env \<and> 0 \<le> p_y p \<and> p_y p < EXTENT env)"

definition tile_anchor :: "SymbolInstance \<Rightarrow> real \<times> real" where
  "tile_anchor inst = (si_tileAnchorX inst, si_tileAnchorY inst)"

definition state_ok :: "Sizes \<Rightarrow> LayoutState \<Rightarrow> bool" where
  "state_ok sizes st = (wf_sto (ls_shapedTextOrientations st) \<and> sizes_ok (ls_bucket st) sizes)"

definition coords :: "'a Point_scheme \<Rightarrow> real \<times> real" where
  "coords p = (p_x p, p_y p)"

definition example_layout :: Layout where
  "example_layout =
     \<lparr>text_size_scale_range = (0.8, 2), icon_size_scale_range = (0.8, 2),
      text_rotation_alignment = ''auto'', icon_rotation_alignment = ''auto'',
      symbol_placement = placement_point,
      text_size = (\<lambda>f. 16), icon_size = (\<lambda>f. 1),
      text_size_at = (\<lambda>z f. 16), icon_size_at = (\<lambda>z f. 1),
      text_size_max = (\<lambda>f. Some 16),
      text_font = (\<lambda>f. [''Open Sans Regular'', ''Arial Unicode MS Regular'']),
      text_letter_spacing = (\<lambda>f. 0), text_line_height = (\<lambda>f. 1.2),
      text_anchor = (\<lambda>f. ''center''), text_variable_anchor = None,
      text_radial_offset = (\<lambda>f. 0), text_radial_offset_unset = True,
      text_offset = (\<lambda>f. (0, 0)), text_justify = (\<lambda>f. J_center),
      text_max_width = (\<lambda>f. 10), text_writing_mode = [''horizontal''],
      text_rotate = (\<lambda>f. 0), text_padding = 2, text_max_angle = 45,
      icon_offset = (\<lambda>f. (0, 0)), icon_anchor = (\<lambda>f. ''center''),
      icon_rotate = (\<lambda>f. 0), icon_rotate_constantOr = (\<lambda>d. 0), icon_padding = 2,
      icon_text_fit = (\<lambda>f. ''none''), icon_text_fit_padding = (\<lambda>f. (0, 0, 0, 0)),
      symbol_spacing = 250\<rparr>"

definition example_shaping :: Shaping where
  "example_shaping =
     \<lparr>s_top = -12, s_bottom = 12, s_left = -30, s_right = 30, collisionPadding = None,
      positionedLines = [\<lparr>positionedGlyphs = [\<lparr>g_x = -30, g_y = -12\<rparr>, \<lparr>g_x = 0, g_y = -12\<rparr>]\<rparr>],
      s_text = ''Main St'', iconsInText = False\<rparr>"

definition example_env :: Env where
  "example_env =
     \<lparr>EXTENT = 8192, ONE_EM = 24, SIZE_PACK_FACTOR = 128,
      murmur3 = (\<lambda>s. length s),
      shapeText = (\<lambda>args. if st_text args = [] then None
                            else Some (example_shaping\<lparr>s_text := st_text args\<rparr>)),
      shapeIcon = (\<lambda>p s off anchor. \<lparr>s_top = -8, s_bottom = 8, s_left = -8, s_right = 8,
                                        collisionPadding = None, pi_image = ''marker''\<rparr>),
      fitIconToText = (\<lambda>icon shaping fit padding off scale. icon),
      getGlyphQuads = (\<lambda>anchor shaping off along f vert.
                         concat (map (\<lambda>line. map (\<lambda>g. \<lparr>glyphOffset = (g_x g, 0)\<rparr>) (positionedGlyphs line))
                                   (positionedLines shaping))),
      getIconQuads = (\<lambda>icon rot sdf fit scale. [\<lparr>glyphOffset = (0, 0)\<rparr>]),
      clipLine = (\<lambda>lines x1 y1 x2 y2.
                    filter (\<lambda>line. \<forall>p \<in> set line. x1 \<le> p_x p \<and> p_x p \<le> x2 \<and> y1 \<le> p_y p \<and> p_y p \<le> y2) lines),
      getAnchors = (\<lambda>line spacing maxAngle shaping icon glyphSize boxScale overscaling extent.
                      map (\<lambda>p. \<lparr>p_x = p_x p, p_y = p_y p, a_z = 0, angle = 0, segment = Some 0\<rparr>) line),
      getCenterAnchor = (\<lambda>line maxAngle shaping icon glyphSize boxScale.
                           case line of [] \<Rightarrow> None
                           | p # _ \<Rightarrow> Some \<lparr>p_x = p_x p, p_y = p_y p, a_z = 0, angle = 0, segment = Some 0\<rparr>),
      findPoleOfInaccessibility = (\<lambda>polygon precision.
                           case polygon of
                             [] \<Rightarrow> \<lparr>p_x = 0, p_y = 0\<rparr>
                           | ring # _ \<Rightarrow> \<lparr>p_x = sum_list (map p_x ring) / real (length ring),
                                          p_y = sum_list (map p_y ring) / real (length ring)\<rparr>),
      classifyRings = (\<lambda>rings maxRings. map (\<lambda>ring. [ring]) rings),
      allowsVerticalWritingMode = (\<lambda>s. False),
      allowsLetterSpacing = (\<lambda>s. True),
      getRasterizedIconSize = (\<lambda>sizeData prop z f. 1),
      serializePrimary = (\<lambda>icon scale. namePrimary icon),
      serializeSecondary = (\<lambda>icon scale. case nameSecondary icon of Some s \<Rightarrow> s | None \<Rightarrow> []),
      imageMap = [''marker'' \<mapsto> \<lparr>sdf = False, usvg = False, img_pixelRatio = 1\<rparr>],
      imagePositions = [''marker'' \<mapsto> 0],
      projection_name = ''mercator'',
      projectTilePoint = (\<lambda>px py. (px, py, 0)),
      upVector = (\<lambda>px py. (0, 0, 1)),
      createArrays = (\<lambda>b. b\<lparr>symbolInstances := [], text_buffers := \<lparr>placedSymbolArray = []\<rparr>,
                              icon_buffers := \<lparr>placedSymbolArray = []\<rparr>, glyphOffsetArray := [],
                              lineVertexArray := []\<rparr>),
      generateCollisionDebugBuffers = (\<lambda>z boxes scale. []),
      addToLineVertexArray = (\<lambda>vertices anchor line.
                                ((length vertices, 0), vertices)),
      addToSortKeyRanges = (\<lambda>ranges start k. ranges @ [(k, start, start + 1)])\<rparr>"

definition example_feature :: Feature where
  "example_feature =
     \<lparr>f_text = Some ''Main St'', f_icon = None, f_type = T_Point,
      f_geometry = [[\<lparr>p_x = 10, p_y = 20\<rparr>, \<lparr>p_x = -5, p_y = 20\<rparr>, \<lparr>p_x = 8192, p_y = 7\<rparr>,
                    \<lparr>p_x = 8191, p_y = 0\<rparr>]],
      f_index = 0, f_sourceLayerIndex = 0, f_sortKey = None\<rparr>"

definition example_bucket :: SymbolBucket where
  "example_bucket =
     \<lparr>overscaling = 1, zoom = 14, pixelRatio = 1, allowVerticalPlacement = False,
      textSizeData = Size_constant, iconSizeData = Size_constant, bucket_index = 0,
      layerIds = [''road-label''], features = [example_feature], layout = example_layout,
      tilePixelRatio = 16, compareText = Map.empty, iconsNeedLinear = False, sdfIcons = None,
      bucket_iconsInText = False, hasAnyIconTextFit = False, collisionBoxArray = [],
      symbolInstances = [], text_buffers = \<lparr>placedSymbolArray = []\<rparr>,
      icon_buffers = \<lparr>placedSymbolArray = []\<rparr>, glyphOffsetArray = [], lineVertexArray = [],
      sortKeyRanges = [], warnOnceHistory = [], collisionDebugBuffers = []\<rparr>"

definition example_sto :: ShapedTextOrientations where
  "example_sto = \<lparr>horizontal = [(''center'', Some example_shaping)], vertical = None\<rparr>"

definition example_args :: AddFeatureArgs where
  "example_args =
     \<lparr>af_feature = example_feature, af_shapedIcon = None,
      af_sizes = layoutSizes example_env example_bucket 14 1,
      af_layoutTextSize = 16, af_layoutIconSize = 1, af_textOffset = (0, 0),
      af_isSDFIcon = False, af_isUSVGIcon = False, af_hasAnySecondaryIcon = False\<rparr>"

definition example_triangle :: "Point list" where
  "example_triangle = [\<lparr>p_x = 90, p_y = 60\<rparr>, \<lparr>p_x = 210, p_y = 60\<rparr>, \<lparr>p_x = 150, p_y = 180\<rparr>]"

definition example_outside_triangle :: "Point list" where
  "example_outside_triangle = [\<lparr>p_x = -120, p_y = 60\<rparr>, \<lparr>p_x = -30, p_y = 60\<rparr>, \<lparr>p_x = -60, p_y = 180\<rparr>]"

definition example_square :: "Point list" where
  "example_square = [\<lparr>p_x = 1000, p_y = 1000\<rparr>, \<lparr>p_x = 1200, p_y = 1000\<rparr>,
                     \<lparr>p_x = 1200, p_y = 1200\<rparr>, \<lparr>p_x = 1000, p_y = 1200\<rparr>]"

definition polygon_args :: "Point list list \<Rightarrow> AddFeatureArgs" where
  "polygon_args rings =
     example_args\<lparr>af_feature := example_feature\<lparr>f_type := T_Polygon, f_geometry := rings\<rparr>\<rparr>"

definition probe_env :: Env where
  "probe_env = example_env\<lparr>findPoleOfInaccessibility :=
     (\<lambda>polygon precision. if precision = 2 then \<lparr>p_x = 150, p_y = 100\<rparr> else \<lparr>p_x = -1, p_y = -1\<rparr>)\<rparr>"

definition example_state :: LayoutState where
  "example_state = \<lparr>ls_bucket = example_bucket, ls_shapedTextOrientations = example_sto,
                     ls_verticallyShapedIcon = None\<rparr>"

definition example_symbol_args :: AddSymbolArgs where
  "example_symbol_args =
     symbolArgs example_env example_bucket example_args None
       (Some [\<lparr>p_x = 10, p_y = 20\<rparr>]) (pointAnchor \<lparr>p_x = 10, p_y = 20\<rparr>) None"

definition far_apart :: "real \<Rightarrow> Anchor list \<Rightarrow> bool" where
  "far_apart d anchors = sorted_wrt (\<lambda>p q. d \<le> dist_to p q) anchors"

definition registry_inv :: "real \<Rightarrow> (string \<rightharpoonup> Anchor list) \<Rightarrow> bool" where
  "registry_inv d reg = (\<forall>txt anchors. reg txt = Some anchors \<longrightarrow> far_apart d anchors)"

definition registered :: "SymbolBucket \<Rightarrow> string \<Rightarrow> Anchor list" where
  "registered bucket txt = (case compareText bucket txt of None \<Rightarrow> [] | Some anchors \<Rightarrow> anchors)"

definition lay_rel :: "real \<Rightarrow> LayoutState \<Rightarrow> LayoutState \<Rightarrow> bool" where
  "lay_rel d st st' =
     (config_of (ls_bucket st') = config_of (ls_bucket st) \<and>
      (\<exists>new. symbolInstances (ls_bucket st') = symbolInstances (ls_bucket st) @ new) \<and>
      shape_equiv (ls_shapedTextOrientations st) (ls_shapedTextOrientations st') \<and>
      (registry_inv d (compareText (ls_bucket st)) \<longrightarrow> registry_inv d (compareText (ls_bucket st'))))"

definition bucket_rel :: "Env \<Rightarrow> SymbolBucket \<Rightarrow> SymbolBucket \<Rightarrow> bool" where
  "bucket_rel env b b' =
     (config_of b' = config_of b \<and>
      (\<exists>new. symbolInstances b' = symbolInstances b @ new) \<and>
      (registry_inv (textRepeatDistance env b) (compareText b) \<longrightarrow>
       registry_inv (textRepeatDistance env b) (compareText b')))"

definition example_line_feature :: Feature where
  "example_line_feature =
     example_feature\<lparr>f_type := T_LineString,
       f_geometry := [[\<lparr>p_x = 100, p_y = 100\<rparr>, \<lparr>p_x = 150, p_y = 100\<rparr>, \<lparr>p_x = 1000, p_y = 100\<rparr>]]\<rparr>"

definition example_line_bucket :: SymbolBucket where
  "example_line_bucket =
     example_bucket\<lparr>features := [example_line_feature],
       layout := example_layout\<lparr>symbol_placement := placement_line, symbol_spacing := 25,
                                text_rotation_alignment := ''map''\<rparr>\<rparr>"

definition line_anchor :: "real \<Rightarrow> real \<Rightarrow> Anchor" where
  "line_anchor px py = \<lparr>p_x = px, p_y = py, a_z = 0, angle = 0, segment = Some 0\<rparr>"

definition example_registry_bucket :: SymbolBucket where
  "example_registry_bucket =
     example_line_bucket\<lparr>compareText := [''Main St'' \<mapsto> [line_anchor 100 100]]\<rparr>"

text \<open>
  The row that a call of \<^verbatim>\<open>evaluateBoxCollisionFeature\<close> of \<^verbatim>\<open>addSymbol\<close> appends to the
  store, whatever the store holds.
\<close>

definition collisionBoxOf ::
  "AddSymbolArgs \<Rightarrow> 'a shaped_scheme \<Rightarrow> real \<Rightarrow> real \<Rightarrow> (real \<times> real) option \<Rightarrow> real \<Rightarrow> CollisionBox" where
  "collisionBoxOf a shaped0 padding rotation textOffset iconScaledSize =
     last (snd (evaluateBoxCollisionFeature [] (collisionFeatureAnchor a) (a_anchor a)
                  (a_featureIndex a) (a_sourceLayerIndex a) (a_bucketIndex a) shaped0 padding
                  rotation textOffset iconScaledSize))"

text \<open>
  The boxes that a call of \<^verbatim>\<open>addSymbol\<close> inserts for each category, read off its
  arguments: the vertical text and the vertical icon (lines 911-926), the icon
  (lines 933-952) and the text (lines 1009-1023), where \<open>n\<close> is the length of the store
  when the loop over the horizontal shapings starts.
\<close>

definition verticalTextBoxes :: "AddSymbolArgs \<Rightarrow> LayoutState \<Rightarrow> CollisionBox list" where
  "verticalTextBoxes a st =
     (case vertical (ls_shapedTextOrientations st) of
        Some verticalShaping \<Rightarrow>
          if allowVerticalPlacement (ls_bucket st) \<and> \<not> a_textAlongLine a
          then [collisionBoxOf a verticalShaping (a_textPadding a)
                  (text_rotate (layout (ls_bucket st)) (a_feature a) + 90)
                  (Some (a_textOffset a)) 1]
          else []
      | None \<Rightarrow> [])"

definition verticalIconBoxes :: "AddSymbolArgs \<Rightarrow> LayoutState \<Rightarrow> CollisionBox list" where
  "verticalIconBoxes a st =
     (case ls_verticallyShapedIcon st of
        Some icon \<Rightarrow>
          if verticalTextBoxes a st \<noteq> []
          then [collisionBoxOf a icon (a_iconPadding a)
                  (text_rotate (layout (ls_bucket st)) (a_feature a) + 90) None 1]
          else []
      | None \<Rightarrow> [])"

definition iconBoxes :: "Env \<Rightarrow> AddSymbolArgs \<Rightarrow> LayoutState \<Rightarrow> CollisionBox list" where
  "iconBoxes env a st =
     (case a_shapedIcon a of
        Some shapedIcon \<Rightarrow>
          [collisionBoxOf a shapedIcon (a_iconPadding a)
             (icon_rotate (layout (ls_bucket st)) (a_feature a)) None
             (if a_isUSVGIcon a
              then sz_iconScaleFactor (a_sizes a) *
                   getRasterizedIconSize env (iconSizeData (ls_bucket st))
                     (icon_size_at (layout (ls_bucket st))) (zoom (ls_bucket st)) (a_feature a)
              else 1)]
      | None \<Rightarrow> [])"

definition textBoxOf :: "AddSymbolArgs \<Rightarrow> LayoutState \<Rightarrow> Shaping \<Rightarrow> CollisionBox" where
  "textBoxOf a st shaping =
     collisionBoxOf a shaping (a_textPadding a) (text_rotate (layout (ls_bucket st)) (a_feature a))
       (Some (a_textOffset a)) 1"

definition textBoxes :: "AddSymbolArgs \<Rightarrow> LayoutState \<Rightarrow> nat \<Rightarrow> CollisionBox list" where
  "textBoxes a st n =
     (if a_textAlongLine a then []
      else case obj_keys (horizontal (ls_shapedTextOrientations st)) of
             [] \<Rightarrow> []
           | k1 # rest \<Rightarrow>
               (case obj_get (horizontal (ls_shapedTextOrientations st)) k1 of
                  None \<Rightarrow> []
                | Some s1 \<Rightarrow>
                    textBoxOf a st s1 #
                    (if n = 0 \<and> length (positionedLines s1) \<noteq> 1 then
                       (case rest of
                          [] \<Rightarrow> []
                        | k2 # rest' \<Rightarrow>
                            (case obj_get (horizontal (ls_shapedTextOrientations st)) k2 of
                               None \<Rightarrow> []
                             | Some s2 \<Rightarrow> [textBoxOf a st s2]))
                     else [])))"

text \<open>
  What an instance records for a category: \<open>boxes\<close> are the boxes inserted for it, the
  first of them at the index \<open>offset\<close> of the store.
\<close>

definition recorded :: "CollisionBox list \<Rightarrow> nat \<Rightarrow> CollisionBox list \<Rightarrow> nat \<Rightarrow> nat \<Rightarrow> bool" where
  "recorded store offset boxes startIndex endIndex =
     (if boxes = [] then startIndex = length store \<and> endIndex = length store
      else startIndex = offset + length boxes - 1 \<and> endIndex = startIndex + 1 \<and>
           startIndex < length store \<and> store ! startIndex = last boxes)"

definition textBoxOffset :: "Env \<Rightarrow> AddSymbolArgs \<Rightarrow> LayoutState \<Rightarrow> nat" where
  "textBoxOffset env a st =
     length (collisionBoxArray (ls_bucket st) @ verticalTextBoxes a st @ verticalIconBoxes a st @
             iconBoxes env a st)"

text \<open>The state that the locals of \<^verbatim>\<open>addSymbol\<close> hold.\<close>

definition localsState :: "AddSymbolLocals \<Rightarrow> LayoutState" where
  "localsState l = \<lparr>ls_bucket = l_bucket l, ls_shapedTextOrientations = l_shapedTextOrientations l,
                     ls_verticallyShapedIcon = l_verticallyShapedIcon l\<rparr>"

definition example_two_line_shaping :: Shaping where
  "example_two_line_shaping =
     example_shaping\<lparr>positionedLines :=
       [\<lparr>positionedGlyphs = [\<lparr>g_x = -30, g_y = -24\<rparr>]\<rparr>, \<lparr>positionedGlyphs = [\<lparr>g_x = -30, g_y = 0\<rparr>]\<rparr>]\<rparr>"

definition example_icon :: PositionedIcon where
  "example_icon = \<lparr>s_top = -8, s_bottom = 8, s_left = -8, s_right = 8, collisionPadding = None,
                    pi_image = ''marker''\<rparr>"

definition example_variable_state :: LayoutState where
  "example_variable_state =
     \<lparr>ls_bucket = example_bucket,
      ls_shapedTextOrientations =
        \<lparr>horizontal = [(''left'', Some example_two_line_shaping),
                       (''right'', Some example_two_line_shaping)],
         vertical = None\<rparr>,
      ls_verticallyShapedIcon = None\<rparr>"

definition example_full_state :: LayoutState where
  "example_full_state =
     \<lparr>ls_bucket = example_bucket\<lparr>allowVerticalPlacement := True\<rparr>,
      ls_shapedTextOrientations =
        \<lparr>horizontal = [(''left'', Some example_two_line_shaping),
                       (''right'', Some example_two_line_shaping)],
         vertical = Some example_shaping\<rparr>,
      ls_verticallyShapedIcon = Some example_icon\<rparr>"

definition example_full_args :: AddSymbolArgs where
  "example_full_args = example_symbol_args\<lparr>a_shapedIcon := Some example_icon\<rparr>"

text \<open>
  The rendered text of the shapings of a feature: the key under which line placement
  registers its anchors (\<^verbatim>\<open>shapedText.text\<close> of line 634).
\<close>

definition renderedText :: "ShapedTextOrientations \<Rightarrow> string option" where
  "renderedText sto = map_option s_text (defaultShaping sto)"

text \<open>The rendered text that \<^verbatim>\<open>performSymbolLayout\<close> computes for a feature (lines 242-344).\<close>

definition featureText :: "Env \<Rightarrow> Sizes \<Rightarrow> Feature \<Rightarrow> SymbolBucket \<Rightarrow> string option" where
  "featureText env sizes feature bucket =
     renderedText (fst (shapeFeatureText env bucket feature
                          (sz_layoutTextSize sizes feature * sz_textScaleFactor sizes)
                          (text_size (layout bucket) feature * sz_textScaleFactor sizes)))"

text \<open>
  One label for each Symbol Instance that the loop over the features appends, in the
  order of the instances: the rendered text of the feature during whose layout the
  instance was appended.
\<close>

fun layoutTexts ::
  "Env \<Rightarrow> Sizes \<Rightarrow> real \<Rightarrow> bool \<Rightarrow> Feature list \<Rightarrow> SymbolBucket \<Rightarrow> string option list" where
  "layoutTexts env sizes pixelRatio0 hasAnySecondaryIcon [] bucket = []"
| "layoutTexts env sizes pixelRatio0 hasAnySecondaryIcon (feature # rest) bucket =
     (case layoutFeature env sizes pixelRatio0 hasAnySecondaryIcon feature bucket of
        Inl e \<Rightarrow> []
      | Inr bucket' \<Rightarrow>
          replicate (length (symbolInstances bucket') - length (symbolInstances bucket))
            (featureText env sizes feature bucket) @
          layoutTexts env sizes pixelRatio0 hasAnySecondaryIcon rest bucket')"

definition instanceTexts :: "Env \<Rightarrow> SymbolBucket \<Rightarrow> real \<Rightarrow> real \<Rightarrow> real \<Rightarrow> string option list" where
  "instanceTexts env bucket tileZoom scaleFactor0 pixelRatio0 =
     (let bucket1 = resetBucket env bucket;
          sizes = layoutSizes env bucket1 tileZoom scaleFactor0;
          hasAnySecondaryIcon = list_ex hasSecondaryIcon (features bucket1)
      in layoutTexts env sizes pixelRatio0 hasAnySecondaryIcon (features bucket1) bucket1)"

text \<open>The elements of \<open>xs\<close> whose label is the text \<open>t\<close>.\<close>

definition labelled :: "string \<Rightarrow> string option list \<Rightarrow> 'a list \<Rightarrow> 'a list" where
  "labelled t labels xs = map snd (filter (\<lambda>p. fst p = Some t) (zip labels xs))"

definition pointAt :: "real \<times> real \<Rightarrow> Point" where
  "pointAt c = \<lparr>p_x = fst c, p_y = snd c\<rparr>"

text \<open>
  A step of the layout of a feature with rendered text \<open>lab\<close>: it appends instances and
  anchors to the registry, and the instances it appends are those of the anchors it
  registers under \<open>lab\<close> that lie in the tile, in their order; no other entry of the
  registry changes.
\<close>

definition accepts :: "Env \<Rightarrow> string option \<Rightarrow> SymbolBucket \<Rightarrow> SymbolBucket \<Rightarrow> bool" where
  "accepts env lab b b' =
     (\<exists>new. symbolInstances b' = symbolInstances b @ new \<and>
        (\<forall>t. \<exists>added. registered b' t = registered b t @ added \<and>
               (lab \<noteq> Some t \<longrightarrow> added = []) \<and>
               (lab = Some t \<longrightarrow>
                  map tile_anchor new = map coords (filter (in_extent env) added))))"

definition line_rel :: "Env \<Rightarrow> real \<Rightarrow> LayoutState \<Rightarrow> LayoutState \<Rightarrow> bool" where
  "line_rel env d st st' =
     (lay_rel d st st' \<and>
      accepts env (renderedText (ls_shapedTextOrientations st)) (ls_bucket st) (ls_bucket st'))"

definition example_second_line_feature :: Feature where
  "example_second_line_feature =
     example_feature\<lparr>f_type := T_LineString, f_index := 1,
       f_geometry := [[\<lparr>p_x = 100, p_y = 150\<rparr>, \<lparr>p_x = 500, p_y = 100\<rparr>]]\<rparr>"

definition example_two_lines_bucket :: SymbolBucket where
  "example_two_lines_bucket =
     example_line_bucket\<lparr>features := [example_line_feature, example_second_line_feature]\<rparr>"

definition example_elm_feature :: Feature where
  "example_elm_feature =
     example_feature\<lparr>f_text := Some ''Elm St'', f_type := T_LineString, f_index := 2,
       f_geometry := [[\<lparr>p_x = 100, p_y = 120\<rparr>]]\<rparr>"

definition example_three_lines_bucket :: SymbolBucket where
  "example_three_lines_bucket =
     example_line_bucket\<lparr>features := [example_line_feature, example_second_line_feature,
                                         example_elm_feature]\<rparr>"





text \<open>
  The packed sizes of a feature: the evaluated size multiplied by \<^verbatim>\<open>SIZE_PACK_FACTOR\<close> and
  by the scale factor, one value for a source function and two for a composite one.
\<close>

definition packedTextSizes :: "Env \<Rightarrow> SymbolBucket \<Rightarrow> Sizes \<Rightarrow> Feature \<Rightarrow> real list" where
  "packedTextSizes env bucket sizes feature =
     (case textSizeData bucket of
        Size_source \<Rightarrow>
          [SIZE_PACK_FACTOR env * text_size (layout bucket) feature * sz_textScaleFactor sizes]
      | Size_composite minZoom maxZoom \<Rightarrow>
          (case sz_compositeTextSizes sizes of
             Some (lower, upper) \<Rightarrow>
               [SIZE_PACK_FACTOR env * lower feature * sz_textScaleFactor sizes,
                SIZE_PACK_FACTOR env * upper feature * sz_textScaleFactor sizes]
           | None \<Rightarrow> [])
      | _ \<Rightarrow> [])"

definition packedIconSizes :: "Env \<Rightarrow> SymbolBucket \<Rightarrow> Sizes \<Rightarrow> Feature \<Rightarrow> real list" where
  "packedIconSizes env bucket sizes feature =
     (case iconSizeData bucket of
        Size_source \<Rightarrow>
          [SIZE_PACK_FACTOR env * icon_size (layout bucket) feature * sz_iconScaleFactor sizes]
      | Size_composite minZoom maxZoom \<Rightarrow>
          (case sz_compositeIconSizes sizes of
             Some (lower, upper) \<Rightarrow>
               [SIZE_PACK_FACTOR env * lower feature * sz_iconScaleFactor sizes,
                SIZE_PACK_FACTOR env * upper feature * sz_iconScaleFactor sizes]
           | None \<Rightarrow> [])
      | _ \<Rightarrow> [])"

text \<open>The sizes that a placed symbol stores: each packed value, at most the maximum.\<close>

definition storedSizes :: "Env \<Rightarrow> real list \<Rightarrow> real list option" where
  "storedSizes env packed =
     (if packed = [] then None else Some (map (\<lambda>d. if d > MAX_PACKED_SIZE env then MAX_PACKED_SIZE env else d) packed))"

text \<open>The log of warnings after a warning that is raised once per message.\<close>

definition loggedOnce :: "warning \<Rightarrow> warning list \<Rightarrow> warning list" where
  "loggedOnce w history = (if w \<in> set history then history else history @ [w])"

definition historyAfter :: "Env \<Rightarrow> warning \<Rightarrow> real list \<Rightarrow> warning list \<Rightarrow> warning list" where
  "historyAfter env w packed history =
     (if \<exists>d \<in> set packed. d > MAX_PACKED_SIZE env then loggedOnce w history else history)"

definition example_big_bucket :: SymbolBucket where
  "example_big_bucket =
     example_bucket\<lparr>textSizeData := Size_source, iconSizeData := Size_source,
       layout := example_layout\<lparr>text_size := (\<lambda>f. 300), icon_size := (\<lambda>f. 400)\<rparr>\<rparr>"

definition example_big_locals :: AddSymbolLocals where
  "example_big_locals = addSymbol_init example_env example_big_bucket example_sto None example_full_args"



definition example_variable_anchor_bucket :: SymbolBucket where
  "example_variable_anchor_bucket =
     example_bucket\<lparr>layout := example_layout\<lparr>text_variable_anchor := Some [''left'', ''right''],
                                         text_justify := (\<lambda>f. J_auto)\<rparr>\<rparr>"

section \<open>Theorems\<close>

lemma phase_frame_updates [simp]:
  "phase_frame (b\<lparr>collisionBoxArray := c\<rparr>) = phase_frame b"
  "phase_frame (b\<lparr>text_buffers := t\<rparr>) = phase_frame b"
  "phase_frame (b\<lparr>icon_buffers := t\<rparr>) = phase_frame b"
  "phase_frame (b\<lparr>glyphOffsetArray := g\<rparr>) = phase_frame b"
  "phase_frame (b\<lparr>lineVertexArray := v\<rparr>) = phase_frame b"
  "phase_frame (b\<lparr>warnOnceHistory := w\<rparr>) = phase_frame b"
  by (simp_all add: phase_frame_def)

lemma phase_frame_warnOnce [simp]: "phase_frame (warnOnce w b) = phase_frame b"
  by (simp add: warnOnce_def)

lemma collisionBoxArray_warnOnce [simp]: "collisionBoxArray (warnOnce w b) = collisionBoxArray b"
  by (simp add: warnOnce_def)

lemma textSizeVertex_frame:
  "textSizeVertex env b sizes f = Inr (v, b') \<Longrightarrow>
     phase_frame b' = phase_frame b \<and> collisionBoxArray b' = collisionBoxArray b"
  by (auto simp: textSizeVertex_def Let_def split: SizeData.splits option.splits if_splits)

lemma iconSizeVertex_frame:
  "iconSizeVertex env b sizes f = Inr (v, b') \<Longrightarrow>
     phase_frame b' = phase_frame b \<and> collisionBoxArray b' = collisionBoxArray b"
  by (auto simp: iconSizeVertex_def Let_def split: SizeData.splits option.splits if_splits)

lemma addTextVertices_frame:
  "addTextVertices env b globe anchor sh al f off la wm pts idx pidx sizes = Inr (n, b', idx') \<Longrightarrow>
     phase_frame b' = phase_frame b \<and> collisionBoxArray b' = collisionBoxArray b"
  by (auto simp: addTextVertices_def Let_def split: sum.splits prod.splits dest!: textSizeVertex_frame)

lemma boxInto_frame:
  "boxInto a b sh pad rot off sc = (i, b') \<Longrightarrow>
     phase_frame b' = phase_frame b \<and> i = length (collisionBoxArray b) \<and>
     length (collisionBoxArray b') = Suc (length (collisionBoxArray b))"
  by (auto simp: boxInto_def evaluateBoxCollisionFeature_def Let_def split: prod.splits)

lemma map_of_obj_set: "map_of (obj_set obj k v) = (map_of obj)(k \<mapsto> v)"
  by (induction obj k v rule: obj_set.induct) auto

lemma obj_keys_obj_set:
  "obj_keys (obj_set obj k v) = (if k \<in> set (obj_keys obj) then obj_keys obj else obj_keys obj @ [k])"
  by (induction obj k v rule: obj_set.induct) (auto simp: obj_keys_def)

lemma obj_get_obj_set: "obj_get (obj_set obj k v) k' = (if k' = k then v else obj_get obj k')"
  by (simp add: obj_get_def map_of_obj_set)

lemma obj_get_Some_key: "obj_get obj k = Some s \<Longrightarrow> k \<in> set (obj_keys obj)"
  by (auto simp: obj_get_def obj_keys_def split: option.splits dest: map_of_SomeD intro: rev_image_eqI)

lemma same_lines_refl [simp]: "same_lines u u"
  by (cases u) (auto simp: same_lines_def)

lemma same_lines_trans: "same_lines u v \<Longrightarrow> same_lines v w \<Longrightarrow> same_lines u w"
  by (cases u; cases v; cases w) (auto simp: same_lines_def)

lemma shape_equiv_refl [simp]: "shape_equiv sto sto"
  by (simp add: shape_equiv_def)

lemma shape_equiv_trans: "shape_equiv s t \<Longrightarrow> shape_equiv t u \<Longrightarrow> shape_equiv s u"
  unfolding shape_equiv_def by (metis same_lines_trans)

lemma circle_keeps_lines:
  "evaluateCircleCollisionFeature (s :: Shaping) = (c, s') \<Longrightarrow>
     positionedLines s' = positionedLines s \<and> s_text s' = s_text s"
  by (auto simp: evaluateCircleCollisionFeature_def Let_def split: option.splits prod.splits)

lemma same_lines_circle:
  "evaluateCircleCollisionFeature (s :: Shaping) = (c, s') \<Longrightarrow> same_lines (Some s) (Some s')"
  by (drule circle_keeps_lines) (simp add: same_lines_def)

lemma shape_equiv_vertical:
  "evaluateCircleCollisionFeature v = (c, v') \<Longrightarrow> vertical sto = Some v \<Longrightarrow>
     shape_equiv sto (sto\<lparr>vertical := Some v'\<rparr>)"
  by (simp add: shape_equiv_def same_lines_circle)

lemma shape_equiv_horizontal:
  "evaluateCircleCollisionFeature s = (c, s') \<Longrightarrow> obj_get (horizontal sto) k = Some s \<Longrightarrow>
     shape_equiv sto (sto\<lparr>horizontal := obj_set (horizontal sto) k (Some s')\<rparr>)"
  by (auto simp: shape_equiv_def obj_keys_obj_set obj_get_obj_set same_lines_circle
           dest: obj_get_Some_key)

lemma addSymbol_init_props:
  "phase_frame (l_bucket (addSymbol_init env b sto vi a)) = phase_frame b"
  "collisionBoxArray (l_bucket (addSymbol_init env b sto vi a)) = collisionBoxArray b"
  "l_shapedTextOrientations (addSymbol_init env b sto vi a) = sto"
  "l_verticallyShapedIcon (addSymbol_init env b sto vi a) = vi"
  "boxes_inv (length (collisionBoxArray b)) (addSymbol_init env b sto vi a)"
  by (simp_all add: addSymbol_init_def boxes_inv_def Let_def split: prod.splits)

lemma addSymbol_vertical_props:
  assumes "l' = addSymbol_vertical a l"
  shows "phase_frame (l_bucket l') = phase_frame (l_bucket l)"
    and "shape_equiv (l_shapedTextOrientations l) (l_shapedTextOrientations l')"
    and "boxes_inv n0 l \<Longrightarrow> verticalIconBoxIndex l = None \<Longrightarrow> boxes_inv n0 l'"
    and "length (collisionBoxArray (l_bucket l)) \<le> length (collisionBoxArray (l_bucket l'))"
  using assms
  by (auto simp: addSymbol_vertical_def Let_def boxes_inv_def
           split: prod.splits option.splits bool.splits if_splits
           dest!: boxInto_frame intro: shape_equiv_vertical)

lemma phase_frame_fields:
  assumes "phase_frame b' = phase_frame b"
  shows "symbolInstances b' = symbolInstances b" "compareText b' = compareText b"
    "textSizeData b' = textSizeData b" "iconSizeData b' = iconSizeData b"
    "layout b' = layout b" "allowVerticalPlacement b' = allowVerticalPlacement b"
    "sortKeyRanges b' = sortKeyRanges b" "overscaling b' = overscaling b" "zoom b' = zoom b"
    "tilePixelRatio b' = tilePixelRatio b" "bucket_index b' = bucket_index b"
    "hasAnyIconTextFit b' = hasAnyIconTextFit b" "layerIds b' = layerIds b"
    "features b' = features b" "pixelRatio b' = pixelRatio b" "sdfIcons b' = sdfIcons b"
    "iconsNeedLinear b' = iconsNeedLinear b" "bucket_iconsInText b' = bucket_iconsInText b"
    "collisionDebugBuffers b' = collisionDebugBuffers b"
proof -
  have sel: "\<And>f. f (phase_frame b') = f (phase_frame b)" using assms by simp
  show "symbolInstances b' = symbolInstances b" using sel [of symbolInstances] by (simp add: phase_frame_def)
  show "compareText b' = compareText b" using sel [of compareText] by (simp add: phase_frame_def)
  show "textSizeData b' = textSizeData b" using sel [of textSizeData] by (simp add: phase_frame_def)
  show "iconSizeData b' = iconSizeData b" using sel [of iconSizeData] by (simp add: phase_frame_def)
  show "layout b' = layout b" using sel [of layout] by (simp add: phase_frame_def)
  show "allowVerticalPlacement b' = allowVerticalPlacement b"
    using sel [of allowVerticalPlacement] by (simp add: phase_frame_def)
  show "sortKeyRanges b' = sortKeyRanges b" using sel [of sortKeyRanges] by (simp add: phase_frame_def)
  show "overscaling b' = overscaling b" using sel [of overscaling] by (simp add: phase_frame_def)
  show "zoom b' = zoom b" using sel [of zoom] by (simp add: phase_frame_def)
  show "tilePixelRatio b' = tilePixelRatio b" using sel [of tilePixelRatio] by (simp add: phase_frame_def)
  show "bucket_index b' = bucket_index b" using sel [of bucket_index] by (simp add: phase_frame_def)
  show "hasAnyIconTextFit b' = hasAnyIconTextFit b"
    using sel [of hasAnyIconTextFit] by (simp add: phase_frame_def)
  show "layerIds b' = layerIds b" using sel [of layerIds] by (simp add: phase_frame_def)
  show "features b' = features b" using sel [of features] by (simp add: phase_frame_def)
  show "pixelRatio b' = pixelRatio b" using sel [of pixelRatio] by (simp add: phase_frame_def)
  show "sdfIcons b' = sdfIcons b" using sel [of sdfIcons] by (simp add: phase_frame_def)
  show "iconsNeedLinear b' = iconsNeedLinear b" using sel [of iconsNeedLinear] by (simp add: phase_frame_def)
  show "bucket_iconsInText b' = bucket_iconsInText b"
    using sel [of bucket_iconsInText] by (simp add: phase_frame_def)
  show "collisionDebugBuffers b' = collisionDebugBuffers b"
    using sel [of collisionDebugBuffers] by (simp add: phase_frame_def)
qed

lemma sizes_ok_frame: 
  assumes "phase_frame b' = phase_frame b" 
  shows "sizes_ok b' s = sizes_ok b s"
  using phase_frame_fields(3,4) [OF assms] by (simp add: sizes_ok_def)

lemma textSizeVertex_total:
  "sizes_ok b sizes \<Longrightarrow> \<exists>v b'. textSizeVertex env b sizes f = Inr (v, b')"
  by (auto simp: textSizeVertex_def sizes_ok_def Let_def split: SizeData.splits option.splits)

lemma iconSizeVertex_total:
  "sizes_ok b sizes \<Longrightarrow> \<exists>v b'. iconSizeVertex env b sizes f = Inr (v, b')"
  by (auto simp: iconSizeVertex_def sizes_ok_def Let_def split: SizeData.splits option.splits)

lemma addTextVertices_total:
  "sizes_ok b sizes \<Longrightarrow>
   \<exists>n b' idx'. addTextVertices env b globe anchor sh al f off la wm pts idx pidx sizes = Inr (n, b', idx')"
  using textSizeVertex_total [of b sizes env f]
  by (auto simp: addTextVertices_def Let_def split: sum.splits prod.splits)

lemma boxInto_simps [simp]:
  "phase_frame (snd (boxInto a b sh pad rot off sc)) = phase_frame b"
  "fst (boxInto a b sh pad rot off sc) = length (collisionBoxArray b)"
  "length (collisionBoxArray (snd (boxInto a b sh pad rot off sc))) = Suc (length (collisionBoxArray b))"
  using boxInto_frame [of a b sh pad rot off sc] by (cases "boxInto a b sh pad rot off sc"; simp)+

lemma addSymbols_simps [simp]:
  "length (placedSymbolArray (fst (addSymbols env st q sv lo al wm an ls ll ai hs))) =
     Suc (length (placedSymbolArray (fst st)))"
  by (simp add: addSymbols_def)

lemma addSymbol_icon_props:
  assumes "addSymbol_icon env a fit l = Inr l'"
  shows "phase_frame (l_bucket l') = phase_frame (l_bucket l)"
    and "l_shapedTextOrientations l' = l_shapedTextOrientations l"
    and "l_verticallyShapedIcon l' = l_verticallyShapedIcon l"
    and "boxes_inv n0 l \<Longrightarrow> boxes_inv n0 l'"
    and "length (collisionBoxArray (l_bucket l)) \<le> length (collisionBoxArray (l_bucket l'))"
proof -
  show "phase_frame (l_bucket l') = phase_frame (l_bucket l)"
    using assms
    by (auto simp: addSymbol_icon_def Let_def split_def
             split: option.splits sum.splits dest!: iconSizeVertex_frame)
  show "l_shapedTextOrientations l' = l_shapedTextOrientations l"
    using assms
    by (auto simp: addSymbol_icon_def Let_def split_def split: option.splits sum.splits)
  show "l_verticallyShapedIcon l' = l_verticallyShapedIcon l"
    using assms
    by (auto simp: addSymbol_icon_def Let_def split_def split: option.splits sum.splits)
  show "boxes_inv n0 l \<Longrightarrow> boxes_inv n0 l'"
    using assms
    by (auto simp: addSymbol_icon_def Let_def split_def boxes_inv_def
             split: option.splits sum.splits dest!: iconSizeVertex_frame)
  show "length (collisionBoxArray (l_bucket l)) \<le> length (collisionBoxArray (l_bucket l'))"
    using assms
    by (auto simp: addSymbol_icon_def Let_def split_def
             split: option.splits sum.splits dest!: iconSizeVertex_frame)
qed

lemma bind_total:
  "(\<exists>v. m = Inr v) \<Longrightarrow> (\<And>v. m = Inr v \<Longrightarrow> \<exists>r. f v = Inr r) \<Longrightarrow>
   \<exists>r. (case m of Inl e \<Rightarrow> Inl e | Inr v \<Rightarrow> f v) = Inr r"
  by auto

lemma sizes_ok_boxInto [simp]:
  "sizes_ok (snd (boxInto a b sh pad rot off sc)) s = sizes_ok b s"
  by (rule sizes_ok_frame) simp

lemma iconSizeVertex_total':
  "sizes_ok b sizes \<Longrightarrow> \<exists>v. iconSizeVertex env b sizes f = Inr v"
  using iconSizeVertex_total [of b sizes env f] by auto

lemma addTextVertices_total':
  "sizes_ok b sizes \<Longrightarrow>
   \<exists>v. addTextVertices env b globe anchor sh al f off la wm pts idx pidx sizes = Inr v"
  using addTextVertices_total [of b sizes env globe anchor sh al f off la wm pts idx pidx] by auto

lemma addSymbol_icon_total:
  assumes "sizes_ok (l_bucket l) (a_sizes a)"
  shows "\<exists>l'. addSymbol_icon env a fit l = Inr l'"
proof (cases "a_shapedIcon a")
  case None
  then show ?thesis by (simp add: addSymbol_icon_def)
next
  case (Some icon)
  show ?thesis
    unfolding addSymbol_icon_def Let_def split_def Some option.case
    apply (rule bind_total)
     apply (rule iconSizeVertex_total')
     apply (simp add: assms)
    apply (simp split: option.splits)
    done
qed

lemma wf_keys_equiv:
  "(\<forall>k. same_lines (obj_get hor k) (obj_get hor' k)) \<Longrightarrow> wf_keys hor' ks = wf_keys hor ks"
proof (induction ks)
  case Nil
  then show ?case by simp
next
  case (Cons k ks)
  from Cons.prems have "same_lines (obj_get hor k) (obj_get hor' k)" by blast
  with Cons show ?case
    by (cases "obj_get hor k"; cases "obj_get hor' k") (auto simp: same_lines_def)
qed

lemma textCollision_props:
  assumes "addSymbol_textCollision env a k sh l = (sh1, l1)"
      and "obj_get (horizontal (l_shapedTextOrientations l)) k = Some sh"
  shows "phase_frame (l_bucket l1) = phase_frame (l_bucket l)"
    and "shape_equiv (l_shapedTextOrientations l) (l_shapedTextOrientations l1)"
    and "positionedLines sh1 = positionedLines sh"
    and "l_verticallyShapedIcon l1 = l_verticallyShapedIcon l"
    and "boxes_inv n0 l \<Longrightarrow> boxes_inv n0 l1"
    and "length (collisionBoxArray (l_bucket l)) \<le> length (collisionBoxArray (l_bucket l1))"
proof -
  show "phase_frame (l_bucket l1) = phase_frame (l_bucket l)"
    using assms
    by (auto simp: addSymbol_textCollision_def Let_def split_def split: if_splits)
  show "shape_equiv (l_shapedTextOrientations l) (l_shapedTextOrientations l1)"
    using assms
    by (auto simp: addSymbol_textCollision_def Let_def split: if_splits prod.splits
             intro: shape_equiv_horizontal)
  show "positionedLines sh1 = positionedLines sh"
    using assms
    by (auto simp: addSymbol_textCollision_def Let_def split: if_splits prod.splits
             dest: circle_keeps_lines)
  show "l_verticallyShapedIcon l1 = l_verticallyShapedIcon l"
    using assms
    by (auto simp: addSymbol_textCollision_def Let_def split_def split: if_splits)
  show "boxes_inv n0 l \<Longrightarrow> boxes_inv n0 l1"
    using assms
    by (auto simp: addSymbol_textCollision_def Let_def split_def boxes_inv_def split: if_splits)
  show "length (collisionBoxArray (l_bucket l)) \<le> length (collisionBoxArray (l_bucket l1))"
    using assms
    by (auto simp: addSymbol_textCollision_def Let_def split_def split: if_splits)
qed

lemma addSymbol_horizontal_props:
  assumes "addSymbol_horizontal env a ks l = Inr l'"
  shows "phase_frame (l_bucket l') = phase_frame (l_bucket l) \<and>
         shape_equiv (l_shapedTextOrientations l) (l_shapedTextOrientations l') \<and>
         l_verticallyShapedIcon l' = l_verticallyShapedIcon l \<and>
         (boxes_inv n0 l \<longrightarrow> boxes_inv n0 l') \<and>
         length (collisionBoxArray (l_bucket l)) \<le> length (collisionBoxArray (l_bucket l'))"
  using assms
proof (induction ks arbitrary: l)
  case Nil
  then show ?case by simp
next
  case (Cons k ks)
  from Cons.prems obtain sh where sh: "obj_get (horizontal (l_shapedTextOrientations l)) k = Some sh"
    by (auto split: option.splits)
  obtain sh1 l1 where tc: "addSymbol_textCollision env a k sh l = (sh1, l1)"
    by (cases "addSymbol_textCollision env a k sh l") auto
  note p1 = textCollision_props [OF tc sh]
  from Cons.prems sh tc obtain n b2 idx where
    tv: "addTextVertices env (l_bucket l1) (a_globe a) (a_anchor a) sh1
                     (a_textAlongLine a) (a_feature a) (a_textOffset a) (lineArray l1)
                     (case vertical (l_shapedTextOrientations l1) of
                        Some v \<Rightarrow> WM_horizontal | None \<Rightarrow> WM_horizontalOnly)
                     (if length (positionedLines sh1) = 1
                      then obj_keys (horizontal (l_shapedTextOrientations l1))
                      else [k])
                     (placedTextSymbolIndices l1) (placedIconSymbolIndex l1) (a_sizes a)
         = Inr (n, b2, idx)"
    by (auto simp: Let_def split: sum.splits)
  note p2 = addTextVertices_frame [OF tv]
  define l2 where "l2 = l1\<lparr>l_bucket := b2,
                               numHorizontalGlyphVertices := numHorizontalGlyphVertices l1 + n,
                               placedTextSymbolIndices := idx\<rparr>"
  have step: "phase_frame (l_bucket l2) = phase_frame (l_bucket l) \<and>
         shape_equiv (l_shapedTextOrientations l) (l_shapedTextOrientations l2) \<and>
         l_verticallyShapedIcon l2 = l_verticallyShapedIcon l \<and>
         (boxes_inv n0 l \<longrightarrow> boxes_inv n0 l2) \<and>
         length (collisionBoxArray (l_bucket l)) \<le> length (collisionBoxArray (l_bucket l2))"
    using p1 p2 by (auto simp: l2_def boxes_inv_def)
  from Cons.prems sh tc tv have res:
    "(if length (positionedLines sh1) = 1 then Inr l2 else addSymbol_horizontal env a ks l2) = Inr l'"
    by (auto simp: Let_def l2_def split: if_splits)
  show ?case
  proof (cases "length (positionedLines sh1) = 1")
    case True
    with res step show ?thesis by simp
  next
    case False
    with res have "addSymbol_horizontal env a ks l2 = Inr l'" by simp
    from Cons.IH [OF this] step show ?thesis
      by (auto intro: shape_equiv_trans)
  qed
qed

lemma config_fields:
  assumes "config_of b' = config_of b"
  shows "textSizeData b' = textSizeData b" "iconSizeData b' = iconSizeData b"
    "layout b' = layout b" "allowVerticalPlacement b' = allowVerticalPlacement b"
    "overscaling b' = overscaling b" "zoom b' = zoom b"
    "bucket_index b' = bucket_index b" "layerIds b' = layerIds b"
    "features b' = features b" "pixelRatio b' = pixelRatio b"
proof -
  have sel: "\<And>f. f (config_of b') = f (config_of b)" using assms by simp
  show "textSizeData b' = textSizeData b" using sel [of textSizeData] by (simp add: config_of_def)
  show "iconSizeData b' = iconSizeData b" using sel [of iconSizeData] by (simp add: config_of_def)
  show "layout b' = layout b" using sel [of layout] by (simp add: config_of_def)
  show "allowVerticalPlacement b' = allowVerticalPlacement b"
    using sel [of allowVerticalPlacement] by (simp add: config_of_def)
  show "overscaling b' = overscaling b" using sel [of overscaling] by (simp add: config_of_def)
  show "zoom b' = zoom b" using sel [of zoom] by (simp add: config_of_def)
  show "bucket_index b' = bucket_index b" using sel [of bucket_index] by (simp add: config_of_def)
  show "layerIds b' = layerIds b" using sel [of layerIds] by (simp add: config_of_def)
  show "features b' = features b" using sel [of features] by (simp add: config_of_def)
  show "pixelRatio b' = pixelRatio b" using sel [of pixelRatio] by (simp add: config_of_def)
qed

lemma config_of_updates [simp]:
  "config_of (b\<lparr>tilePixelRatio := x1\<rparr>) = config_of b"
  "config_of (b\<lparr>compareText := x2\<rparr>) = config_of b"
  "config_of (b\<lparr>iconsNeedLinear := x3\<rparr>) = config_of b"
  "config_of (b\<lparr>sdfIcons := x4\<rparr>) = config_of b"
  "config_of (b\<lparr>bucket_iconsInText := x5\<rparr>) = config_of b"
  "config_of (b\<lparr>hasAnyIconTextFit := x6\<rparr>) = config_of b"
  "config_of (b\<lparr>collisionBoxArray := x7\<rparr>) = config_of b"
  "config_of (b\<lparr>symbolInstances := x8\<rparr>) = config_of b"
  "config_of (b\<lparr>text_buffers := x9\<rparr>) = config_of b"
  "config_of (b\<lparr>icon_buffers := x10\<rparr>) = config_of b"
  "config_of (b\<lparr>glyphOffsetArray := x11\<rparr>) = config_of b"
  "config_of (b\<lparr>lineVertexArray := x12\<rparr>) = config_of b"
  "config_of (b\<lparr>sortKeyRanges := x13\<rparr>) = config_of b"
  "config_of (b\<lparr>warnOnceHistory := x14\<rparr>) = config_of b"
  "config_of (b\<lparr>collisionDebugBuffers := x15\<rparr>) = config_of b"
  by (simp_all add: config_of_def)

lemma config_of_phase_frame:
  assumes "phase_frame b' = phase_frame b"
  shows "config_of b' = config_of b"
proof -
  have "config_of (phase_frame b') = config_of (phase_frame b)" using assms by simp
  then show ?thesis by (simp add: phase_frame_def)
qed

lemma config_of_warnOnce [simp]: "config_of (warnOnce w b) = config_of b"
  by (simp add: warnOnce_def)

lemma sizes_ok_config: 
  assumes "config_of b' = config_of b" 
  shows "sizes_ok b' s = sizes_ok b s"
  using config_fields(1,2) [OF assms] by (simp add: sizes_ok_def)

lemma addSymbol_horizontal_total:
  assumes "wf_keys (horizontal (l_shapedTextOrientations l)) ks"
      and "sizes_ok (l_bucket l) (a_sizes a)"
  shows "\<exists>l'. addSymbol_horizontal env a ks l = Inr l'"
  using assms
proof (induction ks arbitrary: l)
  case Nil
  then show ?case by simp
next
  case (Cons k ks)
  from Cons.prems(1) obtain sh where sh: "obj_get (horizontal (l_shapedTextOrientations l)) k = Some sh"
    and wf: "length (positionedLines sh) = 1 \<or> wf_keys (horizontal (l_shapedTextOrientations l)) ks"
    by (auto split: option.splits)
  obtain sh1 l1 where tc: "addSymbol_textCollision env a k sh l = (sh1, l1)"
    by (cases "addSymbol_textCollision env a k sh l") auto
  note p1 = textCollision_props [OF tc sh]
  have ok1: "sizes_ok (l_bucket l1) (a_sizes a)"
    using Cons.prems(2) sizes_ok_frame [OF p1(1)] by simp
  from addTextVertices_total [OF ok1] obtain n b2 idx where
    tv: "addTextVertices env (l_bucket l1) (a_globe a) (a_anchor a) sh1
                     (a_textAlongLine a) (a_feature a) (a_textOffset a) (lineArray l1)
                     (case vertical (l_shapedTextOrientations l1) of
                        Some v \<Rightarrow> WM_horizontal | None \<Rightarrow> WM_horizontalOnly)
                     (if length (positionedLines sh1) = 1
                      then obj_keys (horizontal (l_shapedTextOrientations l1))
                      else [k])
                     (placedTextSymbolIndices l1) (placedIconSymbolIndex l1) (a_sizes a)
         = Inr (n, b2, idx)"
    by blast
  note p2 = addTextVertices_frame [OF tv]
  define l2 where "l2 = l1\<lparr>l_bucket := b2,
                               numHorizontalGlyphVertices := numHorizontalGlyphVertices l1 + n,
                               placedTextSymbolIndices := idx\<rparr>"
  have eq: "addSymbol_horizontal env a (k # ks) l =
      (if length (positionedLines sh1) = 1 then Inr l2 else addSymbol_horizontal env a ks l2)"
    using sh tc tv by (simp add: Let_def l2_def)
  show ?case
  proof (cases "length (positionedLines sh1) = 1")
    case True
    with eq show ?thesis by simp
  next
    case False
    with wf p1(3) have "wf_keys (horizontal (l_shapedTextOrientations l)) ks" by simp
    moreover have "\<forall>k. same_lines (obj_get (horizontal (l_shapedTextOrientations l)) k)
                         (obj_get (horizontal (l_shapedTextOrientations l1)) k)"
      using p1(2) by (simp add: shape_equiv_def)
    ultimately have "wf_keys (horizontal (l_shapedTextOrientations l2)) ks"
      using wf_keys_equiv by (simp add: l2_def)
    moreover have "sizes_ok (l_bucket l2) (a_sizes a)"
      using ok1 p2 sizes_ok_frame [of b2 "l_bucket l1"] by (simp add: l2_def)
    ultimately obtain l' where "addSymbol_horizontal env a ks l2 = Inr l'"
      using Cons.IH by blast
    with eq False show ?thesis by simp
  qed
qed

lemma addSymbol_verticalText_props:
  assumes "addSymbol_verticalText env a l = Inr l'"
  shows "phase_frame (l_bucket l') = phase_frame (l_bucket l)"
    and "l_shapedTextOrientations l' = l_shapedTextOrientations l"
    and "l_verticallyShapedIcon l' = l_verticallyShapedIcon l"
    and "boxes_inv n0 l \<Longrightarrow> boxes_inv n0 l'"
    and "collisionBoxArray (l_bucket l') = collisionBoxArray (l_bucket l)"
proof -
  show "phase_frame (l_bucket l') = phase_frame (l_bucket l)"
    using assms
    by (auto simp: addSymbol_verticalText_def split: option.splits sum.splits
             dest!: addTextVertices_frame)
  show "l_shapedTextOrientations l' = l_shapedTextOrientations l"
    using assms by (auto simp: addSymbol_verticalText_def split: option.splits sum.splits)
  show "l_verticallyShapedIcon l' = l_verticallyShapedIcon l"
    using assms by (auto simp: addSymbol_verticalText_def split: option.splits sum.splits)
  show "boxes_inv n0 l \<Longrightarrow> boxes_inv n0 l'"
    using assms
    by (auto simp: addSymbol_verticalText_def boxes_inv_def split: option.splits sum.splits
             dest!: addTextVertices_frame)
  show "collisionBoxArray (l_bucket l') = collisionBoxArray (l_bucket l)"
    using assms
    by (auto simp: addSymbol_verticalText_def split: option.splits sum.splits
             dest!: addTextVertices_frame)
qed

lemma addSymbol_verticalText_total:
  assumes "sizes_ok (l_bucket l) (a_sizes a)"
  shows "\<exists>l'. addSymbol_verticalText env a l = Inr l'"
proof (cases "vertical (l_shapedTextOrientations l)")
  case None
  then show ?thesis by (simp add: addSymbol_verticalText_def)
next
  case (Some v)
  show ?thesis
    unfolding addSymbol_verticalText_def Some option.case
    apply (rule bind_total)
     apply (rule addTextVertices_total')
     apply (rule assms)
    apply (simp split: prod.splits)
    done
qed

lemma warnOnce_fields [simp]:
  "symbolInstances (warnOnce w b) = symbolInstances b"
  "compareText (warnOnce w b) = compareText b"
  "sortKeyRanges (warnOnce w b) = sortKeyRanges b"
  by (simp_all add: warnOnce_def)

lemma addSymbol_write_props:
  shows "\<exists>inst. symbolInstances (addSymbol_write env a fit l) = symbolInstances (l_bucket l) @ [inst]
            \<and> written_row a l inst"
    and "collisionBoxArray (addSymbol_write env a fit l) = collisionBoxArray (l_bucket l)"
    and "compareText (addSymbol_write env a fit l) = compareText (l_bucket l)"
    and "config_of (addSymbol_write env a fit l) = config_of (l_bucket l)"
proof -
  show "\<exists>inst. symbolInstances (addSymbol_write env a fit l) = symbolInstances (l_bucket l) @ [inst]
            \<and> written_row a l inst"
    by (simp add: addSymbol_write_def written_row_def Let_def split_def split: option.splits)
  show "collisionBoxArray (addSymbol_write env a fit l) = collisionBoxArray (l_bucket l)"
    by (simp add: addSymbol_write_def Let_def split_def split: option.splits)
  show "compareText (addSymbol_write env a fit l) = compareText (l_bucket l)"
    by (simp add: addSymbol_write_def Let_def split_def split: option.splits)
  show "config_of (addSymbol_write env a fit l) = config_of (l_bucket l)"
    by (simp add: addSymbol_write_def Let_def split_def split: option.splits)
qed

lemma wf_sto_equiv: "shape_equiv sto sto' \<Longrightarrow> wf_sto sto' = wf_sto sto"
  using wf_keys_equiv [of "horizontal sto" "horizontal sto'" "obj_keys (horizontal sto)"]
  by (simp add: wf_sto_def shape_equiv_def)

lemma addSymbol_locals_props:
  assumes "addSymbol_locals env st a = Inr l"
  shows "phase_frame (l_bucket l) = phase_frame (ls_bucket st)"
    and "shape_equiv (ls_shapedTextOrientations st) (l_shapedTextOrientations l)"
    and "boxes_inv (length (collisionBoxArray (ls_bucket st))) l"
proof -
  define l0 where "l0 = addSymbol_init env (ls_bucket st) (ls_shapedTextOrientations st)
                          (ls_verticallyShapedIcon st) a"
  define l1 where "l1 = addSymbol_vertical a l0"
  from assms obtain l2 l3 where
    i: "addSymbol_icon env a (hasIconTextFit_of (ls_bucket st) (a_feature a)) l1 = Inr l2" and
    h: "addSymbol_horizontal env a (obj_keys (horizontal (l_shapedTextOrientations l2))) l2 = Inr l3" and
    v: "addSymbol_verticalText env a l3 = Inr l"
    by (auto simp: addSymbol_locals_def Let_def l0_def l1_def split: sum.splits)
  let ?n = "length (collisionBoxArray (ls_bucket st))"
  note p0 = addSymbol_init_props [where env = env and b = "ls_bucket st"
                and sto = "ls_shapedTextOrientations st" and vi = "ls_verticallyShapedIcon st"
                and a = a, folded l0_def]
  have v0: "verticalIconBoxIndex l0 = None" by (simp add: l0_def addSymbol_init_def split_def Let_def)
  note p1 = addSymbol_vertical_props [OF l1_def]
  note p2 = addSymbol_icon_props [OF i]
  note p3 = addSymbol_horizontal_props [OF h, of ?n]
  note p4 = addSymbol_verticalText_props [OF v]
  show "phase_frame (l_bucket l) = phase_frame (ls_bucket st)"
    using p0(1) p1(1) p2(1) p3 p4(1) by simp
  show "shape_equiv (ls_shapedTextOrientations st) (l_shapedTextOrientations l)"
    using p0(3) p1(2) p2(2) p3 p4(2) by (metis shape_equiv_trans)
  have "boxes_inv ?n l1" using p1(3) [of ?n] p0(5) v0 by simp
  then have "boxes_inv ?n l2" using p2(4) by simp
  then have "boxes_inv ?n l3" using p3 by simp
  then show "boxes_inv ?n l" using p4(4) by simp
qed

lemma addSymbol_locals_total:
  assumes "wf_sto (ls_shapedTextOrientations st)" and "sizes_ok (ls_bucket st) (a_sizes a)"
  shows "\<exists>l. addSymbol_locals env st a = Inr l"
proof -
  define l0 where "l0 = addSymbol_init env (ls_bucket st) (ls_shapedTextOrientations st)
                          (ls_verticallyShapedIcon st) a"
  define l1 where "l1 = addSymbol_vertical a l0"
  note p0 = addSymbol_init_props [where env = env and b = "ls_bucket st"
                and sto = "ls_shapedTextOrientations st" and vi = "ls_verticallyShapedIcon st"
                and a = a, folded l0_def]
  note p1 = addSymbol_vertical_props [OF l1_def]
  have f1: "phase_frame (l_bucket l1) = phase_frame (ls_bucket st)" using p0(1) p1(1) by simp
  have ok1: "sizes_ok (l_bucket l1) (a_sizes a)" using assms(2) sizes_ok_frame [OF f1] by simp
  from addSymbol_icon_total [OF ok1] obtain l2 where
    i: "addSymbol_icon env a (hasIconTextFit_of (ls_bucket st) (a_feature a)) l1 = Inr l2" by blast
  note p2 = addSymbol_icon_props [OF i]
  have f2: "phase_frame (l_bucket l2) = phase_frame (ls_bucket st)" using f1 p2(1) by simp
  have ok2: "sizes_ok (l_bucket l2) (a_sizes a)" using assms(2) sizes_ok_frame [OF f2] by simp
  have "shape_equiv (ls_shapedTextOrientations st) (l_shapedTextOrientations l2)"
    using p0(3) p1(2) p2(2) by simp
  then have "wf_sto (l_shapedTextOrientations l2)" using assms(1) wf_sto_equiv by simp
  then have "wf_keys (horizontal (l_shapedTextOrientations l2))
               (obj_keys (horizontal (l_shapedTextOrientations l2)))" by (simp add: wf_sto_def)
  from addSymbol_horizontal_total [OF this ok2] obtain l3 where
    h: "addSymbol_horizontal env a (obj_keys (horizontal (l_shapedTextOrientations l2))) l2 = Inr l3"
    by blast
  from addSymbol_horizontal_props [OF h, of 0] have f3: "phase_frame (l_bucket l3) = phase_frame (ls_bucket st)"
    using f2 by simp
  have ok3: "sizes_ok (l_bucket l3) (a_sizes a)" using assms(2) sizes_ok_frame [OF f3] by simp
  from addSymbol_verticalText_total [OF ok3] obtain l where "addSymbol_verticalText env a l3 = Inr l"
    by blast
  with i h show ?thesis
    by (simp add: addSymbol_locals_def Let_def l0_def l1_def)
qed

lemma addSymbol_props:
  assumes "addSymbol env st a = Inr st'"
  shows "config_of (ls_bucket st') = config_of (ls_bucket st)"
    and "compareText (ls_bucket st') = compareText (ls_bucket st)"
    and "shape_equiv (ls_shapedTextOrientations st) (ls_shapedTextOrientations st')"
    and "\<exists>inst. symbolInstances (ls_bucket st') = symbolInstances (ls_bucket st) @ [inst] \<and>
           tile_anchor inst = (p_x (a_anchor a), p_y (a_anchor a))"
proof -
  from assms obtain l where l: "addSymbol_locals env st a = Inr l"
    and st': "st' = \<lparr>ls_bucket = addSymbol_write env a (hasIconTextFit_of (ls_bucket st) (a_feature a)) l,
               ls_shapedTextOrientations = l_shapedTextOrientations l,
               ls_verticallyShapedIcon = l_verticallyShapedIcon l\<rparr>"
    by (auto simp: addSymbol_def split: sum.splits)
  note p = addSymbol_locals_props [OF l]
  note w = addSymbol_write_props [of env a "hasIconTextFit_of (ls_bucket st) (a_feature a)" l]
  show "config_of (ls_bucket st') = config_of (ls_bucket st)"
    using w(4) config_of_phase_frame [OF p(1)] by (simp add: st')
  show "compareText (ls_bucket st') = compareText (ls_bucket st)"
    using w(3) phase_frame_fields(2) [OF p(1)] by (simp add: st')
  show "shape_equiv (ls_shapedTextOrientations st) (ls_shapedTextOrientations st')"
    using p(2) by (simp add: st')
  show "\<exists>inst. symbolInstances (ls_bucket st') = symbolInstances (ls_bucket st) @ [inst] \<and>
           tile_anchor inst = (p_x (a_anchor a), p_y (a_anchor a))"
    using w(1) phase_frame_fields(1) [OF p(1)]
    by (auto simp: st' written_row_def tile_anchor_def Let_def)
qed

lemma addSymbol_total:
  assumes "state_ok (a_sizes a) st"
  shows "\<exists>st'. addSymbol env st a = Inr st' \<and> state_ok (a_sizes a) st'"
proof -
  from assms addSymbol_locals_total obtain l where l: "addSymbol_locals env st a = Inr l"
    unfolding state_ok_def by blast
  then obtain st' where st': "addSymbol env st a = Inr st'" by (simp add: addSymbol_def)
  note p = addSymbol_props [OF st']
  have "wf_sto (ls_shapedTextOrientations st')"
    using assms wf_sto_equiv [OF p(3)] by (simp add: state_ok_def)
  moreover have "sizes_ok (ls_bucket st') (a_sizes a)"
    using assms sizes_ok_config [OF p(1)] by (simp add: state_ok_def)
  ultimately show ?thesis using st' by (simp add: state_ok_def)
qed

lemma a_sizes_symbolArgs [simp]:
  "a_sizes (symbolArgs env b0 af icon line anchor globe) = af_sizes af"
  "a_anchor (symbolArgs env b0 af icon line anchor globe) = anchor"
  by (simp_all add: symbolArgs_def)

lemma addSymbolAtAnchor_props:
  assumes "addSymbolAtAnchor env b0 af icon line anchor st = Inr st'"
  shows "config_of (ls_bucket st') = config_of (ls_bucket st)"
    and "compareText (ls_bucket st') = compareText (ls_bucket st)"
    and "shape_equiv (ls_shapedTextOrientations st) (ls_shapedTextOrientations st')"
    and "\<exists>new. symbolInstances (ls_bucket st') = symbolInstances (ls_bucket st) @ new \<and>
           map tile_anchor new = (if in_extent env anchor then [(p_x anchor, p_y anchor)] else [])"
proof -
  have all: "config_of (ls_bucket st') = config_of (ls_bucket st) \<and>
    compareText (ls_bucket st') = compareText (ls_bucket st) \<and>
    shape_equiv (ls_shapedTextOrientations st) (ls_shapedTextOrientations st') \<and>
    (\<exists>new. symbolInstances (ls_bucket st') = symbolInstances (ls_bucket st) @ new \<and>
           map tile_anchor new = (if in_extent env anchor then [(p_x anchor, p_y anchor)] else []))"
  proof (cases "in_extent env anchor")
    case False
    with assms have "st' = st" by (auto simp: addSymbolAtAnchor_def in_extent_def split: if_splits)
    with False show ?thesis by simp
  next
    case True
    with assms obtain globe where
      "addSymbol env st (symbolArgs env b0 af icon line anchor globe) = Inr st'"
      by (auto simp: addSymbolAtAnchor_def in_extent_def Let_def split: if_splits)
    note p = addSymbol_props [OF this]
    from p True show ?thesis by auto
  qed
  then show "config_of (ls_bucket st') = config_of (ls_bucket st)"
    and "compareText (ls_bucket st') = compareText (ls_bucket st)"
    and "shape_equiv (ls_shapedTextOrientations st) (ls_shapedTextOrientations st')"
    and "\<exists>new. symbolInstances (ls_bucket st') = symbolInstances (ls_bucket st) @ new \<and>
           map tile_anchor new = (if in_extent env anchor then [(p_x anchor, p_y anchor)] else [])"
    by blast+
qed

lemma addSymbolAtAnchor_total:
  assumes "state_ok (af_sizes af) st"
  shows "\<exists>st'. addSymbolAtAnchor env b0 af icon line anchor st = Inr st' \<and> state_ok (af_sizes af) st'"
proof (cases "in_extent env anchor")
  case False
  with assms show ?thesis by (auto simp: addSymbolAtAnchor_def in_extent_def)
next
  case True
  then have "\<exists>globe. addSymbolAtAnchor env b0 af icon line anchor st =
     addSymbol env st (symbolArgs env b0 af icon line anchor globe)"
    by (auto simp: addSymbolAtAnchor_def in_extent_def Let_def)
  then obtain globe where eq: "addSymbolAtAnchor env b0 af icon line anchor st =
     addSymbol env st (symbolArgs env b0 af icon line anchor globe)" by blast
  from addSymbol_total [of "symbolArgs env b0 af icon line anchor globe" st env] assms
  show ?thesis by (simp add: eq)
qed

lemma forEach_rel:
  assumes step: "\<And>x s s'. body x s = Inr s' \<Longrightarrow> R s s'"
      and refl: "\<And>s. R s s" and trans: "\<And>s t u. R s t \<Longrightarrow> R t u \<Longrightarrow> R s u"
  shows "forEach body xs s = Inr s' \<Longrightarrow> R s s'"
proof (induction xs arbitrary: s)
  case Nil
  then show ?case using refl by simp
next
  case (Cons x xs)
  then obtain t where t: "body x s = Inr t" and rest: "forEach body xs t = Inr s'"
    by (auto split: sum.splits)
  from step [OF t] Cons.IH [OF rest] show ?case by (rule trans)
qed

lemma forEach_out:
  assumes step: "\<And>x s. x \<in> set xs \<Longrightarrow> I s \<Longrightarrow> \<exists>s'. body x s = Inr s' \<and> I s' \<and> obs s' = obs s @ out x"
  shows "I s \<Longrightarrow> \<exists>s'. forEach body xs s = Inr s' \<and> I s' \<and> obs s' = obs s @ concat (map out xs)"
  using step
proof (induction xs arbitrary: s)
  case Nil
  then show ?case by simp
next
  case (Cons x xs)
  from Cons.prems(2) [of x s] Cons.prems(1) obtain t where
    t: "body x s = Inr t" "I t" "obs t = obs s @ out x" by auto
  from Cons.IH [OF t(2)] Cons.prems(2) obtain s' where
    "forEach body xs t = Inr s'" "I s'" "obs s' = obs t @ concat (map out xs)" by auto
  with t show ?case by simp
qed

lemma forEach_appends:
  assumes init: "I s"
      and step: "\<And>x s. x \<in> set xs \<Longrightarrow> I s \<Longrightarrow>
            \<exists>s' new. body x s = Inr s' \<and> I s' \<and> obs s' = obs s @ new \<and> map g new = out x"
  shows "\<exists>s' new. forEach body xs s = Inr s' \<and> I s' \<and> obs s' = obs s @ new \<and>
            map g new = concat (map out xs)"
  using init step
proof (induction xs arbitrary: s)
  case Nil
  then show ?case by simp
next
  case (Cons x xs)
  from Cons.prems(2) [of x s] Cons.prems(1) obtain t new1 where
    t: "body x s = Inr t" "I t" "obs t = obs s @ new1" "map g new1 = out x" by auto
  from Cons.IH [OF t(2)] Cons.prems(2) obtain s' new2 where
    s': "forEach body xs t = Inr s'" "I s'" "obs s' = obs t @ new2" "map g new2 = concat (map out xs)"
    by (metis list.set_intros(2))
  have "forEach body (x # xs) s = Inr s' \<and> I s' \<and> obs s' = obs s @ (new1 @ new2) \<and>
        map g (new1 @ new2) = concat (map out (x # xs))"
    using t s' by simp
  then show ?case by blast
qed

lemma addSymbolAtAnchor_out:
  assumes "state_ok (af_sizes af) st"
  shows "\<exists>st' new. addSymbolAtAnchor env b0 af icon line anchor st = Inr st' \<and>
           state_ok (af_sizes af) st' \<and>
           symbolInstances (ls_bucket st') = symbolInstances (ls_bucket st) @ new \<and>
           map tile_anchor new = (if in_extent env anchor then [(p_x anchor, p_y anchor)] else [])"
proof -
  from addSymbolAtAnchor_total [OF assms] obtain st' where
    st': "addSymbolAtAnchor env b0 af icon line anchor st = Inr st'" "state_ok (af_sizes af) st'"
    by blast
  from addSymbolAtAnchor_props(4) [OF st'(1)] st' show ?thesis by blast
qed

lemma fitIcons_props:
  assumes "fitIcons env bucket sto af = (bucket1, vicon, icon)"
  shows "config_of bucket1 = config_of bucket" "symbolInstances bucket1 = symbolInstances bucket"
    "compareText bucket1 = compareText bucket" "collisionBoxArray bucket1 = collisionBoxArray bucket"
  using assms
  by (auto simp: fitIcons_def Let_def split: option.splits if_splits)

lemma in_extent_pointAnchor [simp]: "in_extent env (pointAnchor p) = in_extent env p"
  by (simp add: in_extent_def pointAnchor_def new_Anchor_def)

lemma pointAnchor_coords [simp]: "p_x (pointAnchor p) = p_x p" "p_y (pointAnchor p) = p_y p"
  by (simp_all add: pointAnchor_def new_Anchor_def)

lemma concat_filter_singletons:
  "concat (map (\<lambda>p. if P p then [f p] else []) xs) = map f (filter P xs)"
  by (induction xs) auto

lemma point_feature_instances:
  assumes "symbol_placement (layout bucket) = placement_point"
      and "f_type (af_feature af) = T_Point"
      and "wf_sto sto" and "sizes_ok bucket (af_sizes af)"
  shows "\<exists>st new. addFeature env bucket sto af = Inr st \<and>
           symbolInstances (ls_bucket st) = symbolInstances bucket @ new \<and>
           length new = length (filter (in_extent env) (concat (f_geometry (af_feature af)))) \<and>
           map tile_anchor new = map coords (filter (in_extent env) (concat (f_geometry (af_feature af))))"
proof -
  obtain bucket1 vicon icon where fit: "fitIcons env bucket sto af = (bucket1, vicon, icon)"
    by (cases "fitIcons env bucket sto af") auto
  note fp = fitIcons_props [OF fit]
  define st0 where "st0 = \<lparr>ls_bucket = bucket1, ls_shapedTextOrientations = sto,
                 ls_verticallyShapedIcon = vicon\<rparr>"
  have ok0: "state_ok (af_sizes af) st0"
    using assms(3,4) sizes_ok_config [OF fp(1)] by (simp add: state_ok_def st0_def)
  let ?out = "\<lambda>p. if in_extent env p then [coords p] else []"
  let ?inner = "\<lambda>points st. forEach (\<lambda>point. addSymbolAtAnchor env bucket af icon (Some [point])
                                    (pointAnchor point)) points st"
  have inner: "\<exists>st' new. ?inner points st = Inr st' \<and> state_ok (af_sizes af) st' \<and>
           symbolInstances (ls_bucket st') = symbolInstances (ls_bucket st) @ new \<and>
           map tile_anchor new = concat (map ?out points)"
    if "state_ok (af_sizes af) st" for points st
  proof (rule forEach_appends [where I = "state_ok (af_sizes af)"
               and obs = "\<lambda>st. symbolInstances (ls_bucket st)" and g = tile_anchor and out = ?out])
    show "state_ok (af_sizes af) st" by fact
    fix x s assume "state_ok (af_sizes af) s"
    from addSymbolAtAnchor_out [OF this, of env bucket icon "Some [x]" "pointAnchor x"]
    show "\<exists>s' new. addSymbolAtAnchor env bucket af icon (Some [x]) (pointAnchor x) s = Inr s' \<and>
            state_ok (af_sizes af) s' \<and>
            symbolInstances (ls_bucket s') = symbolInstances (ls_bucket s) @ new \<and>
            map tile_anchor new = ?out x"
      by (cases "in_extent env x") (auto simp: coords_def)
  qed
  have "\<exists>st' new. forEach ?inner (f_geometry (af_feature af)) st0 = Inr st' \<and>
           state_ok (af_sizes af) st' \<and>
           symbolInstances (ls_bucket st') = symbolInstances (ls_bucket st0) @ new \<and>
           map tile_anchor new = concat (map (\<lambda>points. concat (map ?out points)) (f_geometry (af_feature af)))"
  proof (rule forEach_appends [where I = "state_ok (af_sizes af)"
               and obs = "\<lambda>st. symbolInstances (ls_bucket st)" and g = tile_anchor])
    show "state_ok (af_sizes af) st0" by (rule ok0)
    fix x s assume "state_ok (af_sizes af) s"
    from inner [OF this, of x]
    show "\<exists>s' new. ?inner x s = Inr s' \<and> state_ok (af_sizes af) s' \<and>
            symbolInstances (ls_bucket s') = symbolInstances (ls_bucket s) @ new \<and>
            map tile_anchor new = concat (map ?out x)" .
  qed
  then obtain st' new where r: "forEach ?inner (f_geometry (af_feature af)) st0 = Inr st'"
    "symbolInstances (ls_bucket st') = symbolInstances (ls_bucket st0) @ new"
    "map tile_anchor new = concat (map (\<lambda>points. concat (map ?out points)) (f_geometry (af_feature af)))"
    by blast
  have flat: "concat (map (\<lambda>points. concat (map ?out points)) xss) =
              map coords (filter (in_extent env) (concat xss))" for xss :: "Point list list"
    by (induction xss) (simp_all add: concat_filter_singletons)
  have eq: "addFeature env bucket sto af = forEach ?inner (f_geometry (af_feature af)) st0"
    using assms(1,2) fit by (simp add: addFeature_def Let_def st0_def)
  have m: "map tile_anchor new = map coords (filter (in_extent env) (concat (f_geometry (af_feature af))))"
    using r(3) flat by simp
  then have "length new = length (filter (in_extent env) (concat (f_geometry (af_feature af))))"
    using length_map by metis
  with eq r m fp(2) show ?thesis by (auto simp: st0_def)
qed

lemma polygon_feature_instances:
  assumes "symbol_placement (layout bucket) = placement_point"
      and "f_type (af_feature af) = T_Polygon"
      and "wf_sto sto" and "sizes_ok bucket (af_sizes af)"
  shows "\<exists>st new. addFeature env bucket sto af = Inr st \<and>
           symbolInstances (ls_bucket st) = symbolInstances bucket @ new \<and>
           map tile_anchor new =
             map coords (filter (in_extent env)
               (map (\<lambda>polygon. findPoleOfInaccessibility env polygon 16)
                  (classifyRings env (f_geometry (af_feature af)) 0)))"
proof -
  obtain bucket1 vicon icon where fit: "fitIcons env bucket sto af = (bucket1, vicon, icon)"
    by (cases "fitIcons env bucket sto af") auto
  note fp = fitIcons_props [OF fit]
  define st0 where "st0 = \<lparr>ls_bucket = bucket1, ls_shapedTextOrientations = sto,
                 ls_verticallyShapedIcon = vicon\<rparr>"
  have ok0: "state_ok (af_sizes af) st0"
    using assms(3,4) sizes_ok_config [OF fp(1)] by (simp add: state_ok_def st0_def)
  let ?pole = "\<lambda>polygon. findPoleOfInaccessibility env polygon 16"
  let ?out = "\<lambda>polygon. if in_extent env (?pole polygon) then [coords (?pole polygon)] else []"
  let ?body = "\<lambda>polygon st. addSymbolAtAnchor env bucket af icon
                        (case polygon of [] \<Rightarrow> None | ring # _ \<Rightarrow> Some ring)
                        (new_Anchor (p_x (?pole polygon)) (p_y (?pole polygon)) 0 0 None) st"
  have anchor: "in_extent env (new_Anchor (p_x q) (p_y q) 0 0 None) = in_extent env q"
    "p_x (new_Anchor (p_x q) (p_y q) 0 0 None) = p_x q"
    "p_y (new_Anchor (p_x q) (p_y q) 0 0 None) = p_y q" for q :: Point
    by (simp_all add: in_extent_def new_Anchor_def)
  have "\<exists>st' new. forEach ?body (classifyRings env (f_geometry (af_feature af)) 0) st0 = Inr st' \<and>
           state_ok (af_sizes af) st' \<and>
           symbolInstances (ls_bucket st') = symbolInstances (ls_bucket st0) @ new \<and>
           map tile_anchor new = concat (map ?out (classifyRings env (f_geometry (af_feature af)) 0))"
  proof (rule forEach_appends [where I = "state_ok (af_sizes af)"
               and obs = "\<lambda>st. symbolInstances (ls_bucket st)" and g = tile_anchor and out = ?out])
    show "state_ok (af_sizes af) st0" by (rule ok0)
    fix x s assume "state_ok (af_sizes af) s"
    from addSymbolAtAnchor_out [OF this, of env bucket icon
           "case x of [] \<Rightarrow> None | ring # _ \<Rightarrow> Some ring"
           "new_Anchor (p_x (?pole x)) (p_y (?pole x)) 0 0 None"]
    show "\<exists>s' new. ?body x s = Inr s' \<and> state_ok (af_sizes af) s' \<and>
            symbolInstances (ls_bucket s') = symbolInstances (ls_bucket s) @ new \<and>
            map tile_anchor new = ?out x"
      by (cases "in_extent env (?pole x)") (auto simp: coords_def anchor)
  qed
  then obtain st' new where r: "forEach ?body (classifyRings env (f_geometry (af_feature af)) 0) st0 = Inr st'"
    "symbolInstances (ls_bucket st') = symbolInstances (ls_bucket st0) @ new"
    "map tile_anchor new = concat (map ?out (classifyRings env (f_geometry (af_feature af)) 0))"
    by blast
  have flat: "concat (map ?out ps) = map coords (filter (in_extent env) (map ?pole ps))" for ps
    by (induction ps) simp_all
  have eq: "addFeature env bucket sto af =
              forEach ?body (classifyRings env (f_geometry (af_feature af)) 0) st0"
    using assms(1,2) fit by (simp add: addFeature_def Let_def st0_def)
  from eq r flat fp(2) show ?thesis by (auto simp: st0_def)
qed

lemma example_wf: "wf_sto example_sto"
  by (simp add: wf_sto_def example_sto_def example_shaping_def obj_keys_def obj_get_def)

lemma example_sizes_ok: "sizes_ok example_bucket (af_sizes example_args)"
  by (simp add: sizes_ok_def example_bucket_def example_args_def)

lemma example_point_feature:
  "symbol_placement (layout example_bucket) = placement_point"
  "f_type (af_feature example_args) = T_Point"
  "filter (in_extent example_env) (concat (f_geometry (af_feature example_args))) =
     [\<lparr>p_x = 10, p_y = 20\<rparr>, \<lparr>p_x = 8191, p_y = 0\<rparr>]"
  "symbolInstances example_bucket = []"
  by (simp_all add: example_bucket_def example_layout_def example_args_def example_feature_def
                in_extent_def example_env_def)

lemma example_polygon_feature:
  "f_type (af_feature (polygon_args rings)) = T_Polygon"
  "sizes_ok example_bucket (af_sizes (polygon_args rings))"
  "f_geometry (af_feature (polygon_args rings)) = rings"
  by (simp_all add: polygon_args_def example_sizes_ok)

lemma example_poles:
  "filter (in_extent example_env)
     (map (\<lambda>polygon. findPoleOfInaccessibility example_env polygon 16)
        (classifyRings example_env [example_triangle, example_square] 0)) =
   [\<lparr>p_x = 150, p_y = 100\<rparr>, \<lparr>p_x = 1100, p_y = 1100\<rparr>]"
  "filter (in_extent example_env)
     (map (\<lambda>polygon. findPoleOfInaccessibility example_env polygon 16)
        (classifyRings example_env [example_outside_triangle] 0)) = []"
  "filter (in_extent probe_env)
     (map (\<lambda>polygon. findPoleOfInaccessibility probe_env polygon 16)
        (classifyRings probe_env [example_triangle] 0)) = []"
  by (simp_all add: example_env_def probe_env_def in_extent_def example_triangle_def
        example_square_def example_outside_triangle_def)

lemma count_of_result:
  assumes "\<exists>st new. r = Inr st \<and> symbolInstances (ls_bucket st) = [] @ new \<and> map tile_anchor new = xs"
  shows "map_sum id (\<lambda>st. map tile_anchor (symbolInstances (ls_bucket st))) r = Inr xs"
  using assms by auto

lemma example_layout_sel:
  "text_size_scale_range example_layout = (0.8, 2)"
  "icon_size_scale_range example_layout = (0.8, 2)"
  "text_rotation_alignment example_layout = ''auto''"
  "icon_rotation_alignment example_layout = ''auto''"
  "symbol_placement example_layout = placement_point"
  "text_size example_layout = (\<lambda>f. 16)"
  "icon_size example_layout = (\<lambda>f. 1)"
  "text_size_at example_layout = (\<lambda>z f. 16)"
  "icon_size_at example_layout = (\<lambda>z f. 1)"
  "text_size_max example_layout = (\<lambda>f. Some 16)"
  "text_font example_layout = (\<lambda>f. [''Open Sans Regular'', ''Arial Unicode MS Regular''])"
  "text_letter_spacing example_layout = (\<lambda>f. 0)"
  "text_line_height example_layout = (\<lambda>f. 1.2)"
  "text_anchor example_layout = (\<lambda>f. ''center'')"
  "text_variable_anchor example_layout = None"
  "text_radial_offset example_layout = (\<lambda>f. 0)"
  "text_radial_offset_unset example_layout = True"
  "text_offset example_layout = (\<lambda>f. (0, 0))"
  "text_justify example_layout = (\<lambda>f. J_center)"
  "text_max_width example_layout = (\<lambda>f. 10)"
  "text_writing_mode example_layout = [''horizontal'']"
  "text_rotate example_layout = (\<lambda>f. 0)"
  "text_padding example_layout = 2"
  "text_max_angle example_layout = 45"
  "icon_offset example_layout = (\<lambda>f. (0, 0))"
  "icon_anchor example_layout = (\<lambda>f. ''center'')"
  "icon_rotate example_layout = (\<lambda>f. 0)"
  "icon_rotate_constantOr example_layout = (\<lambda>d. 0)"
  "icon_padding example_layout = 2"
  "icon_text_fit example_layout = (\<lambda>f. ''none'')"
  "icon_text_fit_padding example_layout = (\<lambda>f. (0, 0, 0, 0))"
  "symbol_spacing example_layout = 250"
  by (simp_all add: example_layout_def)

lemma example_env_sel:
  "EXTENT example_env = 8192"
  "ONE_EM example_env = 24"
  "SIZE_PACK_FACTOR example_env = 128"
  "murmur3 example_env = (\<lambda>s. length s)"
  "shapeText example_env = (\<lambda>args. if st_text args = [] then None else Some (example_shaping\<lparr>s_text := st_text args\<rparr>))"
  "shapeIcon example_env = (\<lambda>p s off anchor. \<lparr>s_top = -8, s_bottom = 8, s_left = -8, s_right = 8, collisionPadding = None, pi_image = ''marker''\<rparr>)"
  "fitIconToText example_env = (\<lambda>icon shaping fit padding off scale. icon)"
  "getGlyphQuads example_env = (\<lambda>anchor shaping off along f vert. concat (map (\<lambda>line. map (\<lambda>g. \<lparr>glyphOffset = (g_x g, 0)\<rparr>) (positionedGlyphs line)) (positionedLines shaping)))"
  "getIconQuads example_env = (\<lambda>icon rot sdf fit scale. [\<lparr>glyphOffset = (0, 0)\<rparr>])"
  "clipLine example_env = (\<lambda>lines x1 y1 x2 y2. filter (\<lambda>line. \<forall>p \<in> set line. x1 \<le> p_x p \<and> p_x p \<le> x2 \<and> y1 \<le> p_y p \<and> p_y p \<le> y2) lines)"
  "getAnchors example_env = (\<lambda>line spacing maxAngle shaping icon glyphSize boxScale overscaling extent. map (\<lambda>p. \<lparr>p_x = p_x p, p_y = p_y p, a_z = 0, angle = 0, segment = Some 0\<rparr>) line)"
  "getCenterAnchor example_env = (\<lambda>line maxAngle shaping icon glyphSize boxScale. case line of [] \<Rightarrow> None | p # _ \<Rightarrow> Some \<lparr>p_x = p_x p, p_y = p_y p, a_z = 0, angle = 0, segment = Some 0\<rparr>)"
  "findPoleOfInaccessibility example_env = (\<lambda>polygon precision. case polygon of [] \<Rightarrow> \<lparr>p_x = 0, p_y = 0\<rparr> | ring # _ \<Rightarrow> \<lparr>p_x = sum_list (map p_x ring) / real (length ring), p_y = sum_list (map p_y ring) / real (length ring)\<rparr>)"
  "classifyRings example_env = (\<lambda>rings maxRings. map (\<lambda>ring. [ring]) rings)"
  "allowsVerticalWritingMode example_env = (\<lambda>s. False)"
  "allowsLetterSpacing example_env = (\<lambda>s. True)"
  "getRasterizedIconSize example_env = (\<lambda>sizeData prop z f. 1)"
  "serializePrimary example_env = (\<lambda>icon scale. namePrimary icon)"
  "serializeSecondary example_env = (\<lambda>icon scale. case nameSecondary icon of Some s \<Rightarrow> s | None \<Rightarrow> [])"
  "imageMap example_env = [''marker'' \<mapsto> \<lparr>sdf = False, usvg = False, img_pixelRatio = 1\<rparr>]"
  "imagePositions example_env = [''marker'' \<mapsto> 0]"
  "projection_name example_env = ''mercator''"
  "projectTilePoint example_env = (\<lambda>px py. (px, py, 0))"
  "upVector example_env = (\<lambda>px py. (0, 0, 1))"
  "createArrays example_env = (\<lambda>b. b\<lparr>symbolInstances := [], text_buffers := \<lparr>placedSymbolArray = []\<rparr>, icon_buffers := \<lparr>placedSymbolArray = []\<rparr>, glyphOffsetArray := [], lineVertexArray := []\<rparr>)"
  "generateCollisionDebugBuffers example_env = (\<lambda>z boxes scale. [])"
  "addToLineVertexArray example_env = (\<lambda>vertices anchor line. ((length vertices, 0), vertices))"
  "addToSortKeyRanges example_env = (\<lambda>ranges start k. ranges @ [(k, start, start + 1)])"
  by (simp_all add: example_env_def)

lemma example_bucket_sel:
  "overscaling example_bucket = 1"
  "zoom example_bucket = 14"
  "pixelRatio example_bucket = 1"
  "allowVerticalPlacement example_bucket = False"
  "textSizeData example_bucket = Size_constant"
  "iconSizeData example_bucket = Size_constant"
  "bucket_index example_bucket = 0"
  "layerIds example_bucket = [''road-label'']"
  "features example_bucket = [example_feature]"
  "layout example_bucket = example_layout"
  "tilePixelRatio example_bucket = 16"
  "compareText example_bucket = Map.empty"
  "iconsNeedLinear example_bucket = False"
  "sdfIcons example_bucket = None"
  "bucket_iconsInText example_bucket = False"
  "hasAnyIconTextFit example_bucket = False"
  "collisionBoxArray example_bucket = []"
  "symbolInstances example_bucket = []"
  "text_buffers example_bucket = (\<lparr>placedSymbolArray = []\<rparr>)"
  "icon_buffers example_bucket = (\<lparr>placedSymbolArray = []\<rparr>)"
  "glyphOffsetArray example_bucket = []"
  "lineVertexArray example_bucket = []"
  "sortKeyRanges example_bucket = []"
  "warnOnceHistory example_bucket = []"
  "collisionDebugBuffers example_bucket = []"
  by (simp_all add: example_bucket_def)

lemma example_locals:
  "map_sum id (\<lambda>l. (textBoxIndex l, verticalTextBoxIndex l, iconBoxIndex l, verticalIconBoxIndex l,
                     length (collisionBoxArray (l_bucket l))))
     (addSymbol_locals example_env example_state example_symbol_args) =
   Inr (Some 0, None, None, None, 1)"
  by (simp add: example_layout_sel example_env_sel example_bucket_sel addSymbol_locals_def addSymbol_init_def addSymbol_vertical_def addSymbol_icon_def
        addSymbol_textCollision_def addSymbol_verticalText_def addTextVertices_def
        textSizeVertex_def addSymbols_def boxInto_def evaluateBoxCollisionFeature_def
        example_state_def example_symbol_args_def symbolArgs_def 
        example_sto_def example_args_def example_shaping_def
        example_feature_def obj_keys_def obj_get_def falsy_index_def hasIconTextFit_of_def
        textAlongLine_of_def iconAlongLine_of_def
        Let_def split_def)

lemma example_state_ok: "state_ok (a_sizes example_symbol_args) example_state"
  using example_wf example_sizes_ok
  by (simp add: state_ok_def example_state_def example_symbol_args_def)

lemma dist_to_sym: "dist_to p q = dist_to q p"
  by (simp add: dist_to_def power2_commute)

lemma dist_to_less_iff:
  "dist_to p q < d \<longleftrightarrow> 0 < d \<and> (p_x q - p_x p)\<^sup>2 + (p_y q - p_y p)\<^sup>2 < d\<^sup>2"
proof (cases "0 < d")
  case True
  let ?X = "(p_x q - p_x p)\<^sup>2 + (p_y q - p_y p)\<^sup>2"
  have "sqrt ?X < d \<longleftrightarrow> sqrt ?X < sqrt (d\<^sup>2)" using True by simp
  also have "\<dots> \<longleftrightarrow> ?X < d\<^sup>2" by (rule real_sqrt_less_iff)
  finally show ?thesis using True by (simp add: dist_to_def)
next
  case False
  have "0 \<le> dist_to p q" by (simp add: dist_to_def)
  with False show ?thesis by simp
qed

lemma withinRepeatDistance_iff:
  "withinRepeatDistance anchor d others = (\<exists>other \<in> set others. dist_to anchor other < d)"
  by (induction others) auto

lemma far_apart_snoc:
  "far_apart d (anchors @ [a]) = (far_apart d anchors \<and> (\<forall>other \<in> set anchors. d \<le> dist_to other a))"
  by (auto simp: far_apart_def sorted_wrt_append)

lemma far_apart_nth:
  "far_apart d anchors \<Longrightarrow> i < j \<Longrightarrow> j < length anchors \<Longrightarrow> d \<le> dist_to (anchors ! i) (anchors ! j)"
  by (simp add: far_apart_def sorted_wrt_iff_nth_less)

lemma anchorIsTooClose_result:
  assumes "txt \<notin> set object_prototype_keys"
  shows "anchorIsTooClose bucket txt d anchor =
           Inr (\<exists>other \<in> set (registered bucket txt). dist_to anchor other < d,
                if \<exists>other \<in> set (registered bucket txt). dist_to anchor other < d then bucket
                else bucket\<lparr>compareText := (compareText bucket)(txt \<mapsto> registered bucket txt @ [anchor])\<rparr>)"
  using assms
  by (auto simp: anchorIsTooClose_def registered_def withinRepeatDistance_iff split: option.splits)

lemma anchorIsTooClose_cases:
  assumes "anchorIsTooClose bucket txt d anchor = Inr (tooClose, bucket')"
  obtains (close) "tooClose" "bucket' = bucket"
        | (far) "\<not> tooClose" "\<forall>other \<in> set (registered bucket txt). d \<le> dist_to other anchor"
                "bucket' = bucket\<lparr>compareText := (compareText bucket)(txt \<mapsto> registered bucket txt @ [anchor])\<rparr>"
proof -
  let ?X = "\<exists>other \<in> set (registered bucket txt). dist_to anchor other < d"
  let ?Y = "if ?X then bucket
            else bucket\<lparr>compareText := (compareText bucket)(txt \<mapsto> registered bucket txt @ [anchor])\<rparr>"
  from assms have np: "txt \<notin> set object_prototype_keys"
    by (cases "txt \<in> set object_prototype_keys") (simp_all add: anchorIsTooClose_def)
  from assms [symmetric] anchorIsTooClose_result [OF np, of bucket d anchor]
  have "Inr (tooClose, bucket') = (Inr (?X, ?Y) :: js_error + bool \<times> SymbolBucket)" by (rule trans)
  then have eq: "tooClose = ?X \<and> bucket' = ?Y" by (simp only: sum.inject prod.inject)
  from eq have e1: "tooClose = ?X" and e2: "bucket' = ?Y" by blast+
  show ?thesis
  proof (cases ?X)
    case True
    from e1 True have 1: "tooClose" by blast
    from e2 have 2: "bucket' = bucket" by (simp only: True if_True)
    from 1 2 show ?thesis by (rule close)
  next
    case False
    from e1 False have 1: "\<not> tooClose" by blast
    from e2 have 2: "bucket' = bucket\<lparr>compareText := (compareText bucket)(txt \<mapsto> registered bucket txt @ [anchor])\<rparr>"
      by (simp only: False if_False)
    have 3: "\<forall>other \<in> set (registered bucket txt). d \<le> dist_to other anchor"
    proof
      fix other assume "other \<in> set (registered bucket txt)"
      with False have "\<not> dist_to anchor other < d" by blast
      then have "d \<le> dist_to anchor other" by (simp only: not_less)
      then show "d \<le> dist_to other anchor" by (simp only: dist_to_sym [of other anchor])
    qed
    from 1 3 2 show ?thesis by (rule far)
  qed
qed

lemma anchorIsTooClose_props:
  assumes "anchorIsTooClose bucket txt d anchor = Inr (tooClose, bucket')"
  shows "config_of bucket' = config_of bucket"
    and "symbolInstances bucket' = symbolInstances bucket"
    and "registry_inv d (compareText bucket) \<Longrightarrow> registry_inv d (compareText bucket')"
    and "\<not> tooClose \<Longrightarrow> anchor \<in> set (registered bucket' txt)"
proof -
  show "config_of bucket' = config_of bucket"
    using assms by (cases rule: anchorIsTooClose_cases) simp_all
  show "symbolInstances bucket' = symbolInstances bucket"
    using assms by (cases rule: anchorIsTooClose_cases) simp_all
  show "\<not> tooClose \<Longrightarrow> anchor \<in> set (registered bucket' txt)"
    using assms by (cases rule: anchorIsTooClose_cases) (simp_all add: registered_def)
  show "registry_inv d (compareText bucket')" if inv: "registry_inv d (compareText bucket)"
    using assms
  proof (cases rule: anchorIsTooClose_cases)
    case close
    with inv show ?thesis by simp
  next
    case far
    have "far_apart d (registered bucket txt)"
      using inv by (auto simp: registry_inv_def registered_def far_apart_def split: option.splits)
    with far(2) have "far_apart d (registered bucket txt @ [anchor])" by (simp add: far_apart_snoc)
    with inv show ?thesis by (auto simp: registry_inv_def far(3))
  qed
qed

lemma lay_rel_refl [simp]: "lay_rel d st st"
  by (simp add: lay_rel_def)

lemma lay_rel_trans: "lay_rel d s t \<Longrightarrow> lay_rel d t u \<Longrightarrow> lay_rel d s u"
  unfolding lay_rel_def by (auto intro: shape_equiv_trans)

lemma addSymbolAtAnchor_rel:
  assumes "addSymbolAtAnchor env b0 af icon line anchor st = Inr st'"
  shows "lay_rel d st st'"
  using addSymbolAtAnchor_props [OF assms] by (auto simp: lay_rel_def)

lemma forEach_lay_rel:
  assumes step: "\<And>x s s'. body x s = Inr s' \<Longrightarrow> lay_rel d s s'"
      and run: "forEach body xs st = Inr st'"
  shows "lay_rel d st st'"
proof (rule forEach_rel [where R = "lay_rel d" and body = body and xs = xs])
  show "forEach body xs st = Inr st'" by (rule run)
  show "\<And>x s s'. body x s = Inr s' \<Longrightarrow> lay_rel d s s'" by (rule step)
  show "\<And>s. lay_rel d s s" by simp
  show "\<And>s t u. lay_rel d s t \<Longrightarrow> lay_rel d t u \<Longrightarrow> lay_rel d s u" by (rule lay_rel_trans)
qed

lemma addSymbolAtAnchorFromLine_rel:
  assumes "addSymbolAtAnchorFromLine env b0 af icon line st = Inr st'"
  shows "lay_rel d st st'"
proof -
  let ?at = "\<lambda>p. addSymbolAtAnchor env b0 af icon (Some line) (pointAnchor p)"
  let ?first = "\<lambda>s. case line of [] \<Rightarrow> Inl TypeError | p # _ \<Rightarrow> ?at p s"
  have atv: "lay_rel d s s'" if "?at p s = Inr s'" for p s s'
    using that by (rule addSymbolAtAnchor_rel)
  have loop: "lay_rel d s s'" if "forEach ?at ps s = Inr s'" for ps s s'
    using atv that by (rule forEach_lay_rel)
  have first: "lay_rel d s s'" if "?first s = Inr s'" for s s'
    using that atv by (cases line) auto
  have both: "lay_rel d s s'"
    if "(case ?first s of Inl e \<Rightarrow> Inl e
         | Inr st1 \<Rightarrow> if length line > 1 then ?at (line ! (length line - 1)) st1 else Inr st1) = Inr s'"
    for s s'
  proof -
    from that obtain st1 where a: "?first s = Inr st1"
      and b: "(if length line > 1 then ?at (line ! (length line - 1)) st1 else Inr st1) = Inr s'"
      by (auto split: sum.splits)
    from b have "lay_rel d st1 s'" using atv by (auto split: if_splits)
    with first [OF a] show ?thesis by (rule lay_rel_trans)
  qed
  consider (v) "addSymbolAtAnchorFromLine env b0 af icon line st = forEach ?at line st"
    | (f) "addSymbolAtAnchorFromLine env b0 af icon line st = ?first st"
    | (l) "addSymbolAtAnchorFromLine env b0 af icon line st = ?at (line ! (length line - 1)) st"
    | (fl) "addSymbolAtAnchorFromLine env b0 af icon line st =
         (case ?first st of Inl e \<Rightarrow> Inl e
         | Inr st1 \<Rightarrow> if length line > 1 then ?at (line ! (length line - 1)) st1 else Inr st1)"
    | (ef) "addSymbolAtAnchorFromLine env b0 af icon line st = forEach ?at (drop 1 line) st"
    | (el) "addSymbolAtAnchorFromLine env b0 af icon line st = forEach ?at (take (length line - 1) line) st"
    | (m) "addSymbolAtAnchorFromLine env b0 af icon line st =
            forEach ?at (take (length line - 2) (drop 1 line)) st"
    unfolding addSymbolAtAnchorFromLine_def Let_def by presburger
  then show ?thesis
  proof cases
    case v
    from assms have "forEach ?at line st = Inr st'" unfolding v .
    then show ?thesis by (rule loop)
  next
    case f
    from assms have "?first st = Inr st'" unfolding f .
    then show ?thesis by (rule first)
  next
    case l
    from assms have "?at (line ! (length line - 1)) st = Inr st'" unfolding l .
    then show ?thesis by (rule atv)
  next
    case fl
    from assms have "(case ?first st of Inl e \<Rightarrow> Inl e
         | Inr st1 \<Rightarrow> if length line > 1 then ?at (line ! (length line - 1)) st1 else Inr st1) = Inr st'"
      unfolding fl .
    then show ?thesis by (rule both)
  next
    case ef
    from assms have "forEach ?at (drop 1 line) st = Inr st'" unfolding ef .
    then show ?thesis by (rule loop)
  next
    case el
    from assms have "forEach ?at (take (length line - 1) line) st = Inr st'" unfolding el .
    then show ?thesis by (rule loop)
  next
    case m
    from assms have "forEach ?at (take (length line - 2) (drop 1 line)) st = Inr st'" unfolding m .
    then show ?thesis by (rule loop)
  qed
qed

lemma addLineAnchor_rel:
  assumes "addLineAnchor env b0 af icon line anchor st = Inr st'"
  shows "lay_rel (textRepeatDistance env b0) st st'"
proof (cases "defaultShaping (ls_shapedTextOrientations st)")
  case None
  with assms have "addSymbolAtAnchor env b0 af icon (Some line) anchor st = Inr st'"
    by (simp add: addLineAnchor_def)
  then show ?thesis by (rule addSymbolAtAnchor_rel)
next
  case (Some sh)
  with assms obtain tooClose bucket1 where
    tc: "anchorIsTooClose (ls_bucket st) (s_text sh) (textRepeatDistance env b0) anchor
           = Inr (tooClose, bucket1)"
    and rest: "(if tooClose then Inr (st\<lparr>ls_bucket := bucket1\<rparr>)
                else addSymbolAtAnchor env b0 af icon (Some line) anchor (st\<lparr>ls_bucket := bucket1\<rparr>))
               = Inr st'"
    by (auto simp: addLineAnchor_def split: sum.splits)
  note p = anchorIsTooClose_props [OF tc]
  have 1: "lay_rel (textRepeatDistance env b0) st (st\<lparr>ls_bucket := bucket1\<rparr>)"
    using p by (simp add: lay_rel_def)
  have 2: "lay_rel (textRepeatDistance env b0) (st\<lparr>ls_bucket := bucket1\<rparr>) st'"
  proof (cases tooClose)
    case True
    with rest show ?thesis by simp
  next
    case False
    with rest have "addSymbolAtAnchor env b0 af icon (Some line) anchor (st\<lparr>ls_bucket := bucket1\<rparr>)
               = Inr st'" by simp
    then show ?thesis by (rule addSymbolAtAnchor_rel)
  qed
  from 1 2 show ?thesis by (rule lay_rel_trans)
qed

lemma addLineAnchor_registered:
  assumes "addLineAnchor env b0 af icon line anchor st = Inr st'"
      and "defaultShaping (ls_shapedTextOrientations st) = Some sh"
      and "symbolInstances (ls_bucket st') \<noteq> symbolInstances (ls_bucket st)"
  shows "anchor \<in> set (registered (ls_bucket st') (s_text sh))"
proof -
  from assms(1,2) obtain tooClose bucket1 where
    tc: "anchorIsTooClose (ls_bucket st) (s_text sh) (textRepeatDistance env b0) anchor
           = Inr (tooClose, bucket1)"
    and rest: "(if tooClose then Inr (st\<lparr>ls_bucket := bucket1\<rparr>)
                else addSymbolAtAnchor env b0 af icon (Some line) anchor (st\<lparr>ls_bucket := bucket1\<rparr>))
               = Inr st'"
    by (auto simp: addLineAnchor_def split: sum.splits)
  note p = anchorIsTooClose_props [OF tc]
  show ?thesis
  proof (cases tooClose)
    case True
    with rest have "st' = st\<lparr>ls_bucket := bucket1\<rparr>" by simp
    with p(2) assms(3) show ?thesis by simp
  next
    case False
    with rest have "addSymbolAtAnchor env b0 af icon (Some line) anchor (st\<lparr>ls_bucket := bucket1\<rparr>)
               = Inr st'" by simp
    from addSymbolAtAnchor_props(2) [OF this] have "compareText (ls_bucket st') = compareText bucket1"
      by simp
    with p(4) [OF False] show ?thesis by (simp add: registered_def)
  qed
qed

lemma textRepeatDistance_config:
  assumes "config_of b' = config_of b"
  shows "textRepeatDistance env b' = textRepeatDistance env b"
  using config_fields(3,5,6) [OF assms]
  by (simp add: textRepeatDistance_def symbolMinDistance_def)

lemma addFeature_rel:
  assumes "addFeature env bucket sto af = Inr st"
  shows "config_of (ls_bucket st) = config_of bucket"
    and "\<exists>new. symbolInstances (ls_bucket st) = symbolInstances bucket @ new"
    and "registry_inv (textRepeatDistance env bucket) (compareText bucket) \<Longrightarrow>
         registry_inv (textRepeatDistance env bucket) (compareText (ls_bucket st))"
proof -
  let ?d = "textRepeatDistance env bucket"
  obtain bucket1 vicon icon where fit: "fitIcons env bucket sto af = (bucket1, vicon, icon)"
    by (cases "fitIcons env bucket sto af") auto
  note fp = fitIcons_props [OF fit]
  define st0 where "st0 = \<lparr>ls_bucket = bucket1, ls_shapedTextOrientations = sto,
                 ls_verticallyShapedIcon = vicon\<rparr>"
  let ?place = "addSymbolAtAnchor env bucket af icon"
  let ?fromLine = "addSymbolAtAnchorFromLine env bucket af icon"
  let ?angle = "degToRad (text_max_angle (layout bucket))"
  let ?scale = "textMaxBoxScale env bucket (af_feature af) (af_sizes af) (af_layoutTextSize af)"
  let ?lineBody = "\<lambda>line st.
                forEach (addLineAnchor env bucket af icon line)
                  (getAnchors env line (symbolMinDistance env bucket) ?angle
                     (verticalOrDefault (ls_shapedTextOrientations st)) icon (ONE_EM env)
                     ?scale (overscaling bucket) (EXTENT env))
                  st"
  let ?centerBody = "\<lambda>line st.
                if length line > 1 then
                  (case getCenterAnchor env line ?angle
                          (verticalOrDefault (ls_shapedTextOrientations st)) icon (ONE_EM env)
                          ?scale of
                     Some anchor \<Rightarrow> ?place (Some line) anchor st
                   | None \<Rightarrow> Inr st)
                else Inr st"
  let ?polygonBody = "\<lambda>polygon st.
                if symbol_placement (layout bucket) = placement_point then
                  (let poi = findPoleOfInaccessibility env polygon 16
                   in ?place (case polygon of [] \<Rightarrow> None | ring # _ \<Rightarrow> Some ring)
                        (new_Anchor (p_x poi) (p_y poi) 0 0 None) st)
                else
                  (case polygon of
                     [] \<Rightarrow> Inl TypeError
                   | ring # _ \<Rightarrow> ?fromLine ring st)"
  let ?pointBody = "\<lambda>points st.
                forEach (\<lambda>point. ?place (Some [point]) (pointAnchor point)) points st"
  have b1: "lay_rel ?d s s'" if "?lineBody line s = Inr s'" for line s s'
    using addLineAnchor_rel that by (rule forEach_lay_rel)
  have b2: "lay_rel ?d s s'" if "?centerBody line s = Inr s'" for line s s'
    using that by (auto split: if_splits option.splits intro: addSymbolAtAnchor_rel)
  have b3: "lay_rel ?d s s'" if "?polygonBody polygon s = Inr s'" for polygon s s'
    using that
    by (auto simp: Let_def split: if_splits list.splits
             intro: addSymbolAtAnchor_rel addSymbolAtAnchorFromLine_rel)
  have b4: "lay_rel ?d s s'" if "?fromLine line s = Inr s'" for line s s'
    using that by (rule addSymbolAtAnchorFromLine_rel)
  have b5: "lay_rel ?d s s'" if "?pointBody points s = Inr s'" for points s s'
    using addSymbolAtAnchor_rel that by (rule forEach_lay_rel)
  consider
      (line) "addFeature env bucket sto af =
                forEach ?lineBody (clipLine env (f_geometry (af_feature af)) 0 0 (EXTENT env) (EXTENT env)) st0"
    | (center) "addFeature env bucket sto af = forEach ?centerBody (f_geometry (af_feature af)) st0"
    | (polygon) "addFeature env bucket sto af =
                forEach ?polygonBody (classifyRings env (f_geometry (af_feature af)) 0) st0"
    | (lines) "addFeature env bucket sto af = forEach ?fromLine (f_geometry (af_feature af)) st0"
    | (points) "addFeature env bucket sto af = forEach ?pointBody (f_geometry (af_feature af)) st0"
    | (none) "addFeature env bucket sto af = Inr st0"
    unfolding addFeature_def Let_def fit prod.case st0_def by presburger
  then have rel: "lay_rel ?d st0 st"
  proof cases
    case line
    from assms have "forEach ?lineBody (clipLine env (f_geometry (af_feature af)) 0 0 (EXTENT env) (EXTENT env)) st0 = Inr st"
      unfolding line .
    with b1 show ?thesis by (rule forEach_lay_rel)
  next
    case center
    from assms have "forEach ?centerBody (f_geometry (af_feature af)) st0 = Inr st" unfolding center .
    with b2 show ?thesis by (rule forEach_lay_rel)
  next
    case polygon
    from assms have "forEach ?polygonBody (classifyRings env (f_geometry (af_feature af)) 0) st0 = Inr st"
      unfolding polygon .
    with b3 show ?thesis by (rule forEach_lay_rel)
  next
    case lines
    from assms have "forEach ?fromLine (f_geometry (af_feature af)) st0 = Inr st" unfolding lines .
    with b4 show ?thesis by (rule forEach_lay_rel)
  next
    case points
    from assms have "forEach ?pointBody (f_geometry (af_feature af)) st0 = Inr st" unfolding points .
    with b5 show ?thesis by (rule forEach_lay_rel)
  next
    case none
    with assms show ?thesis by simp
  qed
  from rel fp show "config_of (ls_bucket st) = config_of bucket"
    by (simp add: lay_rel_def st0_def)
  from rel fp show "\<exists>new. symbolInstances (ls_bucket st) = symbolInstances bucket @ new"
    by (simp add: lay_rel_def st0_def)
  from rel fp show "registry_inv ?d (compareText bucket) \<Longrightarrow> registry_inv ?d (compareText (ls_bucket st))"
    by (simp add: lay_rel_def st0_def)
qed

lemma bucket_rel_refl: "bucket_rel env b b"
  by (simp add: bucket_rel_def)

lemma bucket_rel_trans:
  assumes "bucket_rel env a b" and "bucket_rel env b c"
  shows "bucket_rel env a c"
proof -
  from assms(1) have "config_of b = config_of a" by (simp add: bucket_rel_def)
  from textRepeatDistance_config [OF this, of env] assms show ?thesis
    by (auto simp: bucket_rel_def)
qed

lemma shapeFeatureIcon_props:
  assumes "shapeFeatureIcon env bucket sizes pr feature = (icon, s, u, bucket1)"
  shows "config_of bucket1 = config_of bucket" "symbolInstances bucket1 = symbolInstances bucket"
    "compareText bucket1 = compareText bucket"
  using assms
  by (auto simp: shapeFeatureIcon_def Let_def split: option.splits if_splits)

lemma layoutFeature_rel:
  assumes "layoutFeature env sizes pr h feature bucket = Inr bucket'"
  shows "bucket_rel env bucket bucket'"
proof -
  let ?lts = "sz_layoutTextSize sizes feature * sz_textScaleFactor sizes"
  let ?lis = "sz_layoutIconSize sizes feature * sz_iconScaleFactor sizes"
  obtain sto textOffset imageTextAnchor where
    t: "shapeFeatureText env bucket feature ?lts
          (text_size (layout bucket) feature * sz_textScaleFactor sizes) = (sto, textOffset, imageTextAnchor)"
    by (metis prod_cases3)
  obtain icon s u bucket1 where
    i: "shapeFeatureIcon env bucket sizes pr feature = (icon, s, u, bucket1)"
    by (metis prod_cases4)
  note ip = shapeFeatureIcon_props [OF i]
  define bucket2 where "bucket2 = (if \<not> bucket_iconsInText bucket1
                     then bucket1\<lparr>bucket_iconsInText :=
                            (case defaultShaping sto of Some s \<Rightarrow> iconsInText s | None \<Rightarrow> False)\<rparr>
                     else bucket1)"
  have b2: "config_of bucket2 = config_of bucket" "symbolInstances bucket2 = symbolInstances bucket"
    "compareText bucket2 = compareText bucket"
    using ip by (simp_all add: bucket2_def)
  define sto1 where "sto1 = (case (imageTextAnchor, defaultShaping sto) of
                    (Some ita, Some s) \<Rightarrow>
                      setDefaultShaping sto (shapedIconText env s icon ita ?lts ?lis)
                  | _ \<Rightarrow> sto)"
  define af where "af = \<lparr>af_feature = feature, af_shapedIcon = icon, af_sizes = sizes,
                    af_layoutTextSize = ?lts, af_layoutIconSize = ?lis,
                    af_textOffset = textOffset, af_isSDFIcon = s,
                    af_isUSVGIcon = u,
                    af_hasAnySecondaryIcon = h\<rparr>"
  have eq: "layoutFeature env sizes pr h feature bucket =
      (if defaultShaping sto \<noteq> None \<or> icon \<noteq> None then
           (case addFeature env bucket2 sto1 af of
              Inl e \<Rightarrow> Inl e
            | Inr st \<Rightarrow> Inr (ls_bucket st))
         else Inr bucket2)"
    by (simp add: layoutFeature_def Let_def t i bucket2_def sto1_def af_def)
  show ?thesis
  proof (cases "defaultShaping sto \<noteq> None \<or> icon \<noteq> None")
    case False
    with eq assms have "bucket' = bucket2" by simp
    with b2 show ?thesis by (simp add: bucket_rel_def)
  next
    case True
    with eq assms obtain st where st: "addFeature env bucket2 sto1 af = Inr st"
      and b': "bucket' = ls_bucket st"
      by (auto split: sum.splits)
    note r = addFeature_rel [OF st]
    have d: "textRepeatDistance env bucket2 = textRepeatDistance env bucket"
      using b2(1) by (rule textRepeatDistance_config)
    from r b2 d show ?thesis by (auto simp: bucket_rel_def b')
  qed
qed

lemma layoutFeatures_rel:
  assumes "layoutFeatures env sizes pr h fs bucket = Inr bucket'"
  shows "bucket_rel env bucket bucket'"
proof (rule forEach_rel [where R = "bucket_rel env"
         and body = "layoutFeature env sizes pr h" and xs = fs])
  show "forEach (layoutFeature env sizes pr h) fs bucket = Inr bucket'"
    using assms by (simp add: layoutFeatures_def)
  show "\<And>x s s'. layoutFeature env sizes pr h x s = Inr s' \<Longrightarrow> bucket_rel env s s'"
    by (rule layoutFeature_rel)
  show "\<And>s. bucket_rel env s s" by (rule bucket_rel_refl)
  show "\<And>s t u. bucket_rel env s t \<Longrightarrow> bucket_rel env t u \<Longrightarrow> bucket_rel env s u"
    by (rule bucket_rel_trans)
qed


lemma registry_inv_empty: "registry_inv d Map.empty"
  by (simp add: registry_inv_def)

lemma performSymbolLayout_registry:
  assumes "performSymbolLayout env bucket showCollisionBoxes tileZoom scaleFactor0 pixelRatio0 = Inr bucket'"
  shows "registry_inv (textRepeatDistance env bucket') (compareText bucket')"
    and "config_of bucket' = config_of (resetBucket env bucket)"
proof -
  define bucket1 where "bucket1 = resetBucket env bucket"
  define sizes where "sizes = layoutSizes env bucket1 tileZoom scaleFactor0"
  from assms obtain bucket2 where
    run: "layoutFeatures env sizes pixelRatio0 (list_ex hasSecondaryIcon (features bucket1))
            (features bucket1) bucket1 = Inr bucket2"
    and b': "bucket' = (if showCollisionBoxes
                  then bucket2\<lparr>collisionDebugBuffers :=
                         generateCollisionDebugBuffers env tileZoom (collisionBoxArray bucket2)
                           (sz_textScaleFactor sizes)\<rparr>
                  else bucket2)"
    by (auto simp: performSymbolLayout_def Let_def bucket1_def sizes_def split: sum.splits)
  note r = layoutFeatures_rel [OF run]
  have e: "compareText bucket1 = Map.empty"
    by (simp add: bucket1_def resetBucket_def Let_def)
  from r e have inv: "registry_inv (textRepeatDistance env bucket1) (compareText bucket2)"
    by (simp add: bucket_rel_def registry_inv_empty)
  from r have c: "config_of bucket2 = config_of bucket1" by (simp add: bucket_rel_def)
  have c': "config_of bucket' = config_of bucket1" using c by (simp add: b')
  have t: "compareText bucket' = compareText bucket2" by (simp add: b')
  from inv t textRepeatDistance_config [OF c', of env]
  show "registry_inv (textRepeatDistance env bucket') (compareText bucket')" by simp
  from c' show "config_of bucket' = config_of (resetBucket env bucket)" by (simp add: bucket1_def)
qed

lemma example_line_layout:
  "map_sum id (\<lambda>b. (compareText b ''Main St'', map tile_anchor (symbolInstances b)))
     (performSymbolLayout example_env example_line_bucket False 14 1 1) =
   Inr (Some [line_anchor 100 100, line_anchor 1000 100], [(100, 100), (1000, 100)])"
  by (simp add: example_layout_sel example_env_sel example_bucket_sel
        performSymbolLayout_def resetBucket_def layoutSizes_def layoutFeatures_def
        layoutFeature_def shapeFeatureText_def shapeFeatureIcon_def addFeature_def fitIcons_def
        addLineAnchor_def anchorIsTooClose_def addSymbolAtAnchor_def addSymbol_def
        addSymbol_locals_def addSymbol_init_def addSymbol_vertical_def addSymbol_icon_def
        addSymbol_textCollision_def addSymbol_verticalText_def addTextVertices_def
        addSymbol_write_def textSizeVertex_def addSymbols_def boxInto_def
        evaluateBoxCollisionFeature_def evaluateCircleCollisionFeature_def
        symbolArgs_def example_line_bucket_def example_line_feature_def example_feature_def
        example_shaping_def obj_keys_def obj_get_def falsy_index_def hasIconTextFit_of_def
        textAlongLine_of_def iconAlongLine_of_def defaultShaping_def verticalOrDefault_def
        getDefaultHorizontalShaping_def textRepeatDistance_def symbolMinDistance_def
        tilePixelRatioForSymbolSpacing_def textMaxBoxScale_def clamp_def startsWith_def
        getAnchorJustification_def object_prototype_keys_def dist_to_less_iff
        line_anchor_def tile_anchor_def symbolTextOffset_def getCollisionCircleHeight_def
        placedTextIndex_def collisionFeatureAnchor_def MAX_GLYPHS_def warnOnce_def
        degToRad_def hasSecondaryIcon_def
        Let_def split_def)

lemma example_line_facts:
  "''Main St'' \<notin> set object_prototype_keys"
  "registered example_registry_bucket ''Main St'' = [line_anchor 100 100]"
  "dist_to (line_anchor 150 100) (line_anchor 100 100) < 200"
  by (simp_all add: object_prototype_keys_def registered_def example_registry_bucket_def
        dist_to_less_iff line_anchor_def)

lemma map_sum_InrE:
  assumes "map_sum f g r = Inr v"
  obtains y where "r = Inr y" and "g y = v"
  using assms by (cases r) auto

lemma symbolMinDistance_config:
  assumes "config_of b' = config_of b"
  shows "symbolMinDistance env b' = symbolMinDistance env b"
  using config_fields(3,5,6) [OF assms] by (simp add: symbolMinDistance_def)

lemma boxInto_eq:
  "boxInto a b sh pad rot off sc =
     (length (collisionBoxArray b),
      b\<lparr>collisionBoxArray := collisionBoxArray b @ [collisionBoxOf a sh pad rot off sc]\<rparr>)"
  by (simp add: boxInto_def collisionBoxOf_def evaluateBoxCollisionFeature_def Let_def split_def)

lemma addSymbol_init_boxes:
  "textBoxIndex (addSymbol_init env b sto vi a) = None"
  "iconBoxIndex (addSymbol_init env b sto vi a) = None"
  "verticalTextBoxIndex (addSymbol_init env b sto vi a) = None"
  "verticalIconBoxIndex (addSymbol_init env b sto vi a) = None"
  by (simp_all add: addSymbol_init_def Let_def split_def)

lemma addSymbol_vertical_boxes:
  assumes "l' = addSymbol_vertical a l"
      and "verticalTextBoxIndex l = None" and "verticalIconBoxIndex l = None"
  shows "textBoxIndex l' = textBoxIndex l" and "iconBoxIndex l' = iconBoxIndex l"
    and "horizontal (l_shapedTextOrientations l') = horizontal (l_shapedTextOrientations l)"
    and "collisionBoxArray (l_bucket l') =
           collisionBoxArray (l_bucket l) @ verticalTextBoxes a (localsState l) @
           verticalIconBoxes a (localsState l)"
    and "verticalTextBoxIndex l' =
           (if verticalTextBoxes a (localsState l) = [] then None
            else Some (length (collisionBoxArray (l_bucket l))))"
    and "verticalIconBoxIndex l' =
           (if verticalIconBoxes a (localsState l) = [] then None
            else Some (length (collisionBoxArray (l_bucket l)) + 1))"
  using assms
  by (simp_all add: addSymbol_vertical_def boxInto_eq Let_def split_def localsState_def
        verticalTextBoxes_def verticalIconBoxes_def split: option.splits bool.splits)

lemma addSymbol_icon_boxes:
  assumes "addSymbol_icon env a fit l = Inr l'"
  shows "textBoxIndex l' = textBoxIndex l"
    and "verticalTextBoxIndex l' = verticalTextBoxIndex l"
    and "verticalIconBoxIndex l' = verticalIconBoxIndex l"
    and "collisionBoxArray (l_bucket l') = collisionBoxArray (l_bucket l) @ iconBoxes env a (localsState l)"
    and "iconBoxIndex l' =
           (if iconBoxes env a (localsState l) = [] then iconBoxIndex l
            else Some (length (collisionBoxArray (l_bucket l))))"
proof -
  show "textBoxIndex l' = textBoxIndex l"
    using assms
    by (auto simp: addSymbol_icon_def boxInto_eq Let_def split_def
             split: option.splits sum.splits)
  show "verticalTextBoxIndex l' = verticalTextBoxIndex l"
    using assms
    by (auto simp: addSymbol_icon_def boxInto_eq Let_def split_def
             split: option.splits sum.splits)
  show "verticalIconBoxIndex l' = verticalIconBoxIndex l"
    using assms
    by (auto simp: addSymbol_icon_def boxInto_eq Let_def split_def
             split: option.splits sum.splits)
  have "collisionBoxArray (l_bucket l') = collisionBoxArray (l_bucket l) @ iconBoxes env a (localsState l) \<and>
        iconBoxIndex l' =
           (if iconBoxes env a (localsState l) = [] then iconBoxIndex l
            else Some (length (collisionBoxArray (l_bucket l))))"
  proof (cases "a_shapedIcon a")
    case None
    with assms show ?thesis by (simp add: addSymbol_icon_def iconBoxes_def)
  next
    case (Some icon)
    let ?b1 = "snd (boxInto a (l_bucket l) icon (a_iconPadding a)
                 (icon_rotate (layout (l_bucket l)) (a_feature a)) None
                 (if a_isUSVGIcon a
                  then sz_iconScaleFactor (a_sizes a) *
                       getRasterizedIconSize env (iconSizeData (l_bucket l))
                         (icon_size_at (layout (l_bucket l))) (zoom (l_bucket l)) (a_feature a)
                  else 1))"
    from assms Some obtain sv b2 where
      sv: "iconSizeVertex env ?b1 (a_sizes a) (a_feature a) = Inr (sv, b2)"
      by (cases "a_isUSVGIcon a"; cases "iconSizeVertex env ?b1 (a_sizes a) (a_feature a)")
         (auto simp: addSymbol_icon_def Let_def split_def)
    from iconSizeVertex_frame [OF sv]
    have c2: "collisionBoxArray b2 = collisionBoxArray ?b1" by simp
    from assms Some sv have
      "collisionBoxArray (l_bucket l') = collisionBoxArray b2 \<and>
       iconBoxIndex l' = Some (length (collisionBoxArray (l_bucket l)))"
      by (cases "a_isUSVGIcon a")
         (auto simp: addSymbol_icon_def boxInto_eq Let_def split_def split: option.splits)
    with c2 Some show ?thesis by (simp add: boxInto_eq iconBoxes_def localsState_def)
  qed
  then show "collisionBoxArray (l_bucket l') = collisionBoxArray (l_bucket l) @ iconBoxes env a (localsState l)"
    and "iconBoxIndex l' =
           (if iconBoxes env a (localsState l) = [] then iconBoxIndex l
            else Some (length (collisionBoxArray (l_bucket l))))"
    by simp_all
qed

lemma addSymbol_horizontal_other:
  assumes "addSymbol_horizontal env a ks l = Inr l'"
  shows "iconBoxIndex l' = iconBoxIndex l \<and> verticalTextBoxIndex l' = verticalTextBoxIndex l \<and>
         verticalIconBoxIndex l' = verticalIconBoxIndex l"
  using assms
proof (induction ks arbitrary: l)
  case Nil
  then show ?case by simp
next
  case (Cons k ks)
  from Cons.prems obtain sh where sh: "obj_get (horizontal (l_shapedTextOrientations l)) k = Some sh"
    by (auto split: option.splits)
  obtain sh1 l1 where tc: "addSymbol_textCollision env a k sh l = (sh1, l1)"
    by (cases "addSymbol_textCollision env a k sh l")
  have i1: "iconBoxIndex l1 = iconBoxIndex l \<and> verticalTextBoxIndex l1 = verticalTextBoxIndex l \<and>
         verticalIconBoxIndex l1 = verticalIconBoxIndex l"
    using tc by (auto simp: addSymbol_textCollision_def boxInto_eq Let_def split_def split: if_splits)
  from Cons.prems sh tc obtain n b2 idx where
    l2: "length (positionedLines sh1) = 1 \<and>
           l' = l1\<lparr>l_bucket := b2, numHorizontalGlyphVertices := numHorizontalGlyphVertices l1 + n,
                  placedTextSymbolIndices := idx\<rparr> \<or>
         addSymbol_horizontal env a ks
           (l1\<lparr>l_bucket := b2, numHorizontalGlyphVertices := numHorizontalGlyphVertices l1 + n,
               placedTextSymbolIndices := idx\<rparr>) = Inr l'"
    by (auto simp: Let_def split: sum.splits if_splits)
  from l2 show ?case
  proof
    assume "length (positionedLines sh1) = 1 \<and>
           l' = l1\<lparr>l_bucket := b2, numHorizontalGlyphVertices := numHorizontalGlyphVertices l1 + n,
                  placedTextSymbolIndices := idx\<rparr>"
    with i1 show ?thesis by simp
  next
    assume "addSymbol_horizontal env a ks
           (l1\<lparr>l_bucket := b2, numHorizontalGlyphVertices := numHorizontalGlyphVertices l1 + n,
               placedTextSymbolIndices := idx\<rparr>) = Inr l'"
    from Cons.IH [OF this] i1 show ?thesis by simp
  qed
qed

lemma addSymbol_horizontal_noins:
  assumes "addSymbol_horizontal env a ks l = Inr l'"
      and "a_textAlongLine a \<or> \<not> falsy_index (textBoxIndex l)"
  shows "collisionBoxArray (l_bucket l') = collisionBoxArray (l_bucket l) \<and>
         textBoxIndex l' = textBoxIndex l"
  using assms
proof (induction ks arbitrary: l)
  case Nil
  then show ?case by simp
next
  case (Cons k ks)
  from Cons.prems obtain sh where sh: "obj_get (horizontal (l_shapedTextOrientations l)) k = Some sh"
    by (auto split: option.splits)
  obtain sh1 l1 where tc: "addSymbol_textCollision env a k sh l = (sh1, l1)"
    by (cases "addSymbol_textCollision env a k sh l")
  have i1: "collisionBoxArray (l_bucket l1) = collisionBoxArray (l_bucket l) \<and>
            textBoxIndex l1 = textBoxIndex l"
    using tc Cons.prems(2)
    by (auto simp: addSymbol_textCollision_def Let_def split_def split: if_splits)
  from Cons.prems(1) sh tc obtain n b2 idx where
    tv: "addTextVertices env (l_bucket l1) (a_globe a) (a_anchor a) sh1
                     (a_textAlongLine a) (a_feature a) (a_textOffset a) (lineArray l1)
                     (case vertical (l_shapedTextOrientations l1) of
                        Some v \<Rightarrow> WM_horizontal | None \<Rightarrow> WM_horizontalOnly)
                     (if length (positionedLines sh1) = 1
                      then obj_keys (horizontal (l_shapedTextOrientations l1))
                      else [k])
                     (placedTextSymbolIndices l1) (placedIconSymbolIndex l1) (a_sizes a) = Inr (n, b2, idx)"
    and l2: "length (positionedLines sh1) = 1 \<and>
           l' = l1\<lparr>l_bucket := b2, numHorizontalGlyphVertices := numHorizontalGlyphVertices l1 + n,
                  placedTextSymbolIndices := idx\<rparr> \<or>
         addSymbol_horizontal env a ks
           (l1\<lparr>l_bucket := b2, numHorizontalGlyphVertices := numHorizontalGlyphVertices l1 + n,
               placedTextSymbolIndices := idx\<rparr>) = Inr l'"
    by (auto simp: Let_def split: sum.splits if_splits)
  from addTextVertices_frame [OF tv] have c2: "collisionBoxArray b2 = collisionBoxArray (l_bucket l1)"
    by simp
  from l2 show ?case
  proof
    assume "length (positionedLines sh1) = 1 \<and>
           l' = l1\<lparr>l_bucket := b2, numHorizontalGlyphVertices := numHorizontalGlyphVertices l1 + n,
                  placedTextSymbolIndices := idx\<rparr>"
    with i1 c2 show ?thesis by simp
  next
    assume r: "addSymbol_horizontal env a ks
           (l1\<lparr>l_bucket := b2, numHorizontalGlyphVertices := numHorizontalGlyphVertices l1 + n,
               placedTextSymbolIndices := idx\<rparr>) = Inr l'"
    have "a_textAlongLine a \<or> \<not> falsy_index (textBoxIndex (l1\<lparr>l_bucket := b2,
             numHorizontalGlyphVertices := numHorizontalGlyphVertices l1 + n,
             placedTextSymbolIndices := idx\<rparr>))"
      using Cons.prems(2) i1 by simp
    from Cons.IH [OF r this] i1 c2 show ?thesis by simp
  qed
qed

lemma addSymbol_horizontal_step:
  assumes "addSymbol_horizontal env a (k # rest) l = Inr l'"
      and "\<not> a_textAlongLine a" and "falsy_index (textBoxIndex l)"
  shows "\<exists>s l2. obj_get (horizontal (l_shapedTextOrientations l)) k = Some s \<and>
           collisionBoxArray (l_bucket l2) =
             collisionBoxArray (l_bucket l) @
               [collisionBoxOf a s (a_textPadding a) (text_rotate (layout (l_bucket l)) (a_feature a))
                  (Some (a_textOffset a)) 1] \<and>
           textBoxIndex l2 = Some (length (collisionBoxArray (l_bucket l))) \<and>
           l_shapedTextOrientations l2 = l_shapedTextOrientations l \<and>
           layout (l_bucket l2) = layout (l_bucket l) \<and>
           (if length (positionedLines s) = 1 then l' = l2
            else addSymbol_horizontal env a rest l2 = Inr l')"
proof -
  from assms(1) obtain s where s: "obj_get (horizontal (l_shapedTextOrientations l)) k = Some s"
    by (auto split: option.splits)
  define l1 where "l1 = l\<lparr>l_key := murmur3 env (s_text s),
      textBoxIndex := Some (length (collisionBoxArray (l_bucket l))),
      l_bucket := (l_bucket l)\<lparr>collisionBoxArray := collisionBoxArray (l_bucket l) @
               [collisionBoxOf a s (a_textPadding a) (text_rotate (layout (l_bucket l)) (a_feature a))
                  (Some (a_textOffset a)) 1]\<rparr>\<rparr>"
  have tc: "addSymbol_textCollision env a k s l = (s, l1)"
    using assms(2,3) by (simp add: addSymbol_textCollision_def boxInto_eq Let_def l1_def)
  from assms(1) s tc obtain n b2 idx where
    tv: "addTextVertices env (l_bucket l1) (a_globe a) (a_anchor a) s
                     (a_textAlongLine a) (a_feature a) (a_textOffset a) (lineArray l1)
                     (case vertical (l_shapedTextOrientations l1) of
                        Some v \<Rightarrow> WM_horizontal | None \<Rightarrow> WM_horizontalOnly)
                     (if length (positionedLines s) = 1
                      then obj_keys (horizontal (l_shapedTextOrientations l1))
                      else [k])
                     (placedTextSymbolIndices l1) (placedIconSymbolIndex l1) (a_sizes a) = Inr (n, b2, idx)"
    and l2: "if length (positionedLines s) = 1 then
           l' = l1\<lparr>l_bucket := b2, numHorizontalGlyphVertices := numHorizontalGlyphVertices l1 + n,
                  placedTextSymbolIndices := idx\<rparr> else
         addSymbol_horizontal env a rest
           (l1\<lparr>l_bucket := b2, numHorizontalGlyphVertices := numHorizontalGlyphVertices l1 + n,
               placedTextSymbolIndices := idx\<rparr>) = Inr l'"
    by (auto simp: Let_def split: sum.splits if_splits)
  from addTextVertices_frame [OF tv]
  have f: "phase_frame b2 = phase_frame (l_bucket l1)"
    and c2: "collisionBoxArray b2 = collisionBoxArray (l_bucket l1)" by simp_all
  have lay: "layout b2 = layout (l_bucket l)"
    using phase_frame_fields(5) [OF f] by (simp add: l1_def)
  let ?l2 = "l1\<lparr>l_bucket := b2, numHorizontalGlyphVertices := numHorizontalGlyphVertices l1 + n,
                  placedTextSymbolIndices := idx\<rparr>"
  have "obj_get (horizontal (l_shapedTextOrientations l)) k = Some s \<and>
           collisionBoxArray (l_bucket ?l2) =
             collisionBoxArray (l_bucket l) @
               [collisionBoxOf a s (a_textPadding a) (text_rotate (layout (l_bucket l)) (a_feature a))
                  (Some (a_textOffset a)) 1] \<and>
           textBoxIndex ?l2 = Some (length (collisionBoxArray (l_bucket l))) \<and>
           l_shapedTextOrientations ?l2 = l_shapedTextOrientations l \<and>
           layout (l_bucket ?l2) = layout (l_bucket l) \<and>
           (if length (positionedLines s) = 1 then l' = ?l2
            else addSymbol_horizontal env a rest ?l2 = Inr l')"
    using s c2 lay l2 by (simp add: l1_def)
  then show ?thesis by blast
qed

lemma addSymbol_horizontal_boxes:
  assumes run: "addSymbol_horizontal env a ks l = Inr l'"
      and na: "\<not> a_textAlongLine a" and none: "textBoxIndex l = None"
      and ks: "ks = obj_keys (horizontal (l_shapedTextOrientations l))"
  shows "collisionBoxArray (l_bucket l') =
           collisionBoxArray (l_bucket l) @
           textBoxes a (localsState l) (length (collisionBoxArray (l_bucket l))) \<and>
         textBoxIndex l' =
           (if textBoxes a (localsState l) (length (collisionBoxArray (l_bucket l))) = [] then None
            else Some (length (collisionBoxArray (l_bucket l)) +
                       length (textBoxes a (localsState l) (length (collisionBoxArray (l_bucket l)))) - 1))"
proof (cases ks)
  case Nil
  with run none ks [symmetric] na show ?thesis by (simp add: textBoxes_def localsState_def)
next
  case (Cons k1 rest)
  have f0: "falsy_index (textBoxIndex l)" using none by (simp add: falsy_index_def)
  from addSymbol_horizontal_step [OF run [unfolded Cons] na f0] obtain s1 l2 where
    s1: "obj_get (horizontal (l_shapedTextOrientations l)) k1 = Some s1" and
    c2: "collisionBoxArray (l_bucket l2) =
             collisionBoxArray (l_bucket l) @
               [collisionBoxOf a s1 (a_textPadding a) (text_rotate (layout (l_bucket l)) (a_feature a))
                  (Some (a_textOffset a)) 1]" and
    t2: "textBoxIndex l2 = Some (length (collisionBoxArray (l_bucket l)))" and
    sto2: "l_shapedTextOrientations l2 = l_shapedTextOrientations l" and
    lay2: "layout (l_bucket l2) = layout (l_bucket l)" and
    k2: "if length (positionedLines s1) = 1 then l' = l2
         else addSymbol_horizontal env a rest l2 = Inr l'"
    by blast
  show ?thesis
  proof (cases "length (positionedLines s1) = 1")
    case True
    with k2 have "l' = l2" by simp
    with Cons s1 c2 t2 True ks [symmetric] na show ?thesis
      by (simp add: textBoxes_def textBoxOf_def localsState_def)
  next
    case multi: False
    with k2 have r2: "addSymbol_horizontal env a rest l2 = Inr l'" by simp
    show ?thesis
    proof (cases "length (collisionBoxArray (l_bucket l)) = 0")
      case False
      then have "a_textAlongLine a \<or> \<not> falsy_index (textBoxIndex l2)"
        using t2 by (simp add: falsy_index_def)
      from addSymbol_horizontal_noins [OF r2 this] Cons s1 c2 t2 multi False ks [symmetric] na
      show ?thesis by (simp add: textBoxes_def textBoxOf_def localsState_def)
    next
      case empty: True
      show ?thesis
      proof (cases rest)
        case Nil
        with r2 have "l' = l2" by simp
        with \<open>ks = k1 # rest\<close> Nil s1 c2 t2 multi empty ks [symmetric] na show ?thesis
          by (simp add: textBoxes_def textBoxOf_def localsState_def)
      next
        case (Cons k2' rest')
        have f2: "falsy_index (textBoxIndex l2)" using t2 empty by (simp add: falsy_index_def)
        from addSymbol_horizontal_step [OF r2 [unfolded Cons] na f2] obtain s2 l3 where
          s2: "obj_get (horizontal (l_shapedTextOrientations l2)) k2' = Some s2" and
          c3: "collisionBoxArray (l_bucket l3) =
             collisionBoxArray (l_bucket l2) @
               [collisionBoxOf a s2 (a_textPadding a) (text_rotate (layout (l_bucket l2)) (a_feature a))
                  (Some (a_textOffset a)) 1]" and
          t3: "textBoxIndex l3 = Some (length (collisionBoxArray (l_bucket l2)))" and
          k3: "if length (positionedLines s2) = 1 then l' = l3
               else addSymbol_horizontal env a rest' l3 = Inr l'"
          by blast
        have fin: "collisionBoxArray (l_bucket l') = collisionBoxArray (l_bucket l3) \<and>
                   textBoxIndex l' = textBoxIndex l3"
        proof (cases "length (positionedLines s2) = 1")
          case True
          with k3 show ?thesis by simp
        next
          case False
          with k3 have r3: "addSymbol_horizontal env a rest' l3 = Inr l'" by simp
          have "a_textAlongLine a \<or> \<not> falsy_index (textBoxIndex l3)"
            using t3 c2 by (simp add: falsy_index_def)
          from addSymbol_horizontal_noins [OF r3 this] show ?thesis .
        qed
        from fin c3 t3 c2 s2 s1 sto2 lay2 multi empty Cons \<open>ks = k1 # rest\<close> ks [symmetric] na
        show ?thesis by (simp add: textBoxes_def textBoxOf_def localsState_def)
      qed
    qed
  qed
qed

lemma addSymbol_verticalText_boxes:
  assumes "addSymbol_verticalText env a l = Inr l'"
  shows "textBoxIndex l' = textBoxIndex l" and "iconBoxIndex l' = iconBoxIndex l"
    and "verticalTextBoxIndex l' = verticalTextBoxIndex l"
    and "verticalIconBoxIndex l' = verticalIconBoxIndex l"
  using assms
  by (auto simp: addSymbol_verticalText_def split: option.splits sum.splits)

lemma recordedI:
  assumes "store = pre @ boxes @ post" and "offset = length pre"
      and "boxes = [] \<Longrightarrow> startIndex = length store \<and> endIndex = length store"
      and "boxes \<noteq> [] \<Longrightarrow> startIndex = offset + length boxes - 1 \<and> endIndex = startIndex + 1"
  shows "recorded store offset boxes startIndex endIndex"
proof (cases "boxes = []")
  case True
  with assms(3) show ?thesis by (simp add: recorded_def)
next
  case False
  then have len: "0 < length boxes" by simp
  from False assms(4) have se: "startIndex = offset + length boxes - 1" "endIndex = startIndex + 1"
    by simp_all
  have idx: "startIndex = length pre + (length boxes - 1)"
    using se(1) assms(2) False by (cases boxes) simp_all
  have "store ! startIndex = boxes ! (length boxes - 1)"
    unfolding assms(1) idx using len by (simp add: nth_append)
  also have "\<dots> = last boxes" using False by (simp add: last_conv_nth)
  finally have nth: "store ! startIndex = last boxes" .
  have "startIndex < length store" unfolding assms(1) idx using False by (cases boxes) simp_all
  with False se nth show ?thesis by (simp add: recorded_def)
qed

lemma symbol_instance_boxes_exact:
  assumes "addSymbol env st a = Inr st'"
  shows "\<exists>inst. symbolInstances (ls_bucket st') = symbolInstances (ls_bucket st) @ [inst] \<and>
           collisionBoxArray (ls_bucket st') =
             collisionBoxArray (ls_bucket st) @ verticalTextBoxes a st @ verticalIconBoxes a st @
             iconBoxes env a st @ textBoxes a st (textBoxOffset env a st) \<and>
           recorded (collisionBoxArray (ls_bucket st')) (length (collisionBoxArray (ls_bucket st)))
             (verticalTextBoxes a st)
             (si_verticalTextBoxStartIndex inst) (si_verticalTextBoxEndIndex inst) \<and>
           recorded (collisionBoxArray (ls_bucket st'))
             (length (collisionBoxArray (ls_bucket st) @ verticalTextBoxes a st))
             (verticalIconBoxes a st)
             (si_verticalIconBoxStartIndex inst) (si_verticalIconBoxEndIndex inst) \<and>
           recorded (collisionBoxArray (ls_bucket st'))
             (length (collisionBoxArray (ls_bucket st) @ verticalTextBoxes a st @
                      verticalIconBoxes a st))
             (iconBoxes env a st)
             (si_iconBoxStartIndex inst) (si_iconBoxEndIndex inst) \<and>
           recorded (collisionBoxArray (ls_bucket st')) (textBoxOffset env a st)
             (textBoxes a st (textBoxOffset env a st))
             (si_textBoxStartIndex inst) (si_textBoxEndIndex inst)"
proof -
  from assms obtain l where l: "addSymbol_locals env st a = Inr l"
    and st': "st' = \<lparr>ls_bucket = addSymbol_write env a (hasIconTextFit_of (ls_bucket st) (a_feature a)) l,
               ls_shapedTextOrientations = l_shapedTextOrientations l,
               ls_verticallyShapedIcon = l_verticallyShapedIcon l\<rparr>"
    by (auto simp: addSymbol_def split: sum.splits)
  define l0 where "l0 = addSymbol_init env (ls_bucket st) (ls_shapedTextOrientations st)
                          (ls_verticallyShapedIcon st) a"
  define l1 where "l1 = addSymbol_vertical a l0"
  from l obtain l2 l3 where
    i: "addSymbol_icon env a (hasIconTextFit_of (ls_bucket st) (a_feature a)) l1 = Inr l2" and
    h: "addSymbol_horizontal env a (obj_keys (horizontal (l_shapedTextOrientations l2))) l2 = Inr l3" and
    v: "addSymbol_verticalText env a l3 = Inr l"
    by (auto simp: addSymbol_locals_def Let_def l0_def l1_def split: sum.splits)
  let ?s0 = "collisionBoxArray (ls_bucket st)"
  let ?vt = "verticalTextBoxes a st" and ?vi = "verticalIconBoxes a st"
  let ?ic = "iconBoxes env a st" and ?tx = "textBoxes a st (textBoxOffset env a st)"
  note p0 = addSymbol_init_props [where env = env and b = "ls_bucket st"
                and sto = "ls_shapedTextOrientations st" and vi = "ls_verticallyShapedIcon st"
                and a = a, folded l0_def]
  note b0 = addSymbol_init_boxes [where env = env and b = "ls_bucket st"
                and sto = "ls_shapedTextOrientations st" and vi = "ls_verticallyShapedIcon st"
                and a = a, folded l0_def]
  note f0 = phase_frame_fields [OF p0(1)]
  note p1 = addSymbol_vertical_props [OF l1_def]
  note b1 = addSymbol_vertical_boxes [OF l1_def b0(3) b0(4)]
  have fr1: "phase_frame (l_bucket l1) = phase_frame (ls_bucket st)" using p0(1) p1(1) by simp
  note f1 = phase_frame_fields [OF fr1]
  note p2 = addSymbol_icon_props [OF i]
  note b2 = addSymbol_icon_boxes [OF i]
  have fr2: "phase_frame (l_bucket l2) = phase_frame (ls_bucket st)" using fr1 p2(1) by simp
  note f2 = phase_frame_fields [OF fr2]
  note b3 = addSymbol_horizontal_other [OF h]
  note b4 = addSymbol_verticalText_boxes [OF v]
  note p4 = addSymbol_verticalText_props [OF v]
  have e0: "verticalTextBoxes a (localsState l0) = ?vt" "verticalIconBoxes a (localsState l0) = ?vi"
    using p0(2,3,4) f0(5,6)
    by (auto simp: verticalTextBoxes_def verticalIconBoxes_def localsState_def
          split: option.splits)
  have s1: "collisionBoxArray (l_bucket l1) = ?s0 @ ?vt @ ?vi"
    and vt1: "verticalTextBoxIndex l1 = (if ?vt = [] then None else Some (length ?s0))"
    and vi1: "verticalIconBoxIndex l1 = (if ?vi = [] then None else Some (length ?s0 + 1))"
    using b1(4,5,6) p0(2) unfolding e0 by simp_all
  have t1: "textBoxIndex l1 = None" and i1: "iconBoxIndex l1 = None"
    using b1(1,2) b0(1,2) by simp_all
  have hor1: "horizontal (l_shapedTextOrientations l1) = horizontal (ls_shapedTextOrientations st)"
    using b1(3) p0(3) by simp
  have e1: "iconBoxes env a (localsState l1) = ?ic"
    using f1(4,5,9) by (auto simp: iconBoxes_def localsState_def split: option.splits)
  have s2: "collisionBoxArray (l_bucket l2) = ?s0 @ ?vt @ ?vi @ ?ic"
    and ic2: "iconBoxIndex l2 = (if ?ic = [] then None else Some (length (?s0 @ ?vt @ ?vi)))"
    using b2(4,5) s1 i1 unfolding e1 by simp_all
  have t2: "textBoxIndex l2 = None" using b2(1) t1 by simp
  have hor2: "horizontal (l_shapedTextOrientations l2) = horizontal (ls_shapedTextOrientations st)"
    using p2(2) hor1 by simp
  have len2: "length (collisionBoxArray (l_bucket l2)) = textBoxOffset env a st"
    using s2 by (simp add: textBoxOffset_def)
  have e2: "textBoxes a (localsState l2) n = textBoxes a st n" for n
    using hor2 f2(5)
    by (auto simp: textBoxes_def textBoxOf_def localsState_def split: option.splits list.splits)
  have s3: "collisionBoxArray (l_bucket l3) = ?s0 @ ?vt @ ?vi @ ?ic @ ?tx \<and>
        textBoxIndex l3 = (if ?tx = [] then None else Some (textBoxOffset env a st + length ?tx - 1))"
  proof (cases "a_textAlongLine a")
    case True
    then have "a_textAlongLine a \<or> \<not> falsy_index (textBoxIndex l2)" by simp
    from addSymbol_horizontal_noins [OF h this] True s2 t2 show ?thesis
      by (simp add: textBoxes_def)
  next
    case False
    from addSymbol_horizontal_boxes [OF h False t2 refl] s2 show ?thesis
      unfolding e2 len2 by simp
  qed
  have s4: "collisionBoxArray (l_bucket l) = ?s0 @ ?vt @ ?vi @ ?ic @ ?tx" using s3 p4(5) by simp
  have t4: "textBoxIndex l = (if ?tx = [] then None else Some (textBoxOffset env a st + length ?tx - 1))"
    using s3 b4(1) by simp
  have ic4: "iconBoxIndex l = (if ?ic = [] then None else Some (length (?s0 @ ?vt @ ?vi)))"
    using ic2 b3 b4(2) by simp
  have vt4: "verticalTextBoxIndex l = (if ?vt = [] then None else Some (length ?s0))"
    using vt1 b2(2) b3 b4(3) by simp
  have vi4: "verticalIconBoxIndex l = (if ?vi = [] then None else Some (length ?s0 + 1))"
    using vi1 b2(3) b3 b4(4) by simp
  have lvt: "?vt \<noteq> [] \<Longrightarrow> length ?vt = 1"
    by (auto simp: verticalTextBoxes_def split: option.splits if_splits)
  have lvi: "?vi \<noteq> [] \<Longrightarrow> length ?vi = 1 \<and> length ?vt = 1"
    by (auto simp: verticalIconBoxes_def verticalTextBoxes_def split: option.splits if_splits)
  have lic: "?ic \<noteq> [] \<Longrightarrow> length ?ic = 1"
    by (auto simp: iconBoxes_def split: option.splits)
  note w = addSymbol_write_props [of env a "hasIconTextFit_of (ls_bucket st) (a_feature a)" l]
  from w(1) obtain inst where inst:
    "symbolInstances (addSymbol_write env a (hasIconTextFit_of (ls_bucket st) (a_feature a)) l) =
       symbolInstances (l_bucket l) @ [inst]" "written_row a l inst" by blast
  note fl = phase_frame_fields [OF addSymbol_locals_props(1) [OF l]]
  have r1: "symbolInstances (ls_bucket st') = symbolInstances (ls_bucket st) @ [inst]"
    using inst(1) fl(1) by (simp add: st')
  have r2: "collisionBoxArray (ls_bucket st') = ?s0 @ ?vt @ ?vi @ ?ic @ ?tx"
    using w(2) s4 by (simp add: st')
  have wr: "si_textBoxStartIndex inst = (case textBoxIndex l of Some i \<Rightarrow> i | None \<Rightarrow> length (collisionBoxArray (ls_bucket st')))"
    "si_textBoxEndIndex inst = (case textBoxIndex l of Some i \<Rightarrow> i + 1 | None \<Rightarrow> length (collisionBoxArray (ls_bucket st')))"
    "si_verticalTextBoxStartIndex inst = (case verticalTextBoxIndex l of Some i \<Rightarrow> i | None \<Rightarrow> length (collisionBoxArray (ls_bucket st')))"
    "si_verticalTextBoxEndIndex inst = (case verticalTextBoxIndex l of Some i \<Rightarrow> i + 1 | None \<Rightarrow> length (collisionBoxArray (ls_bucket st')))"
    "si_iconBoxStartIndex inst = (case iconBoxIndex l of Some i \<Rightarrow> i | None \<Rightarrow> length (collisionBoxArray (ls_bucket st')))"
    "si_iconBoxEndIndex inst = (case iconBoxIndex l of Some i \<Rightarrow> i + 1 | None \<Rightarrow> length (collisionBoxArray (ls_bucket st')))"
    "si_verticalIconBoxStartIndex inst =
           (if falsy_index (verticalIconBoxIndex l) then length (collisionBoxArray (ls_bucket st'))
            else (case verticalIconBoxIndex l of Some i \<Rightarrow> i | None \<Rightarrow> length (collisionBoxArray (ls_bucket st'))))"
    "si_verticalIconBoxEndIndex inst =
           (if falsy_index (verticalIconBoxIndex l) then length (collisionBoxArray (ls_bucket st'))
            else (case verticalIconBoxIndex l of Some i \<Rightarrow> i + 1 | None \<Rightarrow> length (collisionBoxArray (ls_bucket st'))))"
    using inst(2) w(2) by (auto simp: written_row_def Let_def st' split: option.splits)
  have c1: "recorded (collisionBoxArray (ls_bucket st')) (length ?s0) ?vt
             (si_verticalTextBoxStartIndex inst) (si_verticalTextBoxEndIndex inst)"
  proof (rule recordedI [where pre = "?s0" and post = "?vi @ ?ic @ ?tx"])
    show "collisionBoxArray (ls_bucket st') = ?s0 @ ?vt @ ?vi @ ?ic @ ?tx" by (rule r2)
    show "length ?s0 = length ?s0" ..
    show "si_verticalTextBoxStartIndex inst = length (collisionBoxArray (ls_bucket st')) \<and>
          si_verticalTextBoxEndIndex inst = length (collisionBoxArray (ls_bucket st'))" if "?vt = []"
      using that wr(3,4) vt4 by simp
    show "si_verticalTextBoxStartIndex inst = length ?s0 + length ?vt - 1 \<and>
          si_verticalTextBoxEndIndex inst = si_verticalTextBoxStartIndex inst + 1" if "?vt \<noteq> []"
      using that lvt wr(3,4) vt4 by simp
  qed
  have c2: "recorded (collisionBoxArray (ls_bucket st')) (length (?s0 @ ?vt)) ?vi
             (si_verticalIconBoxStartIndex inst) (si_verticalIconBoxEndIndex inst)"
  proof (rule recordedI [where pre = "?s0 @ ?vt" and post = "?ic @ ?tx"])
    show "collisionBoxArray (ls_bucket st') = (?s0 @ ?vt) @ ?vi @ ?ic @ ?tx" using r2 by simp
    show "length (?s0 @ ?vt) = length (?s0 @ ?vt)" ..
    show "si_verticalIconBoxStartIndex inst = length (collisionBoxArray (ls_bucket st')) \<and>
          si_verticalIconBoxEndIndex inst = length (collisionBoxArray (ls_bucket st'))" if "?vi = []"
      using that wr(7,8) vi4 by (simp add: falsy_index_def)
    show "si_verticalIconBoxStartIndex inst = length (?s0 @ ?vt) + length ?vi - 1 \<and>
          si_verticalIconBoxEndIndex inst = si_verticalIconBoxStartIndex inst + 1" if "?vi \<noteq> []"
      using that lvi wr(7,8) vi4 by (simp add: falsy_index_def)
  qed
  have c3: "recorded (collisionBoxArray (ls_bucket st')) (length (?s0 @ ?vt @ ?vi)) ?ic
             (si_iconBoxStartIndex inst) (si_iconBoxEndIndex inst)"
  proof (rule recordedI [where pre = "?s0 @ ?vt @ ?vi" and post = "?tx"])
    show "collisionBoxArray (ls_bucket st') = (?s0 @ ?vt @ ?vi) @ ?ic @ ?tx" using r2 by simp
    show "length (?s0 @ ?vt @ ?vi) = length (?s0 @ ?vt @ ?vi)" ..
    show "si_iconBoxStartIndex inst = length (collisionBoxArray (ls_bucket st')) \<and>
          si_iconBoxEndIndex inst = length (collisionBoxArray (ls_bucket st'))" if "?ic = []"
      using that wr(5,6) ic4 by simp
    show "si_iconBoxStartIndex inst = length (?s0 @ ?vt @ ?vi) + length ?ic - 1 \<and>
          si_iconBoxEndIndex inst = si_iconBoxStartIndex inst + 1" if "?ic \<noteq> []"
      using that lic wr(5,6) ic4 by simp
  qed
  have c4: "recorded (collisionBoxArray (ls_bucket st')) (textBoxOffset env a st) ?tx
             (si_textBoxStartIndex inst) (si_textBoxEndIndex inst)"
  proof (rule recordedI [where pre = "?s0 @ ?vt @ ?vi @ ?ic" and post = "[]"])
    show "collisionBoxArray (ls_bucket st') = (?s0 @ ?vt @ ?vi @ ?ic) @ ?tx @ []" using r2 by simp
    show "textBoxOffset env a st = length (?s0 @ ?vt @ ?vi @ ?ic)" by (simp add: textBoxOffset_def)
    show "si_textBoxStartIndex inst = length (collisionBoxArray (ls_bucket st')) \<and>
          si_textBoxEndIndex inst = length (collisionBoxArray (ls_bucket st'))" if "?tx = []"
      using that wr(1,2) t4 by simp
    show "si_textBoxStartIndex inst = textBoxOffset env a st + length ?tx - 1 \<and>
          si_textBoxEndIndex inst = si_textBoxStartIndex inst + 1" if "?tx \<noteq> []"
      using that wr(1,2) t4 by simp
  qed
  from r1 r2 c1 c2 c3 c4 show ?thesis by blast
qed

lemma example_variable_state_ok: "state_ok (a_sizes example_symbol_args) example_variable_state"
  using example_sizes_ok
  by (simp add: state_ok_def example_variable_state_def example_symbol_args_def symbolArgs_def
        wf_sto_def obj_keys_def obj_get_def)

lemma example_full_state_ok: "state_ok (a_sizes example_full_args) example_full_state"
  using example_sizes_ok
  by (simp add: state_ok_def example_full_state_def example_full_args_def example_symbol_args_def
        symbolArgs_def wf_sto_def obj_keys_def obj_get_def sizes_ok_def)

lemma example_variable_boxes:
  "collisionBoxArray (ls_bucket example_variable_state) = []"
  "symbolInstances (ls_bucket example_variable_state) = []"
  "verticalTextBoxes example_symbol_args example_variable_state = []"
  "verticalIconBoxes example_symbol_args example_variable_state = []"
  "iconBoxes example_env example_symbol_args example_variable_state = []"
  "textBoxOffset example_env example_symbol_args example_variable_state = 0"
  "textBoxes example_symbol_args example_variable_state 0 =
     [textBoxOf example_symbol_args example_variable_state example_two_line_shaping,
      textBoxOf example_symbol_args example_variable_state example_two_line_shaping]"
  by (simp_all add: example_variable_state_def example_symbol_args_def symbolArgs_def
        example_bucket_sel verticalTextBoxes_def verticalIconBoxes_def iconBoxes_def
        textBoxOffset_def textBoxes_def obj_keys_def obj_get_def textAlongLine_of_def
        example_layout_sel example_two_line_shaping_def)

lemma example_full_boxes:
  "collisionBoxArray (ls_bucket example_full_state) = []"
  "symbolInstances (ls_bucket example_full_state) = []"
  "length (verticalTextBoxes example_full_args example_full_state) = 1"
  "length (verticalIconBoxes example_full_args example_full_state) = 1"
  "length (iconBoxes example_env example_full_args example_full_state) = 1"
  "verticalTextBoxes example_full_args example_full_state \<noteq> []"
  "verticalIconBoxes example_full_args example_full_state \<noteq> []"
  "iconBoxes example_env example_full_args example_full_state \<noteq> []"
  "textBoxOffset example_env example_full_args example_full_state = 3"
  "textBoxes example_full_args example_full_state 3 =
     [textBoxOf example_full_args example_full_state example_two_line_shaping]"
  by (simp_all add: example_full_state_def example_full_args_def example_symbol_args_def
        symbolArgs_def example_bucket_sel verticalTextBoxes_def verticalIconBoxes_def
        iconBoxes_def textBoxOffset_def textBoxes_def obj_keys_def obj_get_def
        textAlongLine_of_def example_layout_sel example_two_line_shaping_def)

lemma accepts_refl: "accepts env lab b b"
  by (simp add: accepts_def)

lemma accepts_trans:
  assumes "accepts env lab a b" and "accepts env lab b c"
  shows "accepts env lab a c"
proof -
  from assms(1) obtain new1 where
    i1: "symbolInstances b = symbolInstances a @ new1" and
    r1: "\<And>t. \<exists>added. registered b t = registered a t @ added \<and>
               (lab \<noteq> Some t \<longrightarrow> added = []) \<and>
               (lab = Some t \<longrightarrow> map tile_anchor new1 = map coords (filter (in_extent env) added))"
    unfolding accepts_def by blast
  from assms(2) obtain new2 where
    i2: "symbolInstances c = symbolInstances b @ new2" and
    r2: "\<And>t. \<exists>added. registered c t = registered b t @ added \<and>
               (lab \<noteq> Some t \<longrightarrow> added = []) \<and>
               (lab = Some t \<longrightarrow> map tile_anchor new2 = map coords (filter (in_extent env) added))"
    unfolding accepts_def by blast
  have "\<exists>added. registered c t = registered a t @ added \<and>
               (lab \<noteq> Some t \<longrightarrow> added = []) \<and>
               (lab = Some t \<longrightarrow>
                  map tile_anchor (new1 @ new2) = map coords (filter (in_extent env) added))" for t
  proof -
    from r1 [of t] obtain added1 where a1: "registered b t = registered a t @ added1"
      "lab \<noteq> Some t \<longrightarrow> added1 = []"
      "lab = Some t \<longrightarrow> map tile_anchor new1 = map coords (filter (in_extent env) added1)" by blast
    from r2 [of t] obtain added2 where a2: "registered c t = registered b t @ added2"
      "lab \<noteq> Some t \<longrightarrow> added2 = []"
      "lab = Some t \<longrightarrow> map tile_anchor new2 = map coords (filter (in_extent env) added2)" by blast
    from a1 a2 have "registered c t = registered a t @ (added1 @ added2) \<and>
               (lab \<noteq> Some t \<longrightarrow> added1 @ added2 = []) \<and>
               (lab = Some t \<longrightarrow>
                  map tile_anchor (new1 @ new2) = map coords (filter (in_extent env) (added1 @ added2)))"
      by simp
    then show ?thesis by blast
  qed
  moreover have "symbolInstances c = symbolInstances a @ (new1 @ new2)" using i1 i2 by simp
  ultimately show ?thesis unfolding accepts_def by blast
qed

lemma accepts_same:
  assumes "accepts env lab b b'"
      and "symbolInstances b = symbolInstances a" and "compareText b = compareText a"
  shows "accepts env lab a b'"
  using assms by (simp add: accepts_def registered_def)

lemma renderedText_equiv:
  assumes "shape_equiv sto sto'"
  shows "renderedText sto' = renderedText sto"
proof -
  from assms have keys: "map fst (horizontal sto') = map fst (horizontal sto)"
    and vals: "\<And>k. same_lines (obj_get (horizontal sto) k) (obj_get (horizontal sto') k)"
    and vert: "same_lines (vertical sto) (vertical sto')"
    by (simp_all add: shape_equiv_def obj_keys_def)
  have v: "map_option s_text (vertical sto') = map_option s_text (vertical sto)"
    using vert by (cases "vertical sto"; cases "vertical sto'") (simp_all add: same_lines_def)
  show ?thesis
  proof (cases "horizontal sto")
    case Nil
    with keys have "horizontal sto' = []" by simp
    with Nil v show ?thesis
      by (simp add: renderedText_def defaultShaping_def getDefaultHorizontalShaping_def)
  next
    case (Cons kv rest)
    obtain k u where kv: "kv = (k, u)" by (cases kv)
    from keys Cons kv obtain u' rest' where h': "horizontal sto' = (k, u') # rest'"
      by (cases "horizontal sto'") auto
    from vals [of k] Cons kv h' have s: "same_lines u u'" by (simp add: obj_get_def)
    then show ?thesis using Cons kv h' v
      by (cases u; cases u')
         (simp_all add: renderedText_def defaultShaping_def getDefaultHorizontalShaping_def
            same_lines_def)
  qed
qed

lemma line_rel_refl: "line_rel env d st st"
  by (simp add: line_rel_def accepts_refl)

lemma line_rel_trans:
  assumes "line_rel env d s t" and "line_rel env d t u"
  shows "line_rel env d s u"
proof -
  from assms have l: "lay_rel d s u" by (auto simp: line_rel_def intro: lay_rel_trans)
  from assms(1) have "shape_equiv (ls_shapedTextOrientations s) (ls_shapedTextOrientations t)"
    by (simp add: line_rel_def lay_rel_def)
  from renderedText_equiv [OF this] assms
  have "accepts env (renderedText (ls_shapedTextOrientations s)) (ls_bucket s) (ls_bucket u)"
    by (auto simp: line_rel_def intro: accepts_trans)
  with l show ?thesis by (simp add: line_rel_def)
qed

lemma forEach_line_rel:
  assumes step: "\<And>x s s'. body x s = Inr s' \<Longrightarrow> line_rel env d s s'"
      and run: "forEach body xs st = Inr st'"
  shows "line_rel env d st st'"
proof (rule forEach_rel [where R = "line_rel env d" and body = body and xs = xs])
  show "forEach body xs st = Inr st'" by (rule run)
  show "\<And>x s s'. body x s = Inr s' \<Longrightarrow> line_rel env d s s'" by (rule step)
  show "\<And>s. line_rel env d s s" by (rule line_rel_refl)
  show "\<And>s t u. line_rel env d s t \<Longrightarrow> line_rel env d t u \<Longrightarrow> line_rel env d s u"
    by (rule line_rel_trans)
qed

lemma addLineAnchor_accepts:
  assumes "addLineAnchor env b0 af icon line anchor st = Inr st'"
  shows "accepts env (renderedText (ls_shapedTextOrientations st)) (ls_bucket st) (ls_bucket st')"
proof (cases "defaultShaping (ls_shapedTextOrientations st)")
  case None
  with assms have run: "addSymbolAtAnchor env b0 af icon (Some line) anchor st = Inr st'"
    by (simp add: addLineAnchor_def)
  from addSymbolAtAnchor_props(4) [OF run] obtain new where
    "symbolInstances (ls_bucket st') = symbolInstances (ls_bucket st) @ new" by blast
  moreover have "registered (ls_bucket st') t = registered (ls_bucket st) t" for t
    using addSymbolAtAnchor_props(2) [OF run] by (simp add: registered_def)
  ultimately show ?thesis using None by (auto simp: accepts_def renderedText_def)
next
  case (Some sh)
  with assms obtain tooClose bucket1 where
    tc: "anchorIsTooClose (ls_bucket st) (s_text sh) (textRepeatDistance env b0) anchor
           = Inr (tooClose, bucket1)"
    and rest: "(if tooClose then Inr (st\<lparr>ls_bucket := bucket1\<rparr>)
                else addSymbolAtAnchor env b0 af icon (Some line) anchor (st\<lparr>ls_bucket := bucket1\<rparr>))
               = Inr st'"
    by (auto simp: addLineAnchor_def split: sum.splits)
  have lab: "renderedText (ls_shapedTextOrientations st) = Some (s_text sh)"
    using Some by (simp add: renderedText_def)
  from tc show ?thesis
  proof (cases rule: anchorIsTooClose_cases)
    case close
    with rest have "ls_bucket st' = ls_bucket st" by auto
    then show ?thesis by (simp add: accepts_def)
  next
    case far
    with rest have run: "addSymbolAtAnchor env b0 af icon (Some line) anchor (st\<lparr>ls_bucket := bucket1\<rparr>)
               = Inr st'" by simp
    from addSymbolAtAnchor_props(4) [OF run] obtain new where
      new: "symbolInstances (ls_bucket st') = symbolInstances bucket1 @ new"
           "map tile_anchor new = (if in_extent env anchor then [(p_x anchor, p_y anchor)] else [])"
      by auto
    have i: "symbolInstances (ls_bucket st') = symbolInstances (ls_bucket st) @ new"
      using new(1) far(3) by simp
    have c: "compareText (ls_bucket st') =
               (compareText (ls_bucket st))(s_text sh \<mapsto> registered (ls_bucket st) (s_text sh) @ [anchor])"
      using addSymbolAtAnchor_props(2) [OF run] far(3) by simp
    have "\<exists>added. registered (ls_bucket st') t = registered (ls_bucket st) t @ added \<and>
               (Some (s_text sh) \<noteq> Some t \<longrightarrow> added = []) \<and>
               (Some (s_text sh) = Some t \<longrightarrow>
                  map tile_anchor new = map coords (filter (in_extent env) added))" for t
    proof (cases "t = s_text sh")
      case True
      have "registered (ls_bucket st') t = registered (ls_bucket st) t @ [anchor]"
        using c True by (simp add: registered_def)
      moreover have "map tile_anchor new = map coords (filter (in_extent env) [anchor])"
        using new(2) by (simp add: coords_def)
      ultimately show ?thesis using True by blast
    next
      case False
      have "registered (ls_bucket st') t = registered (ls_bucket st) t @ []"
        using c False by (simp add: registered_def)
      with False show ?thesis by blast
    qed
    with i show ?thesis unfolding accepts_def lab by blast
  qed
qed

lemma addLineAnchor_line_rel:
  assumes "addLineAnchor env b0 af icon line anchor st = Inr st'"
  shows "line_rel env (textRepeatDistance env b0) st st'"
  using addLineAnchor_rel [OF assms] addLineAnchor_accepts [OF assms] by (simp add: line_rel_def)

lemma addFeature_accepts:
  assumes run: "addFeature env bucket sto af = Inr st"
      and line: "symbol_placement (layout bucket) = placement_line"
  shows "accepts env (renderedText sto) bucket (ls_bucket st)"
proof -
  let ?d = "textRepeatDistance env bucket"
  obtain bucket1 vicon icon where fit: "fitIcons env bucket sto af = (bucket1, vicon, icon)"
    by (cases "fitIcons env bucket sto af") auto
  note fp = fitIcons_props [OF fit]
  define st0 where "st0 = \<lparr>ls_bucket = bucket1, ls_shapedTextOrientations = sto,
                 ls_verticallyShapedIcon = vicon\<rparr>"
  let ?lineBody = "\<lambda>line st.
                forEach (addLineAnchor env bucket af icon line)
                  (getAnchors env line (symbolMinDistance env bucket)
                     (degToRad (text_max_angle (layout bucket)))
                     (verticalOrDefault (ls_shapedTextOrientations st)) icon (ONE_EM env)
                     (textMaxBoxScale env bucket (af_feature af) (af_sizes af) (af_layoutTextSize af))
                     (overscaling bucket) (EXTENT env))
                  st"
  have b1: "line_rel env ?d s s'" if "?lineBody line s = Inr s'" for line s s'
    using addLineAnchor_line_rel that by (rule forEach_line_rel)
  have "addFeature env bucket sto af =
          forEach ?lineBody (clipLine env (f_geometry (af_feature af)) 0 0 (EXTENT env) (EXTENT env)) st0"
    unfolding addFeature_def Let_def fit prod.case st0_def using line by simp
  with run have "forEach ?lineBody
      (clipLine env (f_geometry (af_feature af)) 0 0 (EXTENT env) (EXTENT env)) st0 = Inr st" by simp
  with b1 have "line_rel env ?d st0 st" by (rule forEach_line_rel)
  then have "accepts env (renderedText sto) bucket1 (ls_bucket st)"
    by (simp add: line_rel_def st0_def)
  then show ?thesis using fp(2,3) by (rule accepts_same)
qed

lemma shapedIconText_text:
  "s_text (shapedIconText env s icon ita lts lis) = s_text s"
  by (simp add: shapedIconText_def Let_def split: option.splits)

lemma renderedText_setDefaultShaping:
  assumes "defaultShaping sto = Some s" and "s_text s' = s_text s"
  shows "renderedText (setDefaultShaping sto s') = renderedText sto"
proof (cases "horizontal sto")
  case Nil
  with assms show ?thesis
    by (simp add: renderedText_def setDefaultShaping_def defaultShaping_def
          getDefaultHorizontalShaping_def)
next
  case (Cons kv rest)
  obtain k u where kv: "kv = (k, u)" by (cases kv)
  with Cons assms show ?thesis
    by (cases u)
       (simp_all add: renderedText_def setDefaultShaping_def defaultShaping_def
          getDefaultHorizontalShaping_def)
qed

lemma layoutFeature_accepts:
  assumes run: "layoutFeature env sizes pr h feature bucket = Inr bucket'"
      and line: "symbol_placement (layout bucket) = placement_line"
  shows "accepts env (featureText env sizes feature bucket) bucket bucket'"
proof -
  let ?lts = "sz_layoutTextSize sizes feature * sz_textScaleFactor sizes"
  let ?lis = "sz_layoutIconSize sizes feature * sz_iconScaleFactor sizes"
  obtain sto textOffset imageTextAnchor where
    t: "shapeFeatureText env bucket feature ?lts
          (text_size (layout bucket) feature * sz_textScaleFactor sizes) = (sto, textOffset, imageTextAnchor)"
    by (metis prod_cases3)
  have lab: "featureText env sizes feature bucket = renderedText sto"
    by (simp add: featureText_def t)
  obtain icon s u bucket1 where
    i: "shapeFeatureIcon env bucket sizes pr feature = (icon, s, u, bucket1)"
    by (metis prod_cases4)
  note ip = shapeFeatureIcon_props [OF i]
  define bucket2 where "bucket2 = (if \<not> bucket_iconsInText bucket1
                     then bucket1\<lparr>bucket_iconsInText :=
                            (case defaultShaping sto of Some s \<Rightarrow> iconsInText s | None \<Rightarrow> False)\<rparr>
                     else bucket1)"
  have b2: "config_of bucket2 = config_of bucket" "symbolInstances bucket2 = symbolInstances bucket"
    "compareText bucket2 = compareText bucket"
    using ip by (simp_all add: bucket2_def)
  define sto1 where "sto1 = (case (imageTextAnchor, defaultShaping sto) of
                    (Some ita, Some s) \<Rightarrow>
                      setDefaultShaping sto (shapedIconText env s icon ita ?lts ?lis)
                  | _ \<Rightarrow> sto)"
  have lab1: "renderedText sto1 = renderedText sto"
    by (cases imageTextAnchor; cases "defaultShaping sto")
       (simp_all add: sto1_def renderedText_setDefaultShaping shapedIconText_text)
  define af where "af = \<lparr>af_feature = feature, af_shapedIcon = icon, af_sizes = sizes,
                    af_layoutTextSize = ?lts, af_layoutIconSize = ?lis,
                    af_textOffset = textOffset, af_isSDFIcon = s,
                    af_isUSVGIcon = u,
                    af_hasAnySecondaryIcon = h\<rparr>"
  have eq: "layoutFeature env sizes pr h feature bucket =
      (if defaultShaping sto \<noteq> None \<or> icon \<noteq> None then
           (case addFeature env bucket2 sto1 af of
              Inl e \<Rightarrow> Inl e
            | Inr st \<Rightarrow> Inr (ls_bucket st))
         else Inr bucket2)"
    by (simp add: layoutFeature_def Let_def t i bucket2_def sto1_def af_def)
  show ?thesis
  proof (cases "defaultShaping sto \<noteq> None \<or> icon \<noteq> None")
    case False
    with eq run have "bucket' = bucket2" by simp
    with b2 show ?thesis by (simp add: accepts_def registered_def)
  next
    case True
    with eq run obtain st where st: "addFeature env bucket2 sto1 af = Inr st"
      and b': "bucket' = ls_bucket st"
      by (auto split: sum.splits)
    have "symbol_placement (layout bucket2) = placement_line"
      using config_fields(3) [OF b2(1)] line by simp
    from addFeature_accepts [OF st this]
    have "accepts env (renderedText sto) bucket2 bucket'" by (simp add: lab1 b')
    then show ?thesis unfolding lab using b2(2,3) by (rule accepts_same)
  qed
qed

lemma labelled_append:
  assumes "length ls1 = length xs1"
  shows "labelled t (ls1 @ ls2) (xs1 @ xs2) = labelled t ls1 xs1 @ labelled t ls2 xs2"
  using assms by (simp add: labelled_def)

lemma labelled_replicate:
  "labelled t (replicate (length xs) lab) xs = (if lab = Some t then xs else [])"
proof (induction xs)
  case Nil
  then show ?case by (simp add: labelled_def)
next
  case (Cons x xs)
  then show ?case by (auto simp: labelled_def)
qed

lemma layoutFeatures_accepts:
  assumes "layoutFeatures env sizes pr h fs bucket = Inr bucket'"
      and "symbol_placement (layout bucket) = placement_line"
  shows "\<exists>new. symbolInstances bucket' = symbolInstances bucket @ new \<and>
           length (layoutTexts env sizes pr h fs bucket) = length new \<and>
           (\<forall>t. \<exists>added. registered bucket' t = registered bucket t @ added \<and>
                  map tile_anchor (labelled t (layoutTexts env sizes pr h fs bucket) new) =
                    map coords (filter (in_extent env) added))"
  using assms
proof (induction fs arbitrary: bucket)
  case Nil
  then show ?case by (simp add: layoutFeatures_def labelled_def)
next
  case (Cons f fs)
  from Cons.prems(1) obtain b1 where
    f: "layoutFeature env sizes pr h f bucket = Inr b1" and
    rest: "layoutFeatures env sizes pr h fs b1 = Inr bucket'"
    by (auto simp: layoutFeatures_def split: sum.splits)
  let ?lab = "featureText env sizes f bucket"
  from layoutFeature_accepts [OF f Cons.prems(2)] obtain new1 where
    i1: "symbolInstances b1 = symbolInstances bucket @ new1" and
    r1: "\<And>t. \<exists>added. registered b1 t = registered bucket t @ added \<and>
               (?lab \<noteq> Some t \<longrightarrow> added = []) \<and>
               (?lab = Some t \<longrightarrow> map tile_anchor new1 = map coords (filter (in_extent env) added))"
    unfolding accepts_def by blast
  from layoutFeature_rel [OF f] have "config_of b1 = config_of bucket" by (simp add: bucket_rel_def)
  from config_fields(3) [OF this] Cons.prems(2)
  have line1: "symbol_placement (layout b1) = placement_line" by simp
  let ?L2 = "layoutTexts env sizes pr h fs b1"
  from Cons.IH [OF rest line1] obtain new2 where
    i2: "symbolInstances bucket' = symbolInstances b1 @ new2" and
    l2: "length ?L2 = length new2" and
    r2: "\<And>t. \<exists>added. registered bucket' t = registered b1 t @ added \<and>
                  map tile_anchor (labelled t ?L2 new2) = map coords (filter (in_extent env) added)"
    by blast
  have L: "layoutTexts env sizes pr h (f # fs) bucket = replicate (length new1) ?lab @ ?L2"
    using f i1 by simp
  have "\<exists>added. registered bucket' t = registered bucket t @ added \<and>
                  map tile_anchor (labelled t (layoutTexts env sizes pr h (f # fs) bucket) (new1 @ new2)) =
                    map coords (filter (in_extent env) added)" for t
  proof -
    from r1 [of t] obtain added1 where a1: "registered b1 t = registered bucket t @ added1"
      "?lab \<noteq> Some t \<longrightarrow> added1 = []"
      "?lab = Some t \<longrightarrow> map tile_anchor new1 = map coords (filter (in_extent env) added1)" by blast
    from r2 [of t] obtain added2 where a2: "registered bucket' t = registered b1 t @ added2"
      "map tile_anchor (labelled t ?L2 new2) = map coords (filter (in_extent env) added2)" by blast
    have "labelled t (replicate (length new1) ?lab @ ?L2) (new1 @ new2) =
            (if ?lab = Some t then new1 else []) @ labelled t ?L2 new2"
      by (simp add: labelled_append labelled_replicate)
    with a1 a2 have "registered bucket' t = registered bucket t @ (added1 @ added2) \<and>
                  map tile_anchor (labelled t (layoutTexts env sizes pr h (f # fs) bucket) (new1 @ new2)) =
                    map coords (filter (in_extent env) (added1 @ added2))"
      unfolding L by (cases "?lab = Some t") simp_all
    then show ?thesis by blast
  qed
  moreover have "symbolInstances bucket' = symbolInstances bucket @ (new1 @ new2)"
    using i1 i2 by simp
  moreover have "length (layoutTexts env sizes pr h (f # fs) bucket) = length (new1 @ new2)"
    unfolding L using l2 by simp
  ultimately show ?case by blast
qed

lemma sorted_wrt_filter_nth:
  "sorted_wrt P (filter Q zs) \<Longrightarrow> i < j \<Longrightarrow> j < length zs \<Longrightarrow> Q (zs ! i) \<Longrightarrow> Q (zs ! j)
     \<Longrightarrow> P (zs ! i) (zs ! j)"
proof (induction zs arbitrary: i j)
  case Nil
  then show ?case by simp
next
  case (Cons z zs)
  from Cons.prems(2) obtain j' where j: "j = Suc j'" by (cases j) auto
  have tail: "sorted_wrt P (filter Q zs)" using Cons.prems(1) by (cases "Q z") simp_all
  show ?case
  proof (cases i)
    case 0
    with Cons.prems(4) have q: "Q z" by simp
    have "zs ! j' \<in> set (filter Q zs)" using Cons.prems(3,5) j by simp
    with Cons.prems(1) q 0 j show ?thesis by simp
  next
    case (Suc i')
    with Cons.prems j have "i' < j'" "j' < length zs" "Q (zs ! i')" "Q (zs ! j')" by simp_all
    from Cons.IH [OF tail this] Suc j show ?thesis by simp
  qed
qed

lemma labelled_sorted:
  assumes "sorted_wrt P (map f (labelled t labels xs))" and "length labels = length xs"
      and "i < j" and "j < length xs" and "labels ! i = Some t" and "labels ! j = Some t"
  shows "P (f (xs ! i)) (f (xs ! j))"
proof -
  let ?zs = "zip labels xs"
  have s: "sorted_wrt (\<lambda>a b. P (f (snd a)) (f (snd b))) (filter (\<lambda>p. fst p = Some t) ?zs)"
    using assms(1) by (simp add: labelled_def sorted_wrt_map)
  have "(\<lambda>a b. P (f (snd a)) (f (snd b))) (?zs ! i) (?zs ! j)"
    using s assms(3)
  proof (rule sorted_wrt_filter_nth)
    show "j < length ?zs" using assms(2,4) by simp
    show "fst (?zs ! i) = Some t" using assms(2,3,4,5) by simp
    show "fst (?zs ! j) = Some t" using assms(2,4,6) by simp
  qed
  then show ?thesis using assms(2,3,4) by simp
qed

lemma dist_to_coords: "dist_to p q = dist_to (pointAt (coords p)) (pointAt (coords q))"
  by (simp add: dist_to_def pointAt_def coords_def)

lemma far_apart_registered:
  assumes "registry_inv d (compareText b)"
  shows "far_apart d (registered b t)"
  using assms by (cases "compareText b t") (simp_all add: registry_inv_def registered_def far_apart_def)

lemma performSymbolLayout_instances:
  assumes run: "performSymbolLayout env bucket showCollisionBoxes tileZoom scaleFactor0 pixelRatio0 = Inr bucket'"
      and line: "symbol_placement (layout bucket') = placement_line"
  shows "\<exists>new. symbolInstances bucket' = symbolInstances (resetBucket env bucket) @ new \<and>
           length (instanceTexts env bucket tileZoom scaleFactor0 pixelRatio0) = length new \<and>
           (\<forall>t. map tile_anchor (labelled t (instanceTexts env bucket tileZoom scaleFactor0 pixelRatio0) new) =
                  map coords (filter (in_extent env) (registered bucket' t))) \<and>
           (\<forall>i j t. i < j \<and> j < length new \<and>
                  instanceTexts env bucket tileZoom scaleFactor0 pixelRatio0 ! i = Some t \<and>
                  instanceTexts env bucket tileZoom scaleFactor0 pixelRatio0 ! j = Some t \<longrightarrow>
                  symbolMinDistance env bucket' / 2 \<le>
                    dist_to (pointAt (tile_anchor (new ! i))) (pointAt (tile_anchor (new ! j))))"
proof -
  define bucket1 where "bucket1 = resetBucket env bucket"
  define sizes where "sizes = layoutSizes env bucket1 tileZoom scaleFactor0"
  let ?h = "list_ex hasSecondaryIcon (features bucket1)"
  let ?L = "instanceTexts env bucket tileZoom scaleFactor0 pixelRatio0"
  let ?d = "symbolMinDistance env bucket' / 2"
  from run obtain bucket2 where
    lf: "layoutFeatures env sizes pixelRatio0 ?h (features bucket1) bucket1 = Inr bucket2"
    and b': "bucket' = (if showCollisionBoxes
                  then bucket2\<lparr>collisionDebugBuffers :=
                         generateCollisionDebugBuffers env tileZoom (collisionBoxArray bucket2)
                           (sz_textScaleFactor sizes)\<rparr>
                  else bucket2)"
    by (auto simp: performSymbolLayout_def Let_def bucket1_def sizes_def split: sum.splits)
  have L: "?L = layoutTexts env sizes pixelRatio0 ?h (features bucket1) bucket1"
    by (simp add: instanceTexts_def Let_def bucket1_def sizes_def)
  have same: "symbolInstances bucket' = symbolInstances bucket2" "compareText bucket' = compareText bucket2"
    by (simp_all add: b')
  from performSymbolLayout_registry(2) [OF run]
  have "config_of bucket' = config_of bucket1" by (simp add: bucket1_def)
  from config_fields(3) [OF this] line
  have line1: "symbol_placement (layout bucket1) = placement_line" by simp
  have e: "registered bucket1 t = []" for t
    by (simp add: bucket1_def resetBucket_def Let_def registered_def)
  from layoutFeatures_accepts [OF lf line1] obtain new where
    i: "symbolInstances bucket2 = symbolInstances bucket1 @ new" and
    len: "length ?L = length new" and
    r: "\<And>t. \<exists>added. registered bucket2 t = registered bucket1 t @ added \<and>
                  map tile_anchor (labelled t ?L new) = map coords (filter (in_extent env) added)"
    unfolding L by blast
  have reg: "map tile_anchor (labelled t ?L new) = map coords (filter (in_extent env) (registered bucket' t))"
    for t
  proof -
    from r [of t] obtain added where "registered bucket2 t = registered bucket1 t @ added"
      "map tile_anchor (labelled t ?L new) = map coords (filter (in_extent env) added)" by blast
    moreover have "registered bucket' t = registered bucket2 t" using same(2) by (simp add: registered_def)
    ultimately show ?thesis using e [of t] by simp
  qed
  have far: "?d \<le> dist_to (pointAt (tile_anchor (new ! i))) (pointAt (tile_anchor (new ! j)))"
    if "i < j" "j < length new" "?L ! i = Some t" "?L ! j = Some t" for i j t
  proof -
    have "far_apart ?d (registered bucket' t)"
      using far_apart_registered [OF performSymbolLayout_registry(1) [OF run]]
      by (simp add: textRepeatDistance_def)
    then have "sorted_wrt (\<lambda>p q. ?d \<le> dist_to p q) (filter (in_extent env) (registered bucket' t))"
      unfolding far_apart_def by (rule sorted_wrt_filter)
    then have "sorted_wrt (\<lambda>p q. ?d \<le> dist_to (pointAt (coords p)) (pointAt (coords q)))
                 (filter (in_extent env) (registered bucket' t))"
      by (simp add: dist_to_coords [symmetric])
    then have "sorted_wrt (\<lambda>c c'. ?d \<le> dist_to (pointAt c) (pointAt c'))
                 (map coords (filter (in_extent env) (registered bucket' t)))"
      by (simp add: sorted_wrt_map)
    then have "sorted_wrt (\<lambda>c c'. ?d \<le> dist_to (pointAt c) (pointAt c'))
                 (map tile_anchor (labelled t ?L new))"
      by (simp only: reg)
    from labelled_sorted [OF this len that] show ?thesis .
  qed
  have "symbolInstances bucket' = symbolInstances (resetBucket env bucket) @ new"
    using i same(1) by (simp add: bucket1_def)
  with len reg far show ?thesis by blast
qed

lemmas layout_evaluation =
  example_layout_sel example_env_sel example_bucket_sel
  performSymbolLayout_def resetBucket_def layoutSizes_def layoutFeatures_def
  layoutFeature_def shapeFeatureText_def shapeFeatureIcon_def addFeature_def fitIcons_def
  addLineAnchor_def anchorIsTooClose_def addSymbolAtAnchor_def addSymbol_def
  addSymbol_locals_def addSymbol_init_def addSymbol_vertical_def addSymbol_icon_def
  addSymbol_textCollision_def addSymbol_verticalText_def addTextVertices_def
  addSymbol_write_def textSizeVertex_def addSymbols_def boxInto_def
  evaluateBoxCollisionFeature_def evaluateCircleCollisionFeature_def
  symbolArgs_def example_line_bucket_def example_line_feature_def example_feature_def
  example_shaping_def obj_keys_def obj_get_def falsy_index_def hasIconTextFit_of_def
  textAlongLine_of_def iconAlongLine_of_def defaultShaping_def verticalOrDefault_def
  getDefaultHorizontalShaping_def textRepeatDistance_def symbolMinDistance_def
  tilePixelRatioForSymbolSpacing_def textMaxBoxScale_def clamp_def startsWith_def
  getAnchorJustification_def object_prototype_keys_def dist_to_less_iff
  line_anchor_def tile_anchor_def symbolTextOffset_def getCollisionCircleHeight_def
  placedTextIndex_def collisionFeatureAnchor_def MAX_GLYPHS_def warnOnce_def
  degToRad_def hasSecondaryIcon_def Let_def split_def


lemma example_two_lines_texts:
  "instanceTexts example_env example_two_lines_bucket 14 1 1 =
     [Some ''Main St'', Some ''Main St'', Some ''Main St'']"
  by (simp add: layout_evaluation example_two_lines_bucket_def example_second_line_feature_def
        instanceTexts_def featureText_def renderedText_def numeral_3_eq_3)

lemma example_two_lines_reset:
  "symbolInstances (resetBucket example_env example_two_lines_bucket) = []"
  by (simp add: layout_evaluation example_two_lines_bucket_def)

lemma example_three_lines_layout:
  "map_sum id (\<lambda>b. (compareText b ''Main St'', compareText b ''Elm St'',
                    map tile_anchor (symbolInstances b), symbol_placement (layout b)))
     (performSymbolLayout example_env example_three_lines_bucket False 14 1 1) =
   Inr (Some [line_anchor 100 100, line_anchor 1000 100, line_anchor 500 100],
        Some [line_anchor 100 120],
        [(100, 100), (1000, 100), (500, 100), (100, 120)], placement_line)"
  by (simp add: layout_evaluation example_three_lines_bucket_def example_second_line_feature_def
        example_elm_feature_def)

lemma example_three_lines_texts:
  "instanceTexts example_env example_three_lines_bucket 14 1 1 =
     [Some ''Main St'', Some ''Main St'', Some ''Main St'', Some ''Elm St'']"
  by (simp add: layout_evaluation example_three_lines_bucket_def example_second_line_feature_def
        example_elm_feature_def instanceTexts_def featureText_def renderedText_def
        numeral_3_eq_3)

lemma example_three_lines_reset:
  "symbolInstances (resetBucket example_env example_three_lines_bucket) = []"
  "config_of (resetBucket example_env example_three_lines_bucket) =
     config_of example_three_lines_bucket"
  "symbolMinDistance example_env example_three_lines_bucket / 2 = 200"
  by (simp_all add: layout_evaluation example_three_lines_bucket_def)

lemma justify_key_not_0: "justify_key j \<noteq> ''0''"
  by (cases j) simp_all

lemma shapeJustifications_single:
  assumes "obj_get hor ''0'' = None"
  shows "snd (shapeJustifications shape js (hor, True)) = True \<and>
         (\<forall>k. obj_get (fst (shapeJustifications shape js (hor, True))) k = obj_get hor k) \<and>
         set (obj_keys (fst (shapeJustifications shape js (hor, True)))) =
           set (obj_keys hor) \<union> justify_key ` set js"
  using assms
proof (induction js arbitrary: hor)
  case Nil
  then show ?case by simp
next
  case (Cons j js)
  show ?case
  proof (cases "obj_get hor (justify_key j)")
    case (Some present)
    from obj_get_Some_key [OF Some] have "justify_key j \<in> set (obj_keys hor)" .
    with Some Cons.IH [OF Cons.prems] show ?thesis by auto
  next
    case None
    let ?hor1 = "obj_set hor (justify_key j) (obj_get hor ''0'')"
    have g: "obj_get ?hor1 k = obj_get hor k" for k
      using None Cons.prems by (simp add: obj_get_obj_set)
    have k: "set (obj_keys ?hor1) = insert (justify_key j) (set (obj_keys hor))"
      by (auto simp: obj_keys_obj_set)
    from g [of "''0''"] Cons.prems have "obj_get ?hor1 ''0'' = None" by simp
    from Cons.IH [OF this] None g k show ?thesis by auto
  qed
qed

lemma shapeJustifications_first_single:
  assumes "shape j = Some s" and "length (positionedLines s) = 1"
  shows "obj_get (fst (shapeJustifications shape (j # js) ([], False))) (justify_key j) = Some s \<and>
         (\<forall>j' \<in> set js. justify_key j' \<noteq> justify_key j \<longrightarrow>
            justify_key j' \<in> set (obj_keys (fst (shapeJustifications shape (j # js) ([], False)))) \<and>
            obj_get (fst (shapeJustifications shape (j # js) ([], False))) (justify_key j') = None)"
proof -
  let ?hor1 = "[(justify_key j, Some s)]"
  have step: "shapeJustifications shape (j # js) ([], False) =
                shapeJustifications shape js (?hor1, True)"
    using assms by (simp add: obj_get_def)
  have z: "obj_get ?hor1 ''0'' = None"
    using justify_key_not_0 [of j] by (simp add: obj_get_def)
  from shapeJustifications_single [OF z, of shape js] show ?thesis
    unfolding step by (auto simp: obj_get_def obj_keys_def)
qed

lemma clip_textSizeVertex [simp]:
  "textSizeVertex (env\<lparr>clipLine := c\<rparr>) = textSizeVertex env"
  by (simp add: fun_eq_iff Let_def split_def textSizeVertex_def MAX_PACKED_SIZE_def
        cong: option.case_cong sum.case_cong prod.case_cong SizeData.case_cong if_cong list.case_cong)

lemma clip_iconSizeVertex [simp]:
  "iconSizeVertex (env\<lparr>clipLine := c\<rparr>) = iconSizeVertex env"
  by (simp add: fun_eq_iff Let_def split_def iconSizeVertex_def MAX_PACKED_SIZE_def
        cong: option.case_cong sum.case_cong prod.case_cong SizeData.case_cong if_cong list.case_cong)

lemma clip_addSymbols [simp]:
  "addSymbols (env\<lparr>clipLine := c\<rparr>) = addSymbols env"
  by (simp add: fun_eq_iff Let_def split_def addSymbols_def MAX_PACKED_SIZE_def
        cong: option.case_cong sum.case_cong prod.case_cong SizeData.case_cong if_cong list.case_cong)

lemma clip_addTextVertices [simp]:
  "addTextVertices (env\<lparr>clipLine := c\<rparr>) = addTextVertices env"
  by (simp add: fun_eq_iff Let_def split_def addTextVertices_def
        cong: option.case_cong sum.case_cong prod.case_cong SizeData.case_cong if_cong list.case_cong)

lemma clip_addSymbol_init [simp]:
  "addSymbol_init (env\<lparr>clipLine := c\<rparr>) = addSymbol_init env"
  by (simp add: fun_eq_iff Let_def split_def addSymbol_init_def
        cong: option.case_cong sum.case_cong prod.case_cong SizeData.case_cong if_cong list.case_cong)

lemma clip_addSymbol_icon [simp]:
  "addSymbol_icon (env\<lparr>clipLine := c\<rparr>) = addSymbol_icon env"
  by (simp add: fun_eq_iff Let_def split_def addSymbol_icon_def
        cong: option.case_cong sum.case_cong prod.case_cong SizeData.case_cong if_cong list.case_cong)

lemma clip_addSymbol_textCollision [simp]:
  "addSymbol_textCollision (env\<lparr>clipLine := c\<rparr>) = addSymbol_textCollision env"
  by (simp add: fun_eq_iff Let_def split_def addSymbol_textCollision_def
        cong: option.case_cong sum.case_cong prod.case_cong SizeData.case_cong if_cong list.case_cong)

lemma clip_addSymbol_horizontal [simp]:
  "addSymbol_horizontal (env\<lparr>clipLine := c\<rparr>) a ks l = addSymbol_horizontal env a ks l"
  by (induction ks arbitrary: l) (auto simp: Let_def split_def split: option.splits sum.splits)

lemma clip_addSymbol_verticalText [simp]:
  "addSymbol_verticalText (env\<lparr>clipLine := c\<rparr>) = addSymbol_verticalText env"
  by (simp add: fun_eq_iff Let_def split_def addSymbol_verticalText_def
        cong: option.case_cong sum.case_cong prod.case_cong SizeData.case_cong if_cong list.case_cong)

lemma clip_addSymbol_write [simp]:
  "addSymbol_write (env\<lparr>clipLine := c\<rparr>) = addSymbol_write env"
  by (simp add: fun_eq_iff Let_def split_def addSymbol_write_def symbolTextOffset_def
        cong: option.case_cong sum.case_cong prod.case_cong SizeData.case_cong if_cong list.case_cong)

lemma clip_addSymbol [simp]:
  "addSymbol (env\<lparr>clipLine := c\<rparr>) = addSymbol env"
  by (simp add: fun_eq_iff Let_def split_def addSymbol_def addSymbol_locals_def
        cong: option.case_cong sum.case_cong prod.case_cong SizeData.case_cong if_cong list.case_cong)

lemma clip_addSymbolAtAnchor [simp]:
  "addSymbolAtAnchor (env\<lparr>clipLine := c\<rparr>) = addSymbolAtAnchor env"
  by (simp add: fun_eq_iff Let_def split_def addSymbolAtAnchor_def symbolArgs_def
        cong: option.case_cong sum.case_cong prod.case_cong SizeData.case_cong if_cong list.case_cong)

lemma clip_symbolMinDistance [simp]:
  "symbolMinDistance (env\<lparr>clipLine := c\<rparr>) = symbolMinDistance env"
  by (simp add: fun_eq_iff Let_def split_def symbolMinDistance_def tilePixelRatioForSymbolSpacing_def
        cong: option.case_cong sum.case_cong prod.case_cong SizeData.case_cong if_cong list.case_cong)

lemma clip_addLineAnchor [simp]:
  "addLineAnchor (env\<lparr>clipLine := c\<rparr>) = addLineAnchor env"
  by (simp add: fun_eq_iff Let_def split_def addLineAnchor_def textRepeatDistance_def
        cong: option.case_cong sum.case_cong prod.case_cong SizeData.case_cong if_cong list.case_cong)

lemma clip_fitIcons [simp]:
  "fitIcons (env\<lparr>clipLine := c\<rparr>) = fitIcons env"
  by (auto simp: fun_eq_iff fitIcons_def Let_def split: option.splits bool.splits)












lemma min_clamp: "min (m::real) d = (if d > m then m else d)"
  by simp

lemma textSizeVertex_packed:
  assumes "sizes_ok bucket sizes"
  shows "\<exists>bucket1. textSizeVertex env bucket sizes feature =
            Inr (if packedTextSizes env bucket sizes feature = [] then None
                 else Some (packedTextSizes env bucket sizes feature), bucket1) \<and>
           phase_frame bucket1 = phase_frame bucket \<and>
           text_buffers bucket1 = text_buffers bucket \<and> icon_buffers bucket1 = icon_buffers bucket \<and>
           glyphOffsetArray bucket1 = glyphOffsetArray bucket \<and>
           warnOnceHistory bucket1 =
             historyAfter env (TextSizeWarning (firstLayerId bucket))
               (packedTextSizes env bucket sizes feature) (warnOnceHistory bucket)"
  using assms
  by (cases "textSizeData bucket")
     (auto simp: textSizeVertex_def packedTextSizes_def sizes_ok_def historyAfter_def
        loggedOnce_def warnOnce_def Let_def)

lemma iconSizeVertex_packed:
  assumes "sizes_ok bucket sizes"
  shows "\<exists>bucket1. iconSizeVertex env bucket sizes feature =
            Inr (if packedIconSizes env bucket sizes feature = [] then None
                 else Some (packedIconSizes env bucket sizes feature), bucket1) \<and>
           phase_frame bucket1 = phase_frame bucket \<and>
           text_buffers bucket1 = text_buffers bucket \<and> icon_buffers bucket1 = icon_buffers bucket \<and>
           glyphOffsetArray bucket1 = glyphOffsetArray bucket \<and>
           warnOnceHistory bucket1 =
             historyAfter env (IconSizeWarning (firstLayerId bucket))
               (packedIconSizes env bucket sizes feature) (warnOnceHistory bucket)"
  using assms
  by (cases "iconSizeData bucket")
     (auto simp: iconSizeVertex_def packedIconSizes_def sizes_ok_def historyAfter_def
        loggedOnce_def warnOnce_def Let_def)

lemma addSymbols_stored:
  "placedSymbolArray (fst (addSymbols env stores quads (if packed = [] then None else Some packed)
       lo al wm an ls ll ai hs)) =
     placedSymbolArray (fst stores) @
       [\<lparr>ps_tileAnchorX = p_x an, ps_tileAnchorY = p_y an, ps_numGlyphs = length quads,
         ps_sizeData = storedSizes env packed, ps_lineOffset = lo, ps_alongLine = al,
         ps_writingMode = wm, ps_lineStartIndex = ls, ps_lineLength = ll,
         ps_associatedIconIndex = ai, ps_hasAnySecondaryIcon = hs\<rparr>]"
  by (simp add: addSymbols_def storedSizes_def min_clamp)

lemma addTextVertices_packed:
  assumes "sizes_ok bucket sizes"
  shows "\<exists>n bucket' indices ps.
           addTextVertices env bucket globe tileAnchor shapedText along feature textOffset
             la writingMode placementTypes idx placedIconIndex sizes =
             Inr (n, bucket', indices) \<and>
           placedSymbolArray (text_buffers bucket') = placedSymbolArray (text_buffers bucket) @ [ps] \<and>
           ps_sizeData ps = storedSizes env (packedTextSizes env bucket sizes feature) \<and>
           warnOnceHistory bucket' =
             historyAfter env (TextSizeWarning (firstLayerId bucket))
               (packedTextSizes env bucket sizes feature) (warnOnceHistory bucket)"
proof -
  from textSizeVertex_packed [OF assms, of env feature] obtain bucket1 where
    sv: "textSizeVertex env bucket sizes feature =
            Inr (if packedTextSizes env bucket sizes feature = [] then None
                 else Some (packedTextSizes env bucket sizes feature), bucket1)" and
    tb: "text_buffers bucket1 = text_buffers bucket" and
    h: "warnOnceHistory bucket1 =
             historyAfter env (TextSizeWarning (firstLayerId bucket))
               (packedTextSizes env bucket sizes feature) (warnOnceHistory bucket)"
    by blast
  show ?thesis
    unfolding addTextVertices_def Let_def sv sum.case prod.case split_def
    using tb h by (simp add: addSymbols_stored)
qed

lemma packedIconSizes_boxes [simp]:
  "packedIconSizes env (b\<lparr>collisionBoxArray := c\<rparr>) sizes f = packedIconSizes env b sizes f"
  by (simp add: packedIconSizes_def cong: SizeData.case_cong)

lemma firstLayerId_boxes [simp]:
  "firstLayerId (b\<lparr>collisionBoxArray := c\<rparr>) = firstLayerId b"
  by (simp add: firstLayerId_def)

lemma addSymbol_icon_packed:
  assumes ok: "sizes_ok (l_bucket l) (a_sizes a)" and icon: "a_shapedIcon a = Some shapedIcon"
  shows "\<exists>l' ps rest.
           addSymbol_icon env a fit l = Inr l' \<and>
           placedSymbolArray (icon_buffers (l_bucket l')) =
             placedSymbolArray (icon_buffers (l_bucket l)) @ ps # rest \<and>
           (l_verticallyShapedIcon l = None \<longrightarrow> rest = []) \<and>
           (\<forall>q \<in> set (ps # rest).
              ps_sizeData q = storedSizes env (packedIconSizes env (l_bucket l) (a_sizes a) (a_feature a))) \<and>
           warnOnceHistory (l_bucket l') =
             historyAfter env (IconSizeWarning (firstLayerId (l_bucket l)))
               (packedIconSizes env (l_bucket l) (a_sizes a) (a_feature a))
               (warnOnceHistory (l_bucket l))"
proof -
  let ?scale = "if a_isUSVGIcon a
                then sz_iconScaleFactor (a_sizes a) *
                     (if a_isUSVGIcon a
                      then getRasterizedIconSize env (iconSizeData (l_bucket l))
                             (icon_size_at (layout (l_bucket l))) (zoom (l_bucket l)) (a_feature a)
                      else 1)
                else 1"
  let ?b1 = "snd (boxInto a (l_bucket l) shapedIcon (a_iconPadding a)
                 (icon_rotate (layout (l_bucket l)) (a_feature a)) None ?scale)"
  have b1: "?b1 = (l_bucket l)\<lparr>collisionBoxArray := collisionBoxArray ?b1\<rparr>"
    by (simp add: boxInto_eq)
  have ok1: "sizes_ok ?b1 (a_sizes a)" using ok by simp
  have p1: "packedIconSizes env ?b1 (a_sizes a) (a_feature a) =
            packedIconSizes env (l_bucket l) (a_sizes a) (a_feature a)"
    by (simp add: boxInto_eq)
  have f1: "firstLayerId ?b1 = firstLayerId (l_bucket l)"
    "warnOnceHistory ?b1 = warnOnceHistory (l_bucket l)" "icon_buffers ?b1 = icon_buffers (l_bucket l)"
    by (simp_all add: boxInto_eq)
  from iconSizeVertex_packed [OF ok1, of env "a_feature a"] obtain bucket2 where
    sv: "iconSizeVertex env ?b1 (a_sizes a) (a_feature a) =
            Inr (if packedIconSizes env (l_bucket l) (a_sizes a) (a_feature a) = [] then None
                 else Some (packedIconSizes env (l_bucket l) (a_sizes a) (a_feature a)), bucket2)" and
    ib: "icon_buffers bucket2 = icon_buffers (l_bucket l)" and
    h: "warnOnceHistory bucket2 =
             historyAfter env (IconSizeWarning (firstLayerId (l_bucket l)))
               (packedIconSizes env (l_bucket l) (a_sizes a) (a_feature a))
               (warnOnceHistory (l_bucket l))"
    unfolding p1 f1 by blast
  show ?thesis
  proof (cases "l_verticallyShapedIcon l")
    case None
    show ?thesis
      unfolding addSymbol_icon_def Let_def icon option.case split_def sv sum.case prod.case None
        option.map
      using ib h by (simp add: addSymbols_stored)
  next
    case (Some vicon)
    show ?thesis
      unfolding addSymbol_icon_def Let_def icon option.case split_def sv sum.case prod.case Some
        option.map
      using ib h by (simp add: addSymbols_stored)
  qed
qed

lemma example_big_facts:
  "sizes_ok example_big_bucket (af_sizes example_args)"
  "packedTextSizes example_env example_big_bucket (af_sizes example_args) example_feature = [38400]"
  "storedSizes example_env [38400] = Some [32640]"
  "historyAfter example_env w [38400] h = loggedOnce w h"
  "firstLayerId example_big_bucket = Some ''road-label''"
  "warnOnceHistory example_big_bucket = []"
  "placedSymbolArray (text_buffers example_big_bucket) = []"
  "textSizeData example_big_bucket = Size_source"
  "text_size (layout example_big_bucket) example_feature = 300"
  "layerIds example_big_bucket = [''road-label'']"
  "sz_textScaleFactor (af_sizes example_args) = 1"
  "SIZE_PACK_FACTOR example_env = 128"
  "iconSizeData example_big_bucket = Size_source"
  by (simp_all add: sizes_ok_def example_big_bucket_def example_bucket_sel example_layout_sel
        example_env_sel packedTextSizes_def storedSizes_def historyAfter_def MAX_PACKED_SIZE_def
        MAX_GLYPH_ICON_SIZE_def firstLayerId_def example_args_def layoutSizes_def clamp_def)

lemma example_big_icon_facts:
  "sizes_ok (l_bucket example_big_locals) (a_sizes example_full_args)"
  "a_shapedIcon example_full_args = Some example_icon"
  "packedIconSizes example_env (l_bucket example_big_locals) (a_sizes example_full_args)
     (a_feature example_full_args) = [51200]"
  "storedSizes example_env [51200] = Some [32640]"
  "historyAfter example_env w [51200] h = loggedOnce w h"
  "firstLayerId (l_bucket example_big_locals) = Some ''road-label''"
  "warnOnceHistory (l_bucket example_big_locals) = []"
  "placedSymbolArray (icon_buffers (l_bucket example_big_locals)) = []"
  "l_verticallyShapedIcon example_big_locals = None"
  by (simp_all add: sizes_ok_def example_big_locals_def addSymbol_init_def split_def
        example_big_bucket_def example_bucket_sel example_layout_sel
        example_env_sel packedIconSizes_def storedSizes_def historyAfter_def MAX_PACKED_SIZE_def
        MAX_GLYPH_ICON_SIZE_def firstLayerId_def example_args_def layoutSizes_def clamp_def
        example_full_args_def example_symbol_args_def symbolArgs_def)










lemma example_variable_anchor_shapings:
  "horizontal (fst (shapeFeatureText example_env example_variable_anchor_bucket example_feature 16 16)) =
     [(''left'', Some example_shaping), (''right'', None)]"
  by (simp add: shapeFeatureText_def example_variable_anchor_bucket_def example_bucket_sel
        example_layout_sel example_env_sel example_feature_def textAlongLine_of_def
        getAnchorJustification_def startsWith_def obj_get_def example_shaping_def Let_def
        split_def)

lemma example_variable_anchor_layout:
  "map_sum id (\<lambda>b. map tile_anchor (symbolInstances b))
     (performSymbolLayout example_env example_variable_anchor_bucket False 14 1 1) =
   Inr [(10, 20), (8191, 0)]"
  by (simp add: layout_evaluation example_variable_anchor_bucket_def pointAnchor_def
        new_Anchor_def)

text \<open>
  C1: the loop of lines 305-325 over the requested justifications, started on the empty
  object. When the first justification is shaped to a shaping \<open>s\<close> with exactly one
  positioned line, the flag \<^verbatim>\<open>singleLine\<close> is set and line 313 assigns to every other
  requested justification the property \<^verbatim>\<open>0\<close> of the object, which is never set: each
  of these justifications is a key of the object whose value is \<^verbatim>\<open>undefined\<close>, not the
  shaping \<open>s\<close>. The comment above the assignment says that the shaping of the first
  justification is re-used. \<^verbatim>\<open>addSymbol\<close> leaves the loop over the keys after a shaping of
  one line, so the layout still returns.
\<close>

theorem single_line_shaping_not_reused:
  assumes "shape j = Some s" and "length (positionedLines s) = 1"
  shows "obj_get (fst (shapeJustifications shape (j # js) ([], False))) (justify_key j) = Some s \<and>
         (\<forall>j' \<in> set js. justify_key j' \<noteq> justify_key j \<longrightarrow>
            justify_key j' \<in> set (obj_keys (fst (shapeJustifications shape (j # js) ([], False)))) \<and>
            obj_get (fst (shapeJustifications shape (j # js) ([], False))) (justify_key j') = None)"
  using assms by (rule shapeJustifications_first_single)

theorem single_line_shaping_not_reused_witness:
  "shapeJustifications (\<lambda>justification. Some example_shaping) [J_left, J_right] ([], False) =
     ([(''left'', Some example_shaping), (''right'', None)], True) \<and>
   obj_get (fst (shapeJustifications (\<lambda>justification. Some example_shaping) [J_left, J_right]
                   ([], False))) ''left'' = Some example_shaping \<and>
   ''right'' \<in> set (obj_keys (fst (shapeJustifications (\<lambda>justification. Some example_shaping)
                                      [J_left, J_right] ([], False)))) \<and>
   obj_get (fst (shapeJustifications (\<lambda>justification. Some example_shaping) [J_left, J_right]
                   ([], False))) ''right'' = None \<and>
   horizontal (fst (shapeFeatureText example_env example_variable_anchor_bucket example_feature 16 16)) =
     [(''left'', Some example_shaping), (''right'', None)] \<and>
   map_sum id (\<lambda>b. map tile_anchor (symbolInstances b))
     (performSymbolLayout example_env example_variable_anchor_bucket False 14 1 1) =
     Inr [(10, 20), (8191, 0)]"
proof -
  have one: "length (positionedLines example_shaping) = 1" by (simp add: example_shaping_def)
  from single_line_shaping_not_reused
         [of "\<lambda>justification. Some example_shaping" J_left example_shaping "[J_right]", OF refl one]
  have "obj_get (fst (shapeJustifications (\<lambda>justification. Some example_shaping) [J_left, J_right]
                   ([], False))) ''left'' = Some example_shaping \<and>
   ''right'' \<in> set (obj_keys (fst (shapeJustifications (\<lambda>justification. Some example_shaping)
                                      [J_left, J_right] ([], False)))) \<and>
   obj_get (fst (shapeJustifications (\<lambda>justification. Some example_shaping) [J_left, J_right]
                   ([], False))) ''right'' = None"
    by simp
  moreover have "shapeJustifications (\<lambda>justification. Some example_shaping) [J_left, J_right] ([], False) =
     ([(''left'', Some example_shaping), (''right'', None)], True)"
    using one by (simp add: obj_get_def)
  ultimately show ?thesis
    using example_variable_anchor_shapings example_variable_anchor_layout by blast
qed

text \<open>
  C2: for a feature of type Point under \<^verbatim>\<open>symbol-placement = point\<close>, \<^verbatim>\<open>addFeature\<close>
  returns and appends one Symbol Instance for each point coordinate with x and y in
  [0, EXTENT), in the order of the coordinates; the tile anchor of each new instance is
  the coordinate itself, so a coordinate outside the range adds nothing and none is
  clamped. (\<^verbatim>\<open>addFeature\<close> is called with shapings as \<^verbatim>\<open>performSymbolLayout\<close> builds
  them, \<open>wf_sto\<close>, and with the composite sizes that the size data of the bucket asks
  for, \<open>sizes_ok\<close>.)
\<close>

theorem point_placement_instances:
  assumes "symbol_placement (layout bucket) = placement_point"
      and "f_type (af_feature af) = T_Point"
      and "wf_sto sto" and "sizes_ok bucket (af_sizes af)"
  shows "\<exists>st new. addFeature env bucket sto af = Inr st \<and>
           symbolInstances (ls_bucket st) = symbolInstances bucket @ new \<and>
           length new = length (filter (in_extent env) (concat (f_geometry (af_feature af)))) \<and>
           map tile_anchor new = map coords (filter (in_extent env) (concat (f_geometry (af_feature af))))"
  using assms by (rule point_feature_instances)

theorem point_placement_instances_witness:
  "\<exists>st new. addFeature example_env example_bucket example_sto example_args = Inr st \<and>
           symbolInstances (ls_bucket st) = symbolInstances example_bucket @ new \<and>
           length new = 2 \<and> map tile_anchor new = [(10, 20), (8191, 0)]"
  using point_placement_instances [OF example_point_feature(1,2) example_wf example_sizes_ok,
          of example_env]
  by (simp add: example_point_feature(3) coords_def numeral_2_eq_2)

text \<open>
  C3: line placement within one bucket build. \<open>instanceTexts\<close> labels each Symbol
  Instance that \<^verbatim>\<open>performSymbolLayout\<close> appends with the rendered text of its feature.
  For every text the instances with that label are, in order, the anchors registered
  under the text in \<^verbatim>\<open>bucket.compareText\<close> at the end of the build that lie in the tile:
  an accepted anchor stays registered for the whole build, and each registered anchor
  in the tile has exactly one instance. Any two instances with the same rendered text
  are at distance at least \<open>symbolMinDistance / 2\<close>, and so are any two anchors registered
  under one text. \<^verbatim>\<open>anchorIsTooClose\<close> rejects a candidate exactly when some anchor
  registered under the same text lies strictly within the distance, and registers the
  candidate otherwise (for a text that is not the name of a property inherited from
  \<^verbatim>\<open>Object.prototype\<close>, where the call raises).
\<close>

theorem line_anchor_repeat_distance:
  "(performSymbolLayout env bucket showCollisionBoxes tileZoom scaleFactor0 pixelRatio0 = Inr bucket' \<longrightarrow>
      symbol_placement (layout bucket') = placement_line \<longrightarrow>
      (\<exists>new. symbolInstances bucket' = symbolInstances (resetBucket env bucket) @ new \<and>
         length (instanceTexts env bucket tileZoom scaleFactor0 pixelRatio0) = length new \<and>
         (\<forall>t. map tile_anchor (labelled t (instanceTexts env bucket tileZoom scaleFactor0 pixelRatio0) new) =
                map coords (filter (in_extent env) (registered bucket' t))) \<and>
         (\<forall>i j t. i < j \<and> j < length new \<and>
                instanceTexts env bucket tileZoom scaleFactor0 pixelRatio0 ! i = Some t \<and>
                instanceTexts env bucket tileZoom scaleFactor0 pixelRatio0 ! j = Some t \<longrightarrow>
                symbolMinDistance env bucket' / 2 \<le>
                  dist_to (pointAt (tile_anchor (new ! i))) (pointAt (tile_anchor (new ! j)))))) \<and>
   (performSymbolLayout env bucket showCollisionBoxes tileZoom scaleFactor0 pixelRatio0 = Inr bucket' \<longrightarrow>
      compareText bucket' txt = Some anchors \<longrightarrow> i < j \<longrightarrow> j < length anchors \<longrightarrow>
      symbolMinDistance env bucket' / 2 \<le> dist_to (anchors ! i) (anchors ! j)) \<and>
   (txt' \<notin> set object_prototype_keys \<longrightarrow>
      anchorIsTooClose b txt' repeatDistance candidate =
        Inr (\<exists>other \<in> set (registered b txt'). dist_to candidate other < repeatDistance,
             if \<exists>other \<in> set (registered b txt'). dist_to candidate other < repeatDistance then b
             else b\<lparr>compareText := (compareText b)(txt' \<mapsto> registered b txt' @ [candidate])\<rparr>))"
proof (intro conjI impI)
  assume run: "performSymbolLayout env bucket showCollisionBoxes tileZoom scaleFactor0 pixelRatio0 = Inr bucket'"
    and line: "symbol_placement (layout bucket') = placement_line"
  then show "\<exists>new. symbolInstances bucket' = symbolInstances (resetBucket env bucket) @ new \<and>
         length (instanceTexts env bucket tileZoom scaleFactor0 pixelRatio0) = length new \<and>
         (\<forall>t. map tile_anchor (labelled t (instanceTexts env bucket tileZoom scaleFactor0 pixelRatio0) new) =
                map coords (filter (in_extent env) (registered bucket' t))) \<and>
         (\<forall>i j t. i < j \<and> j < length new \<and>
                instanceTexts env bucket tileZoom scaleFactor0 pixelRatio0 ! i = Some t \<and>
                instanceTexts env bucket tileZoom scaleFactor0 pixelRatio0 ! j = Some t \<longrightarrow>
                symbolMinDistance env bucket' / 2 \<le>
                  dist_to (pointAt (tile_anchor (new ! i))) (pointAt (tile_anchor (new ! j))))"
    by (rule performSymbolLayout_instances)
next
  assume run: "performSymbolLayout env bucket showCollisionBoxes tileZoom scaleFactor0 pixelRatio0 = Inr bucket'"
    and reg: "compareText bucket' txt = Some anchors" and ij: "i < j" "j < length anchors"
  from performSymbolLayout_registry(1) [OF run] reg
  have "far_apart (textRepeatDistance env bucket') anchors" by (simp add: registry_inv_def)
  from far_apart_nth [OF this ij]
  show "symbolMinDistance env bucket' / 2 \<le> dist_to (anchors ! i) (anchors ! j)"
    by (simp add: textRepeatDistance_def)
next
  assume "txt' \<notin> set object_prototype_keys"
  then show "anchorIsTooClose b txt' repeatDistance candidate =
        Inr (\<exists>other \<in> set (registered b txt'). dist_to candidate other < repeatDistance,
             if \<exists>other \<in> set (registered b txt'). dist_to candidate other < repeatDistance then b
             else b\<lparr>compareText := (compareText b)(txt' \<mapsto> registered b txt' @ [candidate])\<rparr>)"
    by (rule anchorIsTooClose_result)
qed

theorem line_anchor_repeat_distance_witness:
  "(\<exists>bucket'. performSymbolLayout example_env example_three_lines_bucket False 14 1 1 = Inr bucket' \<and>
      map tile_anchor (symbolInstances bucket') = [(100, 100), (1000, 100), (500, 100), (100, 120)] \<and>
      instanceTexts example_env example_three_lines_bucket 14 1 1 =
        [Some ''Main St'', Some ''Main St'', Some ''Main St'', Some ''Elm St''] \<and>
      map coords (filter (in_extent example_env) (registered bucket' ''Main St'')) =
        [(100, 100), (1000, 100), (500, 100)] \<and>
      map coords (filter (in_extent example_env) (registered bucket' ''Elm St'')) = [(100, 120)] \<and>
      symbolMinDistance example_env bucket' / 2 = 200 \<and>
      200 \<le> dist_to (pointAt (100, 100)) (pointAt (1000, 100)) \<and>
      200 \<le> dist_to (pointAt (100, 100)) (pointAt (500, 100)) \<and>
      200 \<le> dist_to (pointAt (1000, 100)) (pointAt (500, 100)) \<and>
      dist_to (pointAt (100, 100)) (pointAt (100, 120)) < 200 \<and>
      200 \<le> dist_to (line_anchor 100 100) (line_anchor 500 100)) \<and>
   anchorIsTooClose example_registry_bucket ''Main St'' 200 (line_anchor 150 100) =
     Inr (True, example_registry_bucket)"
proof (intro conjI)
  let ?L = "instanceTexts example_env example_three_lines_bucket 14 1 1"
  obtain bucket' where
    run: "performSymbolLayout example_env example_three_lines_bucket False 14 1 1 = Inr bucket'"
    and out: "(compareText bucket' ''Main St'', compareText bucket' ''Elm St'',
               map tile_anchor (symbolInstances bucket'), symbol_placement (layout bucket')) =
              (Some [line_anchor 100 100, line_anchor 1000 100, line_anchor 500 100],
               Some [line_anchor 100 120],
               [(100, 100), (1000, 100), (500, 100), (100, 120)], placement_line)"
    by (rule map_sum_InrE [OF example_three_lines_layout])
  from out have reg: "compareText bucket' ''Main St'' =
      Some [line_anchor 100 100, line_anchor 1000 100, line_anchor 500 100]"
    and reg2: "compareText bucket' ''Elm St'' = Some [line_anchor 100 120]"
    and inst: "map tile_anchor (symbolInstances bucket') =
                 [(100, 100), (1000, 100), (500, 100), (100, 120)]"
    and line: "symbol_placement (layout bucket') = placement_line" by simp_all
  have "config_of bucket' = config_of example_three_lines_bucket"
    using performSymbolLayout_registry(2) [OF run] by (simp only: example_three_lines_reset(2))
  from symbolMinDistance_config [OF this, of example_env]
  have d: "symbolMinDistance example_env bucket' / 2 = 200"
    by (simp only: example_three_lines_reset(3))
  from line_anchor_repeat_distance [THEN conjunct1, rule_format, OF run line] obtain new where
    new: "symbolInstances bucket' =
            symbolInstances (resetBucket example_env example_three_lines_bucket) @ new"
    and len: "length ?L = length new"
    and corr: "\<And>t. map tile_anchor (labelled t ?L new) =
                 map coords (filter (in_extent example_env) (registered bucket' t))"
    and far: "\<And>i j t. i < j \<and> j < length new \<and> ?L ! i = Some t \<and> ?L ! j = Some t \<Longrightarrow>
                 symbolMinDistance example_env bucket' / 2 \<le>
                   dist_to (pointAt (tile_anchor (new ! i))) (pointAt (tile_anchor (new ! j)))"
    by blast
  from new have n: "new = symbolInstances bucket'" by (simp add: example_three_lines_reset(1))
  from inst have l4: "length (symbolInstances bucket') = 4"
    using length_map [of tile_anchor "symbolInstances bucket'"] by simp
  have t0: "tile_anchor (symbolInstances bucket' ! 0) = (100, 100)"
    and t1: "tile_anchor (symbolInstances bucket' ! Suc 0) = (1000, 100)"
    and t2: "tile_anchor (symbolInstances bucket' ! 2) = (500, 100)"
    using nth_map [of 0 "symbolInstances bucket'" tile_anchor]
          nth_map [of "Suc 0" "symbolInstances bucket'" tile_anchor]
          nth_map [of 2 "symbolInstances bucket'" tile_anchor] l4 inst by simp_all
  have f01: "200 \<le> dist_to (pointAt (100, 100)) (pointAt (1000, 100))"
    using far [of 0 1 "''Main St''"] l4 by (simp add: n example_three_lines_texts d t0 t1)
  have f02: "200 \<le> dist_to (pointAt (100, 100)) (pointAt (500, 100))"
    using far [of 0 2 "''Main St''"] l4 by (simp add: n example_three_lines_texts d t0 t2)
  have f12: "200 \<le> dist_to (pointAt (1000, 100)) (pointAt (500, 100))"
    using far [of 1 2 "''Main St''"] l4 by (simp add: n example_three_lines_texts d t1 t2)
  have near: "dist_to (pointAt (100, 100)) (pointAt (100, 120)) < 200"
    by (simp add: dist_to_less_iff pointAt_def)
  from l4 obtain i0 i1 i2 i3 where insts: "symbolInstances bucket' = [i0, i1, i2, i3]"
    by (auto simp: numeral_eq_Suc length_Suc_conv)
  have c: "map coords (filter (in_extent example_env) (registered bucket' ''Main St'')) =
        [(100, 100), (1000, 100), (500, 100)]"
    using corr [of "''Main St''"] inst
    by (simp add: n example_three_lines_texts labelled_def insts)
  have c2: "map coords (filter (in_extent example_env) (registered bucket' ''Elm St'')) = [(100, 120)]"
    using corr [of "''Elm St''"] inst
    by (simp add: n example_three_lines_texts labelled_def insts)
  have ij: "(0::nat) < 2"
    "2 < length [line_anchor 100 100, line_anchor 1000 100, line_anchor 500 100]" by simp_all
  from line_anchor_repeat_distance [THEN conjunct2, THEN conjunct1, rule_format, OF run reg ij]
  have r02: "200 \<le> dist_to (line_anchor 100 100) (line_anchor 500 100)"
    by (simp add: d)
  from run inst c c2 d f01 f02 f12 near r02
  show "\<exists>bucket'. performSymbolLayout example_env example_three_lines_bucket False 14 1 1 = Inr bucket' \<and>
      map tile_anchor (symbolInstances bucket') = [(100, 100), (1000, 100), (500, 100), (100, 120)] \<and>
      instanceTexts example_env example_three_lines_bucket 14 1 1 =
        [Some ''Main St'', Some ''Main St'', Some ''Main St'', Some ''Elm St''] \<and>
      map coords (filter (in_extent example_env) (registered bucket' ''Main St'')) =
        [(100, 100), (1000, 100), (500, 100)] \<and>
      map coords (filter (in_extent example_env) (registered bucket' ''Elm St'')) = [(100, 120)] \<and>
      symbolMinDistance example_env bucket' / 2 = 200 \<and>
      200 \<le> dist_to (pointAt (100, 100)) (pointAt (1000, 100)) \<and>
      200 \<le> dist_to (pointAt (100, 100)) (pointAt (500, 100)) \<and>
      200 \<le> dist_to (pointAt (1000, 100)) (pointAt (500, 100)) \<and>
      dist_to (pointAt (100, 100)) (pointAt (100, 120)) < 200 \<and>
      200 \<le> dist_to (line_anchor 100 100) (line_anchor 500 100)"
    by (intro exI [of _ bucket'] conjI example_three_lines_texts)
next
  have close: "\<exists>other \<in> set (registered example_registry_bucket ''Main St'').
                 dist_to (line_anchor 150 100) other < 200"
    unfolding example_line_facts(2) using example_line_facts(3) by simp
  from line_anchor_repeat_distance
         [THEN conjunct2, THEN conjunct2, rule_format, OF example_line_facts(1),
          of example_registry_bucket 200 "line_anchor 150 100"]
  show "anchorIsTooClose example_registry_bucket ''Main St'' 200 (line_anchor 150 100) =
     Inr (True, example_registry_bucket)"
    by (simp only: close if_True)
qed

text \<open>
  C4: every Symbol Instance that \<^verbatim>\<open>addSymbol\<close> writes records the collision boxes of its
  four categories. The boxes that the call inserts are determined by its arguments:
  \<open>verticalTextBoxes\<close>, \<open>verticalIconBoxes\<close>, \<open>iconBoxes\<close> and \<open>textBoxes\<close> list, per
  category, the boxes that \<^verbatim>\<open>evaluateBoxCollisionFeature\<close> appends, and the store after the
  call is the store before it followed by these lists in this order. For a category
  with no box the instance records the length of the store at that moment as start and
  as end; for a category with boxes it records the index \<open>i\<close> of the last box the call
  inserted for the category, whose row of the store is that box, and \<open>i + 1\<close>. The text
  category has two boxes when the store is empty before the call and the first of
  several horizontal shapings has more than one line (\<^verbatim>\<open>!textBoxIndex\<close> holds for the
  index 0): the instance then records the second box, and the first is not referenced.
\<close>

theorem symbol_instance_box_indices:
  assumes "addSymbol env st a = Inr st'"
  shows "\<exists>inst. symbolInstances (ls_bucket st') = symbolInstances (ls_bucket st) @ [inst] \<and>
           collisionBoxArray (ls_bucket st') =
             collisionBoxArray (ls_bucket st) @ verticalTextBoxes a st @ verticalIconBoxes a st @
             iconBoxes env a st @ textBoxes a st (textBoxOffset env a st) \<and>
           recorded (collisionBoxArray (ls_bucket st')) (length (collisionBoxArray (ls_bucket st)))
             (verticalTextBoxes a st)
             (si_verticalTextBoxStartIndex inst) (si_verticalTextBoxEndIndex inst) \<and>
           recorded (collisionBoxArray (ls_bucket st'))
             (length (collisionBoxArray (ls_bucket st) @ verticalTextBoxes a st))
             (verticalIconBoxes a st)
             (si_verticalIconBoxStartIndex inst) (si_verticalIconBoxEndIndex inst) \<and>
           recorded (collisionBoxArray (ls_bucket st'))
             (length (collisionBoxArray (ls_bucket st) @ verticalTextBoxes a st @
                      verticalIconBoxes a st))
             (iconBoxes env a st)
             (si_iconBoxStartIndex inst) (si_iconBoxEndIndex inst) \<and>
           recorded (collisionBoxArray (ls_bucket st')) (textBoxOffset env a st)
             (textBoxes a st (textBoxOffset env a st))
             (si_textBoxStartIndex inst) (si_textBoxEndIndex inst)"
  using assms by (rule symbol_instance_boxes_exact)

theorem symbol_instance_box_indices_witness:
  "(\<exists>st' inst. addSymbol example_env example_full_state example_full_args = Inr st' \<and>
      symbolInstances (ls_bucket st') = [inst] \<and>
      length (collisionBoxArray (ls_bucket st')) = 4 \<and>
      si_verticalTextBoxStartIndex inst = 0 \<and> si_verticalTextBoxEndIndex inst = 1 \<and>
      si_verticalIconBoxStartIndex inst = 1 \<and> si_verticalIconBoxEndIndex inst = 2 \<and>
      si_iconBoxStartIndex inst = 2 \<and> si_iconBoxEndIndex inst = 3 \<and>
      si_textBoxStartIndex inst = 3 \<and> si_textBoxEndIndex inst = 4 \<and>
      collisionBoxArray (ls_bucket st') ! 3 =
        textBoxOf example_full_args example_full_state example_two_line_shaping) \<and>
   (\<exists>st' inst. addSymbol example_env example_variable_state example_symbol_args = Inr st' \<and>
      symbolInstances (ls_bucket st') = [inst] \<and>
      length (collisionBoxArray (ls_bucket st')) = 2 \<and>
      si_verticalTextBoxStartIndex inst = 2 \<and> si_verticalTextBoxEndIndex inst = 2 \<and>
      si_verticalIconBoxStartIndex inst = 2 \<and> si_verticalIconBoxEndIndex inst = 2 \<and>
      si_iconBoxStartIndex inst = 2 \<and> si_iconBoxEndIndex inst = 2 \<and>
      si_textBoxStartIndex inst = 1 \<and> si_textBoxEndIndex inst = 2)"
proof (rule conjI)
  from addSymbol_total [OF example_full_state_ok] obtain st' where
    st': "addSymbol example_env example_full_state example_full_args = Inr st'" by blast
  from symbol_instance_box_indices [OF st'] obtain inst where
    "symbolInstances (ls_bucket st') = symbolInstances (ls_bucket example_full_state) @ [inst]"
    "collisionBoxArray (ls_bucket st') =
       collisionBoxArray (ls_bucket example_full_state) @
       verticalTextBoxes example_full_args example_full_state @
       verticalIconBoxes example_full_args example_full_state @
       iconBoxes example_env example_full_args example_full_state @
       textBoxes example_full_args example_full_state
         (textBoxOffset example_env example_full_args example_full_state)"
    "recorded (collisionBoxArray (ls_bucket st'))
       (length (collisionBoxArray (ls_bucket example_full_state)))
       (verticalTextBoxes example_full_args example_full_state)
       (si_verticalTextBoxStartIndex inst) (si_verticalTextBoxEndIndex inst)"
    "recorded (collisionBoxArray (ls_bucket st'))
       (length (collisionBoxArray (ls_bucket example_full_state) @
                verticalTextBoxes example_full_args example_full_state))
       (verticalIconBoxes example_full_args example_full_state)
       (si_verticalIconBoxStartIndex inst) (si_verticalIconBoxEndIndex inst)"
    "recorded (collisionBoxArray (ls_bucket st'))
       (length (collisionBoxArray (ls_bucket example_full_state) @
                verticalTextBoxes example_full_args example_full_state @
                verticalIconBoxes example_full_args example_full_state))
       (iconBoxes example_env example_full_args example_full_state)
       (si_iconBoxStartIndex inst) (si_iconBoxEndIndex inst)"
    "recorded (collisionBoxArray (ls_bucket st'))
       (textBoxOffset example_env example_full_args example_full_state)
       (textBoxes example_full_args example_full_state
          (textBoxOffset example_env example_full_args example_full_state))
       (si_textBoxStartIndex inst) (si_textBoxEndIndex inst)"
    by blast
  then have
    "symbolInstances (ls_bucket st') = [inst] \<and>
      length (collisionBoxArray (ls_bucket st')) = 4 \<and>
      si_verticalTextBoxStartIndex inst = 0 \<and> si_verticalTextBoxEndIndex inst = 1 \<and>
      si_verticalIconBoxStartIndex inst = 1 \<and> si_verticalIconBoxEndIndex inst = 2 \<and>
      si_iconBoxStartIndex inst = 2 \<and> si_iconBoxEndIndex inst = 3 \<and>
      si_textBoxStartIndex inst = 3 \<and> si_textBoxEndIndex inst = 4 \<and>
      collisionBoxArray (ls_bucket st') ! 3 =
        textBoxOf example_full_args example_full_state example_two_line_shaping"
    by (simp add: example_full_boxes recorded_def nth_append)
  with st' show "\<exists>st' inst. addSymbol example_env example_full_state example_full_args = Inr st' \<and>
      symbolInstances (ls_bucket st') = [inst] \<and>
      length (collisionBoxArray (ls_bucket st')) = 4 \<and>
      si_verticalTextBoxStartIndex inst = 0 \<and> si_verticalTextBoxEndIndex inst = 1 \<and>
      si_verticalIconBoxStartIndex inst = 1 \<and> si_verticalIconBoxEndIndex inst = 2 \<and>
      si_iconBoxStartIndex inst = 2 \<and> si_iconBoxEndIndex inst = 3 \<and>
      si_textBoxStartIndex inst = 3 \<and> si_textBoxEndIndex inst = 4 \<and>
      collisionBoxArray (ls_bucket st') ! 3 =
        textBoxOf example_full_args example_full_state example_two_line_shaping"
    by blast
next
  from addSymbol_total [OF example_variable_state_ok] obtain st' where
    st': "addSymbol example_env example_variable_state example_symbol_args = Inr st'" by blast
  from symbol_instance_box_indices [OF st'] obtain inst where
    "symbolInstances (ls_bucket st') = symbolInstances (ls_bucket example_variable_state) @ [inst]"
    "collisionBoxArray (ls_bucket st') =
       collisionBoxArray (ls_bucket example_variable_state) @
       verticalTextBoxes example_symbol_args example_variable_state @
       verticalIconBoxes example_symbol_args example_variable_state @
       iconBoxes example_env example_symbol_args example_variable_state @
       textBoxes example_symbol_args example_variable_state
         (textBoxOffset example_env example_symbol_args example_variable_state)"
    "recorded (collisionBoxArray (ls_bucket st'))
       (length (collisionBoxArray (ls_bucket example_variable_state)))
       (verticalTextBoxes example_symbol_args example_variable_state)
       (si_verticalTextBoxStartIndex inst) (si_verticalTextBoxEndIndex inst)"
    "recorded (collisionBoxArray (ls_bucket st'))
       (length (collisionBoxArray (ls_bucket example_variable_state) @
                verticalTextBoxes example_symbol_args example_variable_state))
       (verticalIconBoxes example_symbol_args example_variable_state)
       (si_verticalIconBoxStartIndex inst) (si_verticalIconBoxEndIndex inst)"
    "recorded (collisionBoxArray (ls_bucket st'))
       (length (collisionBoxArray (ls_bucket example_variable_state) @
                verticalTextBoxes example_symbol_args example_variable_state @
                verticalIconBoxes example_symbol_args example_variable_state))
       (iconBoxes example_env example_symbol_args example_variable_state)
       (si_iconBoxStartIndex inst) (si_iconBoxEndIndex inst)"
    "recorded (collisionBoxArray (ls_bucket st'))
       (textBoxOffset example_env example_symbol_args example_variable_state)
       (textBoxes example_symbol_args example_variable_state
          (textBoxOffset example_env example_symbol_args example_variable_state))
       (si_textBoxStartIndex inst) (si_textBoxEndIndex inst)"
    by blast
  then have
    "symbolInstances (ls_bucket st') = [inst] \<and>
      length (collisionBoxArray (ls_bucket st')) = 2 \<and>
      si_verticalTextBoxStartIndex inst = 2 \<and> si_verticalTextBoxEndIndex inst = 2 \<and>
      si_verticalIconBoxStartIndex inst = 2 \<and> si_verticalIconBoxEndIndex inst = 2 \<and>
      si_iconBoxStartIndex inst = 2 \<and> si_iconBoxEndIndex inst = 2 \<and>
      si_textBoxStartIndex inst = 1 \<and> si_textBoxEndIndex inst = 2"
    by (simp add: example_variable_boxes recorded_def)
  with st' show "\<exists>st' inst. addSymbol example_env example_variable_state example_symbol_args = Inr st' \<and>
      symbolInstances (ls_bucket st') = [inst] \<and>
      length (collisionBoxArray (ls_bucket st')) = 2 \<and>
      si_verticalTextBoxStartIndex inst = 2 \<and> si_verticalTextBoxEndIndex inst = 2 \<and>
      si_verticalIconBoxStartIndex inst = 2 \<and> si_verticalIconBoxEndIndex inst = 2 \<and>
      si_iconBoxStartIndex inst = 2 \<and> si_iconBoxEndIndex inst = 2 \<and>
      si_textBoxStartIndex inst = 1 \<and> si_textBoxEndIndex inst = 2"
    by blast
qed

text \<open>
  C5: for every shaping, \<^verbatim>\<open>evaluateCircleCollisionFeature\<close> returns the larger of 10
  and the padded height when the padded height is strictly positive, so the diameter
  is never below 10, and returns the absent value when the padded height is at most 0.
\<close>

theorem circle_diameter_floor:
  "(0 < paddedHeight sh \<longrightarrow>
      fst (evaluateCircleCollisionFeature sh) = Some (max 10 (paddedHeight sh)) \<and>
      (\<forall>d. fst (evaluateCircleCollisionFeature sh) = Some d \<longrightarrow> 10 \<le> d)) \<and>
   (paddedHeight sh \<le> 0 \<longrightarrow> fst (evaluateCircleCollisionFeature sh) = None)"
  by (cases "collisionPadding sh")
     (auto simp: evaluateCircleCollisionFeature_def paddedHeight_def Let_def)

theorem circle_diameter_floor_witness:
  "0 < paddedHeight \<lparr>s_top = -2, s_bottom = 2, s_left = 0, s_right = 9,
                       collisionPadding = Some (0, 1, 0, 1)\<rparr> \<and>
   fst (evaluateCircleCollisionFeature
          \<lparr>s_top = -2, s_bottom = 2, s_left = 0, s_right = 9,
           collisionPadding = Some (0, 1, 0, 1)\<rparr>) = Some 10 \<and>
   paddedHeight \<lparr>s_top = 5, s_bottom = 3, s_left = 0, s_right = 9,
                  collisionPadding = Some (0, 1, 0, 1)\<rparr> \<le> 0 \<and>
   fst (evaluateCircleCollisionFeature
          \<lparr>s_top = 5, s_bottom = 3, s_left = 0, s_right = 9,
           collisionPadding = Some (0, 1, 0, 1)\<rparr>) = None"
  using circle_diameter_floor [of "\<lparr>s_top = -2, s_bottom = 2, s_left = 0, s_right = 9,
                                    collisionPadding = Some (0, 1, 0, 1)\<rparr>"]
        circle_diameter_floor [of "\<lparr>s_top = 5, s_bottom = 3, s_left = 0, s_right = 9,
                                    collisionPadding = Some (0, 1, 0, 1)\<rparr>"]
  by (simp add: paddedHeight_def)

text \<open>
  C6, as amended: for a feature of type Polygon under \<^verbatim>\<open>symbol-placement = point\<close>,
  \<^verbatim>\<open>addFeature\<close> returns and appends one Symbol Instance for each polygon that
  \<^verbatim>\<open>classifyRings(feature.geometry, 0)\<close> returns and whose pole of inaccessibility, found
  with the precision argument 16, has x and y in [0, EXTENT); the instance is anchored
  at that pole, whatever the number of vertices. A polygon whose pole is outside the
  range adds nothing.
\<close>

theorem polygon_point_instances:
  assumes "symbol_placement (layout bucket) = placement_point"
      and "f_type (af_feature af) = T_Polygon"
      and "wf_sto sto" and "sizes_ok bucket (af_sizes af)"
  shows "\<exists>st new. addFeature env bucket sto af = Inr st \<and>
           symbolInstances (ls_bucket st) = symbolInstances bucket @ new \<and>
           map tile_anchor new =
             map coords (filter (in_extent env)
               (map (\<lambda>polygon. findPoleOfInaccessibility env polygon 16)
                  (classifyRings env (f_geometry (af_feature af)) 0)))"
  using assms by (rule polygon_feature_instances)

theorem polygon_point_instances_witness:
  "\<exists>st new. addFeature example_env example_bucket example_sto
               (polygon_args [example_triangle, example_square]) = Inr st \<and>
           symbolInstances (ls_bucket st) = symbolInstances example_bucket @ new \<and>
           map tile_anchor new = [(150, 100), (1100, 1100)]"
  using polygon_point_instances [OF example_point_feature(1) example_polygon_feature(1) [of "[example_triangle, example_square]"]
          example_wf example_polygon_feature(2) [of "[example_triangle, example_square]"], where env = example_env]
  by (simp add: example_polygon_feature(3) example_poles coords_def)

text \<open>
  The claim as stated fails: a polygon lying in the buffer left of the tile yields no
  instance; a feature with two outer rings yields two; and a pole finder that answers
  inside the tile only when asked for the precision 2 yields none, since it is asked
  for 16.
\<close>

theorem polygon_one_instance_counterexample:
  "map_sum id (\<lambda>st. map tile_anchor (symbolInstances (ls_bucket st)))
     (addFeature example_env example_bucket example_sto (polygon_args [example_outside_triangle]))
     = Inr [] \<and>
   map_sum id (\<lambda>st. map tile_anchor (symbolInstances (ls_bucket st)))
     (addFeature example_env example_bucket example_sto
        (polygon_args [example_triangle, example_square]))
     = Inr [(150, 100), (1100, 1100)] \<and>
   map_sum id (\<lambda>st. map tile_anchor (symbolInstances (ls_bucket st)))
     (addFeature probe_env example_bucket example_sto (polygon_args [example_triangle]))
     = Inr []"
proof (intro conjI)
  show "map_sum id (\<lambda>st. map tile_anchor (symbolInstances (ls_bucket st)))
     (addFeature example_env example_bucket example_sto (polygon_args [example_outside_triangle]))
     = Inr []"
    using polygon_feature_instances [OF example_point_feature(1) example_polygon_feature(1) [of "[example_outside_triangle]"]
          example_wf example_polygon_feature(2) [of "[example_outside_triangle]"], where env = example_env]
    by (intro count_of_result)
       (simp add: example_polygon_feature(3) example_poles example_point_feature(4))
  show "map_sum id (\<lambda>st. map tile_anchor (symbolInstances (ls_bucket st)))
     (addFeature example_env example_bucket example_sto
        (polygon_args [example_triangle, example_square]))
     = Inr [(150, 100), (1100, 1100)]"
    using polygon_feature_instances [OF example_point_feature(1) example_polygon_feature(1) [of "[example_triangle, example_square]"]
          example_wf example_polygon_feature(2) [of "[example_triangle, example_square]"], where env = example_env]
    by (intro count_of_result)
       (simp add: example_polygon_feature(3) example_poles example_point_feature(4) coords_def)
  show "map_sum id (\<lambda>st. map tile_anchor (symbolInstances (ls_bucket st)))
     (addFeature probe_env example_bucket example_sto (polygon_args [example_triangle]))
     = Inr []"
    using polygon_feature_instances [OF example_point_feature(1) example_polygon_feature(1) [of "[example_triangle]"]
          example_wf example_polygon_feature(2) [of "[example_triangle]"], where env = probe_env]
    by (intro count_of_result)
       (simp add: example_polygon_feature(3) example_poles example_point_feature(4))
qed




text \<open>
  C8: the packed sizes of a feature are the evaluated \<^verbatim>\<open>text-size\<close> or \<^verbatim>\<open>icon-size\<close>
  multiplied by \<^verbatim>\<open>SIZE_PACK_FACTOR\<close> and the scale factor. \<^verbatim>\<open>addTextVertices\<close> and the icon
  part of \<^verbatim>\<open>addSymbol\<close> return without an error, the placed symbols they add store each
  packed value, replaced by \<^verbatim>\<open>MAX_PACKED_SIZE\<close> when it exceeds it, and when a packed value
  exceeds \<^verbatim>\<open>MAX_PACKED_SIZE\<close> the warning of the layer is in the log afterwards exactly as
  often as the sink of warnings allows: it is added unless it is already there. The
  configuration of the bucket is unchanged.
\<close>

theorem packed_size_clamped:
  "(sizes_ok bucket sizes \<longrightarrow>
      (\<exists>n bucket' indices ps.
         addTextVertices env bucket globe tileAnchor shapedText along feature textOffset
           la writingMode placementTypes idx placedIconIndex sizes = Inr (n, bucket', indices) \<and>
         placedSymbolArray (text_buffers bucket') = placedSymbolArray (text_buffers bucket) @ [ps] \<and>
         ps_sizeData ps = storedSizes env (packedTextSizes env bucket sizes feature) \<and>
         warnOnceHistory bucket' =
           historyAfter env (TextSizeWarning (firstLayerId bucket))
             (packedTextSizes env bucket sizes feature) (warnOnceHistory bucket) \<and>
         textSizeData bucket' = textSizeData bucket \<and> iconSizeData bucket' = iconSizeData bucket \<and>
         layout bucket' = layout bucket \<and> layerIds bucket' = layerIds bucket)) \<and>
   (sizes_ok (l_bucket l) (a_sizes a) \<longrightarrow> a_shapedIcon a = Some shapedIcon \<longrightarrow>
      (\<exists>l' ps rest.
         addSymbol_icon env a fit l = Inr l' \<and>
         placedSymbolArray (icon_buffers (l_bucket l')) =
           placedSymbolArray (icon_buffers (l_bucket l)) @ ps # rest \<and>
         (l_verticallyShapedIcon l = None \<longrightarrow> rest = []) \<and>
         (\<forall>q \<in> set (ps # rest).
            ps_sizeData q = storedSizes env (packedIconSizes env (l_bucket l) (a_sizes a) (a_feature a))) \<and>
         warnOnceHistory (l_bucket l') =
           historyAfter env (IconSizeWarning (firstLayerId (l_bucket l)))
             (packedIconSizes env (l_bucket l) (a_sizes a) (a_feature a))
             (warnOnceHistory (l_bucket l))))"
proof (intro conjI impI)
  assume ok: "sizes_ok bucket sizes"
  from addTextVertices_packed [OF ok, of env globe tileAnchor shapedText along feature textOffset
         la writingMode placementTypes idx placedIconIndex]
  obtain n bucket' indices ps where
    run: "addTextVertices env bucket globe tileAnchor shapedText along feature textOffset
           la writingMode placementTypes idx placedIconIndex sizes = Inr (n, bucket', indices)" and
    r: "placedSymbolArray (text_buffers bucket') = placedSymbolArray (text_buffers bucket) @ [ps]"
       "ps_sizeData ps = storedSizes env (packedTextSizes env bucket sizes feature)"
       "warnOnceHistory bucket' =
           historyAfter env (TextSizeWarning (firstLayerId bucket))
             (packedTextSizes env bucket sizes feature) (warnOnceHistory bucket)"
    by blast
  from addTextVertices_frame [OF run] have "phase_frame bucket' = phase_frame bucket" by simp
  note f = phase_frame_fields(3,4,5,13) [OF this]
  from run r f
  show "\<exists>n bucket' indices ps.
         addTextVertices env bucket globe tileAnchor shapedText along feature textOffset
           la writingMode placementTypes idx placedIconIndex sizes = Inr (n, bucket', indices) \<and>
         placedSymbolArray (text_buffers bucket') = placedSymbolArray (text_buffers bucket) @ [ps] \<and>
         ps_sizeData ps = storedSizes env (packedTextSizes env bucket sizes feature) \<and>
         warnOnceHistory bucket' =
           historyAfter env (TextSizeWarning (firstLayerId bucket))
             (packedTextSizes env bucket sizes feature) (warnOnceHistory bucket) \<and>
         textSizeData bucket' = textSizeData bucket \<and> iconSizeData bucket' = iconSizeData bucket \<and>
         layout bucket' = layout bucket \<and> layerIds bucket' = layerIds bucket"
    by blast
next
  assume "sizes_ok (l_bucket l) (a_sizes a)" and "a_shapedIcon a = Some shapedIcon"
  then show "\<exists>l' ps rest.
         addSymbol_icon env a fit l = Inr l' \<and>
         placedSymbolArray (icon_buffers (l_bucket l')) =
           placedSymbolArray (icon_buffers (l_bucket l)) @ ps # rest \<and>
         (l_verticallyShapedIcon l = None \<longrightarrow> rest = []) \<and>
         (\<forall>q \<in> set (ps # rest).
            ps_sizeData q = storedSizes env (packedIconSizes env (l_bucket l) (a_sizes a) (a_feature a))) \<and>
         warnOnceHistory (l_bucket l') =
           historyAfter env (IconSizeWarning (firstLayerId (l_bucket l)))
             (packedIconSizes env (l_bucket l) (a_sizes a) (a_feature a))
             (warnOnceHistory (l_bucket l))"
    by (rule addSymbol_icon_packed)
qed

theorem packed_size_clamped_witness:
  "(\<exists>n bucket' indices ps n2 bucket2 indices2 ps2.
      addTextVertices example_env example_big_bucket None (pointAnchor \<lparr>p_x = 10, p_y = 20\<rparr>)
        example_shaping False example_feature (0, 0) (0, 0) WM_horizontalOnly [''center''] [] (-1)
        (af_sizes example_args) = Inr (n, bucket', indices) \<and>
      placedSymbolArray (text_buffers bucket') = [ps] \<and> ps_sizeData ps = Some [32640] \<and>
      warnOnceHistory bucket' = [TextSizeWarning (Some ''road-label'')] \<and>
      addTextVertices example_env bucket' None (pointAnchor \<lparr>p_x = 10, p_y = 20\<rparr>)
        example_shaping False example_feature (0, 0) (0, 0) WM_horizontalOnly [''center''] [] (-1)
        (af_sizes example_args) = Inr (n2, bucket2, indices2) \<and>
      placedSymbolArray (text_buffers bucket2) = [ps, ps2] \<and> ps_sizeData ps2 = Some [32640] \<and>
      warnOnceHistory bucket2 = [TextSizeWarning (Some ''road-label'')]) \<and>
   (\<exists>l' ps. addSymbol_icon example_env example_full_args False example_big_locals = Inr l' \<and>
      placedSymbolArray (icon_buffers (l_bucket l')) = [ps] \<and> ps_sizeData ps = Some [32640] \<and>
      warnOnceHistory (l_bucket l') = [IconSizeWarning (Some ''road-label'')])"
proof (rule conjI)
  let ?run = "\<lambda>b. addTextVertices example_env b None (pointAnchor \<lparr>p_x = 10, p_y = 20\<rparr>)
        example_shaping False example_feature (0, 0) (0, 0) WM_horizontalOnly [''center''] [] (-1)
        (af_sizes example_args)"
  from packed_size_clamped [THEN conjunct1, rule_format, OF example_big_facts(1),
         of example_env None "pointAnchor \<lparr>p_x = 10, p_y = 20\<rparr>" example_shaping False
            example_feature "(0, 0)" "(0, 0)" WM_horizontalOnly "[''center'']" "[]" "-1"]
  obtain n bucket' indices ps where
    run: "?run example_big_bucket = Inr (n, bucket', indices)" and
    r: "placedSymbolArray (text_buffers bucket') = [ps]" "ps_sizeData ps = Some [32640]"
       "warnOnceHistory bucket' = [TextSizeWarning (Some ''road-label'')]" and
    f: "textSizeData bucket' = Size_source" "layout bucket' = layout example_big_bucket"
       "layerIds bucket' = [''road-label'']" "iconSizeData bucket' = Size_source"
    by (auto simp: example_big_facts loggedOnce_def)
  have ok': "sizes_ok bucket' (af_sizes example_args)" by (simp add: sizes_ok_def f(1,4))
  have p': "packedTextSizes example_env bucket' (af_sizes example_args) example_feature = [38400]"
    by (simp add: packedTextSizes_def f example_big_facts(9,11,12))
  have l': "firstLayerId bucket' = Some ''road-label''" by (simp add: firstLayerId_def f(3))
  from packed_size_clamped [THEN conjunct1, rule_format, OF ok',
         of example_env None "pointAnchor \<lparr>p_x = 10, p_y = 20\<rparr>" example_shaping False
            example_feature "(0, 0)" "(0, 0)" WM_horizontalOnly "[''center'']" "[]" "-1"]
  obtain n2 bucket2 indices2 ps2 where
    run2: "?run bucket' = Inr (n2, bucket2, indices2)" and
    r2: "placedSymbolArray (text_buffers bucket2) = [ps, ps2]" "ps_sizeData ps2 = Some [32640]"
       "warnOnceHistory bucket2 = [TextSizeWarning (Some ''road-label'')]"
    by (auto simp: p' l' r example_big_facts(3,4) loggedOnce_def)
  from run r run2 r2
  show "\<exists>n bucket' indices ps n2 bucket2 indices2 ps2.
      ?run example_big_bucket = Inr (n, bucket', indices) \<and>
      placedSymbolArray (text_buffers bucket') = [ps] \<and> ps_sizeData ps = Some [32640] \<and>
      warnOnceHistory bucket' = [TextSizeWarning (Some ''road-label'')] \<and>
      ?run bucket' = Inr (n2, bucket2, indices2) \<and>
      placedSymbolArray (text_buffers bucket2) = [ps, ps2] \<and> ps_sizeData ps2 = Some [32640] \<and>
      warnOnceHistory bucket2 = [TextSizeWarning (Some ''road-label'')]"
    by blast
next
  from packed_size_clamped [THEN conjunct2, rule_format, OF example_big_icon_facts(1,2),
         of example_env False]
  obtain l' ps rest where
    run: "addSymbol_icon example_env example_full_args False example_big_locals = Inr l'" and
    r: "placedSymbolArray (icon_buffers (l_bucket l')) = ps # rest"
       "ps_sizeData ps = Some [32640]"
       "warnOnceHistory (l_bucket l') = [IconSizeWarning (Some ''road-label'')]"
       "rest = []"
    by (auto simp: example_big_icon_facts loggedOnce_def)
  with run r
  show "\<exists>l' ps. addSymbol_icon example_env example_full_args False example_big_locals = Inr l' \<and>
      placedSymbolArray (icon_buffers (l_bucket l')) = [ps] \<and> ps_sizeData ps = Some [32640] \<and>
      warnOnceHistory (l_bucket l') = [IconSizeWarning (Some ''road-label'')]"
    by blast
qed



text \<open>
  C10: \<^verbatim>\<open>evaluateCircleCollisionFeature\<close> mutates its argument. With a collision padding
  the object after the call has its top lowered by \<^verbatim>\<open>collisionPadding[1]\<close> and its bottom
  raised by \<^verbatim>\<open>collisionPadding[3]\<close>, every other field (those of an extension included)
  as before; without one the object is unchanged. A second call on the same object pads
  again: the function is not idempotent on the object, and the second diameter can be
  larger than the first.
\<close>

theorem circle_mutates_shaping:
  "snd (evaluateCircleCollisionFeature sh) =
     (case collisionPadding sh of
        Some (p0, p1, p2, p3) \<Rightarrow> sh\<lparr>s_top := s_top sh - p1, s_bottom := s_bottom sh + p3\<rparr>
      | None \<Rightarrow> sh) \<and>
   (\<exists>s :: shaped.
      snd (evaluateCircleCollisionFeature (snd (evaluateCircleCollisionFeature s))) \<noteq>
        snd (evaluateCircleCollisionFeature s) \<and>
      (\<exists>d1 d2. fst (evaluateCircleCollisionFeature s) = Some d1 \<and>
         fst (evaluateCircleCollisionFeature (snd (evaluateCircleCollisionFeature s))) = Some d2 \<and>
         d1 < d2))"
proof
  show "snd (evaluateCircleCollisionFeature sh) =
     (case collisionPadding sh of
        Some (p0, p1, p2, p3) \<Rightarrow> sh\<lparr>s_top := s_top sh - p1, s_bottom := s_bottom sh + p3\<rparr>
      | None \<Rightarrow> sh)"
    by (cases "collisionPadding sh") (auto simp: evaluateCircleCollisionFeature_def Let_def)
next
  let ?s = "\<lparr>s_top = -6, s_bottom = 6, s_left = 0, s_right = 40,
             collisionPadding = Some (0, 1, 0, 2)\<rparr>"
  have once: "evaluateCircleCollisionFeature ?s =
      (Some 15, \<lparr>s_top = -7, s_bottom = 8, s_left = 0, s_right = 40,
                 collisionPadding = Some (0, 1, 0, 2)\<rparr>)"
    by (simp add: evaluateCircleCollisionFeature_def Let_def)
  have twice: "evaluateCircleCollisionFeature
       \<lparr>s_top = -7, s_bottom = 8, s_left = 0, s_right = 40, collisionPadding = Some (0, 1, 0, 2)\<rparr> =
      (Some 18, \<lparr>s_top = -8, s_bottom = 10, s_left = 0, s_right = 40,
                 collisionPadding = Some (0, 1, 0, 2)\<rparr>)"
    by (simp add: evaluateCircleCollisionFeature_def Let_def)
  show "\<exists>s :: shaped.
      snd (evaluateCircleCollisionFeature (snd (evaluateCircleCollisionFeature s))) \<noteq>
        snd (evaluateCircleCollisionFeature s) \<and>
      (\<exists>d1 d2. fst (evaluateCircleCollisionFeature s) = Some d1 \<and>
         fst (evaluateCircleCollisionFeature (snd (evaluateCircleCollisionFeature s))) = Some d2 \<and>
         d1 < d2)"
    by (rule exI [of _ ?s]) (simp add: once twice)
qed

end
